theory Spec2Isabelle
  imports Main "HOL-Library.Word" "HOL-Library.Monad_Syntax" "HOL-Library.Log_Nat"
begin

section \<open>Instance types of the AWS cloud provider\<close>

text \<open>
  A shallow embedding of \<^verbatim>\<open>pkg/cloudprovider/aws/instancetype.go\<close> and of the
  constants of the \<^verbatim>\<open>v1alpha1\<close> package it uses. A Go pointer is an \<open>option\<close>
  (\<open>None\<close> is \<^verbatim>\<open>nil\<close>). A method that can panic on a nil pointer returns an
  \<open>option\<close> as well: \<open>None\<close> is the run-time panic, \<open>Some\<close> the value returned.
  \<^verbatim>\<open>int64\<close> and \<^verbatim>\<open>int32\<close> are words, so their arithmetic wraps around.
\<close>

type_synonym int64 = "64 word"
type_synonym int32 = "32 word"

subsection \<open>Helpers of the AWS SDK, \<^verbatim>\<open>fmt\<close> and \<^verbatim>\<open>strings\<close>\<close>

text \<open>\<^verbatim>\<open>aws.StringValue\<close>, \<^verbatim>\<open>aws.Int64Value\<close>, \<^verbatim>\<open>ptr.Int32Value\<close> and
  \<^verbatim>\<open>aws.StringValueSlice\<close>: the value behind a pointer, the zero value for nil.\<close>

definition StringValue :: "string option \<Rightarrow> string" where
  "StringValue v = (case v of Some s \<Rightarrow> s | None \<Rightarrow> [])"

definition Int64Value :: "int64 option \<Rightarrow> int64" where
  "Int64Value v = (case v of Some n \<Rightarrow> n | None \<Rightarrow> 0)"

definition Int32Value :: "int32 option \<Rightarrow> int32" where
  "Int32Value v = (case v of Some n \<Rightarrow> n | None \<Rightarrow> 0)"

definition StringValueSlice :: "string option list \<Rightarrow> string list" where
  "StringValueSlice src = map StringValue src"

text \<open>\<^verbatim>\<open>fmt.Sprint\<close> of an integer is its decimal numeral, with a minus sign when
  negative.\<close>

fun decimal :: "nat \<Rightarrow> string" where
  "decimal n =
     (if n < 10 then [''0123456789'' ! n]
      else decimal (n div 10) @ [''0123456789'' ! (n mod 10)])"

declare decimal.simps [simp del]

definition Sprint_int :: "int \<Rightarrow> string" where
  "Sprint_int n = (if n < 0 then CHR ''-'' # decimal (nat (- n)) else decimal (nat n))"

text \<open>\<^verbatim>\<open>fmt.Sprint\<close> of a \<^verbatim>\<open>[]string\<close> writes the elements between square
  brackets, separated by one space.\<close>

fun join_space :: "string list \<Rightarrow> string" where
  "join_space [] = []"
| "join_space [s] = s"
| "join_space (s # t # ss) = s @ '' '' @ join_space (t # ss)"

definition Sprint_strings :: "string list \<Rightarrow> string" where
  "Sprint_strings ss = ''['' @ join_space ss @ '']''"

text \<open>\<^verbatim>\<open>strings.Split(s, sep)\<close> for a separator of one byte: the substrings between
  all occurrences of the separator, so one more than there are separators.\<close>

fun Split :: "string \<Rightarrow> char \<Rightarrow> string list" where
  "Split [] sep = [[]]"
| "Split (c # s) sep =
     (if c = sep then [] # Split s sep
      else (case Split s sep of [] \<Rightarrow> [[c]] | p # ps \<Rightarrow> (c # p) # ps))"

text \<open>\<^verbatim>\<open>strings.ReplaceAll(s, old, new)\<close> where old and new are one byte each.\<close>

definition ReplaceAll :: "string \<Rightarrow> char \<Rightarrow> char \<Rightarrow> string" where
  "ReplaceAll s old new = map (\<lambda>c. if c = old then new else c) s"

text \<open>\<^verbatim>\<open>strings.ToLower\<close>: a string of ASCII bytes only has its letters
  \<^verbatim>\<open>A\<close> to \<^verbatim>\<open>Z\<close> moved to lower case byte by byte; any other string is mapped
  rune by rune through the Unicode tables of the standard library, here the
  parameter \<open>unicodeLower\<close>.\<close>

definition isASCII :: "string \<Rightarrow> bool" where
  "isASCII s = list_all (\<lambda>c. (of_char c :: nat) < 128) s"

definition lowerByte :: "char \<Rightarrow> char" where
  "lowerByte c =
     (if 65 \<le> (of_char c :: nat) \<and> (of_char c :: nat) \<le> 90
      then char_of ((of_char c :: nat) + 32) else c)"

definition ToLower :: "(string \<Rightarrow> string) \<Rightarrow> string \<Rightarrow> string" where
  "ToLower unicodeLower s = (if isASCII s then map lowerByte s else unicodeLower s)"

definition lowerKabobCase :: "(string \<Rightarrow> string) \<Rightarrow> string \<Rightarrow> string" where
  "lowerKabobCase unicodeLower s = ToLower unicodeLower (ReplaceAll s CHR '' '' CHR ''-'')"

subsection \<open>Quantities\<close>

text \<open>
  A \<^verbatim>\<open>resource.Quantity\<close> of the Kubernetes API is an exact decimal number. It is
  modelled by its value in thousandths, the finest scale this program produces.
  \<^verbatim>\<open>resources.Quantity(fmt.Sprint(n))\<close> parses the decimal numeral of an integer and
  is the quantity \<open>n\<close>. \<^verbatim>\<open>fmt.Sprintf("%dMi", n)\<close> parsed is \<open>n\<close> times \<open>2 ^ 20\<close>,
  but the parser caps the magnitude of a quantity with a binary suffix at \<open>2 ^ 63 - 1\<close>:
  from \<open>2 ^ 43\<close> Mi up the quantity is \<open>2 ^ 63 - 1\<close>, and \<open>- (2 ^ 63 - 1)\<close> for a
  negative number of that size.
\<close>

datatype Quantity = MilliQuantity int

definition NewMilliQuantity :: "int \<Rightarrow> Quantity" where
  "NewMilliQuantity n = MilliQuantity n"

definition Quantity_of_int :: "int \<Rightarrow> Quantity" where
  "Quantity_of_int n = MilliQuantity (1000 * n)"

definition Quantity_Mi :: "int \<Rightarrow> Quantity" where
  "Quantity_Mi n =
     (let bytes = 1048576 * n;
          capped = (if 2 ^ 63 - 1 < bytes then 2 ^ 63 - 1
                    else if bytes < - (2 ^ 63 - 1) then - (2 ^ 63 - 1) else bytes)
      in MilliQuantity (1000 * capped))"

text \<open>
  \<^verbatim>\<open>MilliValue\<close> returns the thousandths as an \<^verbatim>\<open>int64\<close>. The program calls it on a
  quantity parsed from the decimal numeral of an \<^verbatim>\<open>int64\<close> only. When the
  thousandths of such a quantity do not fit \<^verbatim>\<open>int64\<close>, the library returns 0 for a
  numeral of up to 18 digits, which it keeps as an \<^verbatim>\<open>int64\<close>; a longer numeral is
  kept in arbitrary precision and the parameter \<open>other\<close> is what the library returns
  for it.
\<close>

fun MilliValue :: "(int \<Rightarrow> int64) \<Rightarrow> Quantity \<Rightarrow> int" where
  "MilliValue other (MilliQuantity n) =
     (if - (2 ^ 63) \<le> n \<and> n < 2 ^ 63 then n
      else if \<bar>n\<bar> < 10 ^ 21 then 0
      else sint (other n))"

fun Quantity_Add :: "Quantity \<Rightarrow> Quantity \<Rightarrow> Quantity" where
  "Quantity_Add (MilliQuantity a) (MilliQuantity b) = MilliQuantity (a + b)"

subsection \<open>\<^verbatim>\<open>float64\<close>\<close>

text \<open>
  A finite \<^verbatim>\<open>float64\<close> is a pair \<open>(m, e)\<close> of integers that denotes \<open>m * 2 ^ e\<close>,
  with a significand \<open>m\<close> of at most 53 bits. Every operation computes the exact result
  and rounds it to 53 significant bits, to the nearest value and to the even significand
  on a tie, as IEEE 754 binary64 arithmetic does. The exponent is not bounded: no value
  of this program comes near the largest or the smallest binary64 number.
\<close>

type_synonym float64 = "int \<times> int"

definition round_half_even :: "int \<Rightarrow> int \<Rightarrow> int" where
  "round_half_even n d =
     (let q = n div d; r = n mod d
      in if 2 * r < d then q else if d < 2 * r then q + 1 else if even q then q else q + 1)"

definition float64_round :: "int \<Rightarrow> int \<Rightarrow> float64" where
  "float64_round m e =
     (let s = bitlen \<bar>m\<bar> - 53
      in if s \<le> 0 then (m, e) else (round_half_even m (2 ^ nat s), e + s))"

text \<open>The \<^verbatim>\<open>float64\<close> nearest to the decimal constant \<open>n / d\<close>, for positive \<open>n\<close> and
  \<open>d\<close> with \<open>n / d\<close> below \<open>2 ^ 52\<close>, which the constants of this program are.\<close>

definition float64_const :: "int \<Rightarrow> int \<Rightarrow> float64" where
  "float64_const n d =
     (let t0 = 53 + bitlen d - bitlen n;
          t = (if 2 ^ 53 * d \<le> n * 2 ^ nat t0 then t0 - 1 else t0)
      in (round_half_even (n * 2 ^ nat t) d, - t))"

definition float64_of_int :: "int \<Rightarrow> float64" where
  "float64_of_int n = float64_round n 0"

definition float64_mul :: "float64 \<Rightarrow> float64 \<Rightarrow> float64" where
  "float64_mul a b = float64_round (fst a * fst b) (snd a + snd b)"

definition float64_add :: "float64 \<Rightarrow> float64 \<Rightarrow> float64" where
  "float64_add a b =
     (let e = min (snd a) (snd b)
      in float64_round (fst a * 2 ^ nat (snd a - e) + fst b * 2 ^ nat (snd b - e)) e)"

text \<open>\<^verbatim>\<open>z + x * y\<close>: Go lets an implementation fuse the two operations, and the product
  is not rounded then.\<close>

definition float64_add_mul :: "bool \<Rightarrow> float64 \<Rightarrow> float64 \<Rightarrow> float64 \<Rightarrow> float64" where
  "float64_add_mul fused z x y =
     (if fused then float64_add z (fst x * fst y, snd x + snd y)
      else float64_add z (float64_mul x y))"

text \<open>The product as it enters the sum: exact when fused, rounded otherwise.\<close>

definition added_product :: "bool \<Rightarrow> float64 \<Rightarrow> float64 \<Rightarrow> float64" where
  "added_product fuse x y =
     (if fuse then (fst x * fst y, snd x + snd y) else float64_mul x y)"

text \<open>The conversion of a \<^verbatim>\<open>float64\<close> to an integer discards the fraction
  (truncation towards zero).\<close>

definition float64_trunc :: "float64 \<Rightarrow> int" where
  "float64_trunc f =
     (if 0 \<le> snd f then fst f * 2 ^ nat (snd f)
      else sgn (fst f) * (\<bar>fst f\<bar> div 2 ^ nat (- snd f)))"

text \<open>The rational number a \<^verbatim>\<open>float64\<close> denotes.\<close>

definition float64_val :: "float64 \<Rightarrow> rat" where
  "float64_val f =
     (if 0 \<le> snd f then of_int (fst f * 2 ^ nat (snd f))
      else of_int (fst f) / of_int (2 ^ nat (- snd f)))"

text \<open>Where the truncated value does not fit the integer type, Go leaves the result to
  the implementation; the parameter \<open>other\<close> is what the implementation gives then.\<close>

definition int32_of_float64 :: "(float64 \<Rightarrow> int32) \<Rightarrow> float64 \<Rightarrow> int32" where
  "int32_of_float64 other f =
     (let t = float64_trunc f
      in if - (2 ^ 31) \<le> t \<and> t < 2 ^ 31 then word_of_int t else other f)"

definition int64_of_float64 :: "(float64 \<Rightarrow> int64) \<Rightarrow> float64 \<Rightarrow> int64" where
  "int64_of_float64 other f =
     (let t = float64_trunc f
      in if - (2 ^ 63) \<le> t \<and> t < 2 ^ 63 then word_of_int t else other f)"

subsection \<open>Data\<close>

text \<open>The structures of \<^verbatim>\<open>ec2.InstanceTypeInfo\<close> that the program reads. Every field
  of the SDK is a pointer, and the slices hold pointers.\<close>

record VCpuInfo =
  DefaultVCpus :: "int64 option"

record MemoryInfo =
  SizeInMiB :: "int64 option"

record GpuDeviceMemoryInfo =
  SizeInMiB :: "int64 option"

record GpuDeviceInfo =
  Count :: "int64 option"
  Manufacturer :: "string option"
  MemoryInfo :: "GpuDeviceMemoryInfo option"
  Name :: "string option"

record GpuInfo =
  Gpus :: "GpuDeviceInfo option list"

record InferenceDeviceInfo =
  Count :: "int64 option"

record InferenceAcceleratorInfo =
  Accelerators :: "InferenceDeviceInfo option list"

record InstanceStorageInfo =
  TotalSizeInGB :: "int64 option"

record NetworkInfo =
  Ipv4AddressesPerInterface :: "int64 option"
  MaximumNetworkInterfaces :: "int64 option"

record ProcessorInfo =
  SupportedArchitectures :: "string option list"

record InstanceTypeInfo =
  GpuInfo :: "GpuInfo option"
  InferenceAcceleratorInfo :: "InferenceAcceleratorInfo option"
  InstanceStorageInfo :: "InstanceStorageInfo option"
  InstanceType :: "string option"
  MemoryInfo :: "MemoryInfo option"
  NetworkInfo :: "NetworkInfo option"
  ProcessorInfo :: "ProcessorInfo option"
  VCpuInfo :: "VCpuInfo option"

text \<open>\<^verbatim>\<open>cloudprovider.Offering\<close> and the part of the provisioning configuration
  \<^verbatim>\<open>v1alpha1.AWS\<close> that the program reads: the AMI family and the block device
  mappings, each with a device name and an EBS volume with its size.\<close>

record Offering =
  CapacityType :: string
  Zone :: string

record BlockDevice =
  VolumeSize :: "Quantity option"

record BlockDeviceMapping =
  DeviceName :: "string option"
  EBS :: "BlockDevice option"

record AWS =
  AMIFamily :: "string option"
  BlockDeviceMappings :: "BlockDeviceMapping option list"

type_synonym ResourceList = "string \<rightharpoonup> Quantity"

type_synonym Requirements = "string \<rightharpoonup> string set"

record InstanceType =
  InstanceTypeInfo :: "InstanceTypeInfo option"
  offerings :: "Offering list"
  overhead :: ResourceList
  requirements :: Requirements
  resources :: ResourceList
  provider :: "AWS option"
  maxPods :: "int32 option"

text \<open>
  What the program takes from other packages, as parameters: of \<^verbatim>\<open>amifamily\<close>, for
  the AMI family selected by the configuration, the name of the root block device
  (\<^verbatim>\<open>GetAMIFamily(...).EphemeralBlockDevice()\<close>) and the overhead of its file system
  (\<^verbatim>\<open>EphemeralBlockDeviceOverhead()\<close>), and the volume size of the default volume
  \<^verbatim>\<open>DefaultEBS\<close> that the package declares; the
  table \<^verbatim>\<open>vpc.Limits\<close> of branch interfaces; the Unicode lower-case mapping; and the
  result of a floating-point conversion that does not fit \<^verbatim>\<open>int32\<close> or \<^verbatim>\<open>int64\<close>;
  and what \<^verbatim>\<open>MilliValue\<close> returns for a numeral of more than 18 digits.
  The platform also decides whether a product and the sum that takes it are fused into one
  operation, which Go allows (\<open>fused\<close>).
\<close>

record VPCLimits =
  BranchInterface :: int
  IsTrunkingCompatible :: bool

record Env =
  EphemeralBlockDevice :: "string option \<Rightarrow> string option"
  EphemeralBlockDeviceOverhead :: "string option \<Rightarrow> Quantity"
  DefaultEBS_VolumeSize :: "Quantity option"
  Limits :: "string \<rightharpoonup> VPCLimits"
  unicodeLower :: "string \<Rightarrow> string"
  int32_other :: "float64 \<Rightarrow> int32"
  int64_other :: "float64 \<Rightarrow> int64"
  MilliValue_other :: "int \<Rightarrow> int64"
  fused :: bool

subsection \<open>Constants\<close>

text \<open>The names of the Kubernetes API (\<^verbatim>\<open>v1\<close>) and of \<^verbatim>\<open>v1alpha5\<close>.\<close>

definition ResourceCPU :: string where "ResourceCPU = ''cpu''"
definition ResourceMemory :: string where "ResourceMemory = ''memory''"
definition ResourceEphemeralStorage :: string where "ResourceEphemeralStorage = ''ephemeral-storage''"
definition ResourcePods :: string where "ResourcePods = ''pods''"

definition LabelInstanceTypeStable :: string where
  "LabelInstanceTypeStable = ''node.kubernetes.io/instance-type''"
definition LabelArchStable :: string where "LabelArchStable = ''kubernetes.io/arch''"
definition LabelOSStable :: string where "LabelOSStable = ''kubernetes.io/os''"
definition LabelTopologyZone :: string where
  "LabelTopologyZone = ''topology.kubernetes.io/zone''"
definition LabelCapacityType :: string where
  "LabelCapacityType = ''karpenter.sh/capacity-type''"
definition OperatingSystemLinux :: string where "OperatingSystemLinux = ''linux''"
definition ArchitectureAmd64 :: string where "ArchitectureAmd64 = ''amd64''"
definition ArchitectureArm64 :: string where "ArchitectureArm64 = ''arm64''"

text \<open>The variables of the package \<^verbatim>\<open>v1alpha1\<close>.\<close>

definition LabelDomain :: string where "LabelDomain = ''karpenter.k8s.aws''"

definition AWSToKubeArchitectures :: "string \<rightharpoonup> string" where
  "AWSToKubeArchitectures =
     [''x86_64'' \<mapsto> ArchitectureAmd64, ArchitectureArm64 \<mapsto> ArchitectureArm64]"

definition ResourceNVIDIAGPU :: string where "ResourceNVIDIAGPU = ''nvidia.com/gpu''"
definition ResourceAMDGPU :: string where "ResourceAMDGPU = ''amd.com/gpu''"
definition ResourceAWSNeuron :: string where "ResourceAWSNeuron = ''aws.amazon.com/neuron''"
definition ResourceAWSPodENI :: string where "ResourceAWSPodENI = ''vpc.amazonaws.com/pod-eni''"
definition ResourceSmarterDevicesFuse :: string where
  "ResourceSmarterDevicesFuse = ''smarter-devices/fuse''"

definition InstanceFamilyLabelKey :: string where
  "InstanceFamilyLabelKey = LabelDomain @ ''/instance.family''"
definition InstanceSizeLabelKey :: string where
  "InstanceSizeLabelKey = LabelDomain @ ''/instance.size''"
definition InstanceCPULabelKey :: string where
  "InstanceCPULabelKey = LabelDomain @ ''/instance.cpu''"
definition InstanceMemoryLabelKey :: string where
  "InstanceMemoryLabelKey = LabelDomain @ ''/instance.memory''"
definition InstanceGPUNameLabelKey :: string where
  "InstanceGPUNameLabelKey = LabelDomain @ ''/instance.gpu.name''"
definition InstanceGPUManufacturerLabelKey :: string where
  "InstanceGPUManufacturerLabelKey = LabelDomain @ ''/instance.gpu.manufacturer''"
definition InstanceGPUCountLabelKey :: string where
  "InstanceGPUCountLabelKey = LabelDomain @ ''/instance.gpu.count''"
definition InstanceGPUMemoryLabelKey :: string where
  "InstanceGPUMemoryLabelKey = LabelDomain @ ''/instance.gpu.memory''"

text \<open>\<^verbatim>\<open>EC2VMAvailableMemoryFactor = .925\<close>, as the \<^verbatim>\<open>float64\<close> it becomes in
  \<^verbatim>\<open>memory\<close>.\<close>

definition EC2VMAvailableMemoryFactor :: float64 where
  "EC2VMAvailableMemoryFactor = float64_const 925 1000"

subsection \<open>The methods of \<^verbatim>\<open>InstanceType\<close>\<close>

definition Name :: "InstanceType \<Rightarrow> string option" where
  "Name i = do {
     info \<leftarrow> InstanceTypeInfo i;
     Some (StringValue (InstanceType info))
   }"

definition Offerings :: "InstanceType \<Rightarrow> Offering list" where
  "Offerings i = offerings i"

text \<open>The loop of \<^verbatim>\<open>architecture\<close>: the first architecture in the table decides.\<close>

fun architecture_loop :: "string option list \<Rightarrow> string option" where
  "architecture_loop [] = None"
| "architecture_loop (architecture # rest) =
     (case AWSToKubeArchitectures (StringValue architecture) of
        Some v \<Rightarrow> Some v
      | None \<Rightarrow> architecture_loop rest)"

definition architecture :: "InstanceType \<Rightarrow> string option" where
  "architecture i = do {
     info \<leftarrow> InstanceTypeInfo i;
     processorInfo \<leftarrow> ProcessorInfo info;
     (case architecture_loop (SupportedArchitectures processorInfo) of
        Some v \<Rightarrow> Some v
      | None \<Rightarrow> Some (Sprint_strings (StringValueSlice (SupportedArchitectures processorInfo))))
   }"

text \<open>Modelled from the spec: \<^verbatim>\<open>scheduling.Requirements.Add\<close> is not among the
  sources. The spec: requirement sets combine by union per key when merged. The program
  only adds keys that the requirements do not have yet, and those get the added set as
  it is.\<close>

definition Requirements_Add :: "Requirements \<Rightarrow> Requirements \<Rightarrow> Requirements" where
  "Requirements_Add r added =
     (\<lambda>key. case added key of
               None \<Rightarrow> r key
             | Some vs \<Rightarrow> (case r key of None \<Rightarrow> Some vs | Some existing \<Rightarrow> Some (existing \<union> vs)))"

text \<open>The weights of \<^verbatim>\<open>Price\<close>, as the \<^verbatim>\<open>float64\<close> values they become in its sum.\<close>

definition GPUCostWeight :: float64 where "GPUCostWeight = float64_const 5 1"
definition InferenceCostWeight :: float64 where "InferenceCostWeight = float64_const 5 1"
definition CPUCostWeight :: float64 where "CPUCostWeight = float64_const 1 1"
definition MemoryMBCostWeight :: float64 where "MemoryMBCostWeight = float64_const 1 1024"
definition LocalStorageWeight :: float64 where "LocalStorageWeight = float64_const 1 100"

fun Price_gpus :: "GpuDeviceInfo option list \<Rightarrow> float64 \<Rightarrow> float64 option" where
  "Price_gpus [] gpuCount = Some gpuCount"
| "Price_gpus (gpu # rest) gpuCount = do {
     g \<leftarrow> gpu;
     (case GpuDeviceInfo.Count g of
        Some n \<Rightarrow> Price_gpus rest (float64_add gpuCount (float64_of_int (sint n)))
      | None \<Rightarrow> Price_gpus rest gpuCount)
   }"

fun Price_accelerators :: "InferenceDeviceInfo option list \<Rightarrow> float64 \<Rightarrow> float64 option" where
  "Price_accelerators [] infCount = Some infCount"
| "Price_accelerators (acc # rest) infCount = do {
     a \<leftarrow> acc;
     (case InferenceDeviceInfo.Count a of
        Some n \<Rightarrow> Price_accelerators rest (float64_add infCount (float64_of_int (sint n)))
      | None \<Rightarrow> Price_accelerators rest infCount)
   }"

text \<open>The sum of \<^verbatim>\<open>Price\<close> is taken from the left. Where an implementation fuses a
  product with the sum before it, \<open>fused env\<close> holds; in the first sum either product may be
  the fused one, and both are exact (a product by 1 and one by \<open>1 / 1024\<close>).\<close>

definition Price :: "Env \<Rightarrow> InstanceType \<Rightarrow> float64 option" where
  "Price env i = do {
     info \<leftarrow> InstanceTypeInfo i;
     gpuCount \<leftarrow> (case GpuInfo info of
                    None \<Rightarrow> Some (0, 0)
                  | Some gpuInfo \<Rightarrow> Price_gpus (Gpus gpuInfo) (0, 0));
     infCount \<leftarrow> (case InferenceAcceleratorInfo info of
                    None \<Rightarrow> Some (0, 0)
                  | Some acceleratorInfo \<Rightarrow>
                      Price_accelerators (Accelerators acceleratorInfo) (0, 0));
     localStorageGiBs \<leftarrow> (case InstanceStorageInfo info of
                    None \<Rightarrow> Some (0, 0)
                  | Some storageInfo \<Rightarrow> do {
                      totalSizeInGB \<leftarrow> TotalSizeInGB storageInfo;
                      Some (float64_add (0, 0) (float64_of_int (sint totalSizeInGB)))
                    });
     vCpuInfo \<leftarrow> VCpuInfo info;
     defaultVCpus \<leftarrow> DefaultVCpus vCpuInfo;
     memoryInfo \<leftarrow> InstanceTypeInfo.MemoryInfo info;
     sizeInMiB \<leftarrow> MemoryInfo.SizeInMiB memoryInfo;
     Some (float64_add_mul (fused env)
            (float64_add_mul (fused env)
              (float64_add_mul (fused env)
                (float64_add_mul (fused env)
                  (float64_mul CPUCostWeight (float64_of_int (sint defaultVCpus)))
                  MemoryMBCostWeight (float64_of_int (sint sizeInMiB)))
                GPUCostWeight gpuCount)
              InferenceCostWeight infCount)
            localStorageGiBs LocalStorageWeight)
   }"

definition computeRequirements :: "Env \<Rightarrow> InstanceType \<Rightarrow> Requirements option" where
  "computeRequirements env i = do {
     name \<leftarrow> Name i;
     arch \<leftarrow> architecture i;
     info \<leftarrow> InstanceTypeInfo i;
     vCpuInfo \<leftarrow> VCpuInfo info;
     memoryInfo \<leftarrow> InstanceTypeInfo.MemoryInfo info;
     let requirements =
        [LabelInstanceTypeStable \<mapsto> {name},
         LabelArchStable \<mapsto> {arch},
         LabelOSStable \<mapsto> {OperatingSystemLinux},
         LabelTopologyZone \<mapsto> set (map Zone (Offerings i)),
         LabelCapacityType \<mapsto> set (map CapacityType (Offerings i)),
         InstanceCPULabelKey \<mapsto> {Sprint_int (sint (Int64Value (DefaultVCpus vCpuInfo)))},
         InstanceMemoryLabelKey \<mapsto>
           {Sprint_int (sint (Int64Value (MemoryInfo.SizeInMiB memoryInfo)))}];
     let instanceTypeParts = Split (StringValue (InstanceType info)) CHR ''.'';
     let requirements =
        (if length instanceTypeParts = 2
         then Requirements_Add requirements
                [InstanceFamilyLabelKey \<mapsto> {instanceTypeParts ! 0},
                 InstanceSizeLabelKey \<mapsto> {instanceTypeParts ! 1}]
         else requirements);
     (case GpuInfo info of
        None \<Rightarrow> Some requirements
      | Some gpuInfo \<Rightarrow>
          if length (Gpus gpuInfo) = 1 then do {
            gpu \<leftarrow> Gpus gpuInfo ! 0;
            gpuMemoryInfo \<leftarrow> GpuDeviceInfo.MemoryInfo gpu;
            Some (Requirements_Add requirements
              [InstanceGPUNameLabelKey \<mapsto>
                 {lowerKabobCase (unicodeLower env) (StringValue (GpuDeviceInfo.Name gpu))},
               InstanceGPUManufacturerLabelKey \<mapsto>
                 {lowerKabobCase (unicodeLower env) (StringValue (Manufacturer gpu))},
               InstanceGPUCountLabelKey \<mapsto>
                 {Sprint_int (sint (Int64Value (GpuDeviceInfo.Count gpu)))},
               InstanceGPUMemoryLabelKey \<mapsto>
                 {Sprint_int (sint (Int64Value (GpuDeviceMemoryInfo.SizeInMiB gpuMemoryInfo)))}])
          } else Some requirements)
   }"

definition cpu :: "InstanceType \<Rightarrow> Quantity option" where
  "cpu i = do {
     info \<leftarrow> InstanceTypeInfo i;
     vCpuInfo \<leftarrow> VCpuInfo info;
     defaultVCpus \<leftarrow> DefaultVCpus vCpuInfo;
     Some (Quantity_of_int (sint defaultVCpus))
   }"

definition memory :: "Env \<Rightarrow> InstanceType \<Rightarrow> Quantity option" where
  "memory env i = do {
     info \<leftarrow> InstanceTypeInfo i;
     memoryInfo \<leftarrow> InstanceTypeInfo.MemoryInfo info;
     sizeInMiB \<leftarrow> MemoryInfo.SizeInMiB memoryInfo;
     Some (Quantity_Mi (sint (int32_of_float64 (int32_other env)
       (float64_mul (float64_of_int (sint sizeInMiB)) EC2VMAvailableMemoryFactor))))
   }"

text \<open>The loop of \<^verbatim>\<open>ephemeralStorage\<close>: \<open>None\<close> is a panic, \<open>Some None\<close> the end of
  the loop without a return, \<open>Some (Some q)\<close> the return of \<open>q\<close> from inside the loop.\<close>

fun ephemeralStorage_loop ::
  "string option \<Rightarrow> BlockDeviceMapping option list \<Rightarrow> Quantity option option" where
  "ephemeralStorage_loop ephemeralBlockDevice [] = Some None"
| "ephemeralStorage_loop ephemeralBlockDevice (blockDevice # rest) = do {
     mapping \<leftarrow> blockDevice;
     deviceName \<leftarrow> DeviceName mapping;
     ephemeralName \<leftarrow> ephemeralBlockDevice;
     if deviceName = ephemeralName then do {
       ebs \<leftarrow> EBS mapping;
       volumeSize \<leftarrow> VolumeSize ebs;
       Some (Some volumeSize)
     } else ephemeralStorage_loop ephemeralBlockDevice rest
   }"

definition ephemeralStorage :: "Env \<Rightarrow> InstanceType \<Rightarrow> Quantity option" where
  "ephemeralStorage env i = do {
     aws \<leftarrow> provider i;
     found \<leftarrow> ephemeralStorage_loop (EphemeralBlockDevice env (AMIFamily aws))
                (BlockDeviceMappings aws);
     (case found of
        Some volumeSize \<Rightarrow> Some volumeSize
      | None \<Rightarrow> DefaultEBS_VolumeSize env)
   }"

definition eniLimitedPods :: "InstanceType \<Rightarrow> int64 option" where
  "eniLimitedPods i = do {
     info \<leftarrow> InstanceTypeInfo i;
     networkInfo \<leftarrow> NetworkInfo info;
     maximumNetworkInterfaces \<leftarrow> MaximumNetworkInterfaces networkInfo;
     ipv4AddressesPerInterface \<leftarrow> Ipv4AddressesPerInterface networkInfo;
     Some (maximumNetworkInterfaces * (ipv4AddressesPerInterface - 1) + 2)
   }"

definition pods :: "InstanceType \<Rightarrow> Quantity option" where
  "pods i =
     (case maxPods i of
        Some n \<Rightarrow> Some (Quantity_of_int (sint (Int32Value (maxPods i))))
      | None \<Rightarrow> do {
          n \<leftarrow> eniLimitedPods i;
          Some (Quantity_of_int (sint n))
        })"

definition awsPodENI :: "Env \<Rightarrow> InstanceType \<Rightarrow> bool \<Rightarrow> Quantity option" where
  "awsPodENI env i enablePodENI = do {
     info \<leftarrow> InstanceTypeInfo i;
     (case Limits env (StringValue (InstanceType info)) of
        Some limits \<Rightarrow>
          if enablePodENI \<and> IsTrunkingCompatible limits
          then Some (Quantity_of_int (BranchInterface limits))
          else Some (Quantity_of_int 0)
      | None \<Rightarrow> Some (Quantity_of_int 0))
   }"

fun nvidiaGPUs_loop :: "GpuDeviceInfo option list \<Rightarrow> int64 \<Rightarrow> int64 option" where
  "nvidiaGPUs_loop [] count = Some count"
| "nvidiaGPUs_loop (gpu # rest) count = do {
     g \<leftarrow> gpu;
     manufacturer \<leftarrow> Manufacturer g;
     if manufacturer = ''NVIDIA'' then do {
       n \<leftarrow> GpuDeviceInfo.Count g;
       nvidiaGPUs_loop rest (count + n)
     } else nvidiaGPUs_loop rest count
   }"

definition nvidiaGPUs :: "InstanceType \<Rightarrow> Quantity option" where
  "nvidiaGPUs i = do {
     info \<leftarrow> InstanceTypeInfo i;
     count \<leftarrow> (case GpuInfo info of
                 None \<Rightarrow> Some 0
               | Some gpuInfo \<Rightarrow> nvidiaGPUs_loop (Gpus gpuInfo) 0);
     Some (Quantity_of_int (sint count))
   }"

definition smarterDevicesFuse :: "InstanceType \<Rightarrow> Quantity" where
  "smarterDevicesFuse i = Quantity_of_int (sint (1 :: int64))"

fun amdGPUs_loop :: "GpuDeviceInfo option list \<Rightarrow> int64 \<Rightarrow> int64 option" where
  "amdGPUs_loop [] count = Some count"
| "amdGPUs_loop (gpu # rest) count = do {
     g \<leftarrow> gpu;
     manufacturer \<leftarrow> Manufacturer g;
     if manufacturer = ''AMD'' then do {
       n \<leftarrow> GpuDeviceInfo.Count g;
       amdGPUs_loop rest (count + n)
     } else amdGPUs_loop rest count
   }"

definition amdGPUs :: "InstanceType \<Rightarrow> Quantity option" where
  "amdGPUs i = do {
     info \<leftarrow> InstanceTypeInfo i;
     count \<leftarrow> (case GpuInfo info of
                 None \<Rightarrow> Some 0
               | Some gpuInfo \<Rightarrow> amdGPUs_loop (Gpus gpuInfo) 0);
     Some (Quantity_of_int (sint count))
   }"

fun awsNeurons_loop :: "InferenceDeviceInfo option list \<Rightarrow> int64 \<Rightarrow> int64 option" where
  "awsNeurons_loop [] count = Some count"
| "awsNeurons_loop (accelerator # rest) count = do {
     a \<leftarrow> accelerator;
     n \<leftarrow> InferenceDeviceInfo.Count a;
     awsNeurons_loop rest (count + n)
   }"

definition awsNeurons :: "InstanceType \<Rightarrow> Quantity option" where
  "awsNeurons i = do {
     info \<leftarrow> InstanceTypeInfo i;
     count \<leftarrow> (case InferenceAcceleratorInfo info of
                 None \<Rightarrow> Some 0
               | Some acceleratorInfo \<Rightarrow> awsNeurons_loop (Accelerators acceleratorInfo) 0);
     Some (Quantity_of_int (sint count))
   }"

definition computeResources :: "Env \<Rightarrow> InstanceType \<Rightarrow> bool \<Rightarrow> ResourceList option" where
  "computeResources env i enablePodENI = do {
     c \<leftarrow> cpu i;
     m \<leftarrow> memory env i;
     e \<leftarrow> ephemeralStorage env i;
     p \<leftarrow> pods i;
     eni \<leftarrow> awsPodENI env i enablePodENI;
     nvidia \<leftarrow> nvidiaGPUs i;
     amd \<leftarrow> amdGPUs i;
     neurons \<leftarrow> awsNeurons i;
     Some [ResourceCPU \<mapsto> c,
           ResourceMemory \<mapsto> m,
           ResourceEphemeralStorage \<mapsto> e,
           ResourcePods \<mapsto> p,
           ResourceAWSPodENI \<mapsto> eni,
           ResourceNVIDIAGPU \<mapsto> nvidia,
           ResourceAMDGPU \<mapsto> amd,
           ResourceAWSNeuron \<mapsto> neurons,
           ResourceSmarterDevicesFuse \<mapsto> smarterDevicesFuse i]
   }"

text \<open>The four ranges of \<^verbatim>\<open>computeOverhead\<close>; the percentages are the
  \<^verbatim>\<open>float64\<close> values of the decimal constants.\<close>

record cpuRange =
  start :: int
  end' :: int
  percentage :: float64

definition cpuRanges :: "cpuRange list" where
  "cpuRanges =
     [\<lparr>start = 0, end' = 1000, percentage = float64_const 6 100\<rparr>,
      \<lparr>start = 1000, end' = 2000, percentage = float64_const 1 100\<rparr>,
      \<lparr>start = 2000, end' = 4000, percentage = float64_const 5 1000\<rparr>,
      \<lparr>start = 4000, end' = 2 ^ 31, percentage = float64_const 25 10000\<rparr>]"

text \<open>The body of the loop over the ranges, for the range \<open>cpuRange\<close> and the overhead
  \<open>ovh\<close> so far. \<^verbatim>\<open>MilliValue\<close> is within \<^verbatim>\<open>int64\<close>; the
  differences \<open>end' - start\<close> and \<open>cpu - start\<close> are taken where \<open>start \<le> cpu\<close> and
  \<open>cpu < end'\<close>, so they cannot overflow.\<close>

definition computeOverhead_step ::
  "Env \<Rightarrow> InstanceType \<Rightarrow> cpuRange \<Rightarrow> ResourceList \<Rightarrow> ResourceList option" where
  "computeOverhead_step env i cpuRange ovh = do {
     cpuSt \<leftarrow> cpu i;
     let cpu = MilliValue (MilliValue_other env) cpuSt;
     if cpu \<ge> start cpuRange then do {
       let r = (if cpu < end' cpuRange
                then float64_of_int (cpu - start cpuRange)
                else float64_of_int (end' cpuRange - start cpuRange));
       let cpuOverhead = (case ovh ResourceCPU of
                            Some q \<Rightarrow> q
                          | None \<Rightarrow> MilliQuantity 0);
       let cpuOverhead = Quantity_Add cpuOverhead
             (NewMilliQuantity (sint (int64_of_float64 (int64_other env)
                (float64_mul r (percentage cpuRange)))));
       Some (ovh(ResourceCPU \<mapsto> cpuOverhead))
     } else Some ovh
   }"

fun computeOverhead_loop ::
  "Env \<Rightarrow> InstanceType \<Rightarrow> cpuRange list \<Rightarrow> ResourceList \<Rightarrow> ResourceList option" where
  "computeOverhead_loop env i [] ovh = Some ovh"
| "computeOverhead_loop env i (cpuRange # rest) ovh = do {
     next_overhead \<leftarrow> computeOverhead_step env i cpuRange ovh;
     computeOverhead_loop env i rest next_overhead
   }"

definition computeOverhead :: "Env \<Rightarrow> InstanceType \<Rightarrow> ResourceList option" where
  "computeOverhead env i = do {
     n \<leftarrow> eniLimitedPods i;
     aws \<leftarrow> provider i;
     let overhead =
        [ResourceCPU \<mapsto> NewMilliQuantity 100,
         ResourceMemory \<mapsto> Quantity_Mi (sint (((11 * n) + 255) + 100 + 100)),
         ResourceEphemeralStorage \<mapsto> EphemeralBlockDeviceOverhead env (AMIFamily aws)];
     computeOverhead_loop env i cpuRanges overhead
   }"

subsection \<open>Reading the derived lists\<close>

text \<open>One entry of the computed lists: \<open>None\<close> when the computation panics or the
  list has no such entry.\<close>

definition resource_of :: "Env \<Rightarrow> InstanceType \<Rightarrow> bool \<Rightarrow> string \<Rightarrow> Quantity option" where
  "resource_of env i enablePodENI name =
     (case computeResources env i enablePodENI of None \<Rightarrow> None | Some res \<Rightarrow> res name)"

definition overhead_of :: "Env \<Rightarrow> InstanceType \<Rightarrow> string \<Rightarrow> Quantity option" where
  "overhead_of env i name =
     (case computeOverhead env i of None \<Rightarrow> None | Some ov \<Rightarrow> ov name)"

definition requirement_of :: "Env \<Rightarrow> InstanceType \<Rightarrow> string \<Rightarrow> string set option" where
  "requirement_of env i key =
     (case computeRequirements env i of None \<Rightarrow> None | Some reqs \<Rightarrow> reqs key)"

subsection \<open>The formulas of the specification\<close>

text \<open>The four bands of the CPU overhead with their decimal rates, the fourth one ending
  at \<open>2 ^ 31\<close> as in the source: (start, end, rate).\<close>

definition bands :: "(int \<times> int \<times> rat) list" where
  "bands =
     [(0, 1000, 6 / 100), (1000, 2000, 1 / 100), (2000, 4000, 5 / 1000),
      (4000, 2 ^ 31, 25 / 10000)]"

text \<open>What a band adds for a total of \<open>milli\<close> thousandths of a CPU: the exact product,
  and the product truncated to a whole number of thousandths.\<close>

fun band_product :: "int \<Rightarrow> int \<times> int \<times> rat \<Rightarrow> rat" where
  "band_product milli (s, e, rate) =
     (if s \<le> milli then of_int (min milli e - s) * rate else 0)"

definition band_contribution :: "int \<Rightarrow> int \<times> int \<times> rat \<Rightarrow> int" where
  "band_contribution milli band = \<lfloor>band_product milli band\<rfloor>"

text \<open>A number of MiB as a quantity: \<open>n\<close> times \<open>2 ^ 20\<close> bytes.\<close>

definition MiB :: "int \<Rightarrow> Quantity" where
  "MiB n = MilliQuantity (1000 * (n * 2 ^ 20))"

text \<open>The prefix of a name before its first separator and the rest after it; \<open>None\<close>
  for a name without separator.\<close>

definition split_first :: "string \<Rightarrow> char \<Rightarrow> (string \<times> string) option" where
  "split_first s sep =
     (if sep \<in> set s
      then Some (takeWhile (\<lambda>c. c \<noteq> sep) s, tl (dropWhile (\<lambda>c. c \<noteq> sep) s))
      else None)"

text \<open>The canonical value of the first identifier of a list that the table of
  architectures has.\<close>

definition first_canonical :: "string list \<Rightarrow> string option" where
  "first_canonical ids =
     (case List.find (\<lambda>a. AWSToKubeArchitectures a \<noteq> None) ids of
        None \<Rightarrow> None
      | Some a \<Rightarrow> AWSToKubeArchitectures a)"

text \<open>The rendering of a list of identifiers as one string: the identifiers in their
  order, one space before each but the first, between square brackets.\<close>

definition raw_rendering :: "string list \<Rightarrow> string" where
  "raw_rendering ids =
     ''['' @ (case ids of
               [] \<Rightarrow> []
             | first # rest \<Rightarrow> first @ concat (map (\<lambda>id. CHR '' '' # id) rest)) @ '']''"

text \<open>The first block device mapping of the configuration with the given device
  name.\<close>

definition matching_override ::
  "string option \<Rightarrow> BlockDeviceMapping option list \<Rightarrow> BlockDeviceMapping option" where
  "matching_override name mappings =
     List.find (\<lambda>mapping. DeviceName mapping = name) (List.map_filter id mappings)"

text \<open>The list of GPU descriptors of the metadata as it is, empty without a GPU section.
  Two descriptors of the list may describe the same GPU model.\<close>

definition gpu_descriptors :: "InstanceTypeInfo \<Rightarrow> GpuDeviceInfo option list" where
  "gpu_descriptors info = (case GpuInfo info of None \<Rightarrow> [] | Some gpuInfo \<Rightarrow> Gpus gpuInfo)"

text \<open>The normal form of a GPU name or manufacturer: a hyphen for every space, then
  lower case. A string of ASCII bytes has its capital letters replaced by the small ones,
  after the table of the alphabet; any other string goes through the Unicode mapping
  \<open>unicode\<close>.\<close>

definition lower_letter :: "char \<Rightarrow> char" where
  "lower_letter c =
     (case map_of (zip ''ABCDEFGHIJKLMNOPQRSTUVWXYZ'' ''abcdefghijklmnopqrstuvwxyz'') c of
        Some l \<Rightarrow> l
      | None \<Rightarrow> c)"

definition lower_hyphenated :: "(string \<Rightarrow> string) \<Rightarrow> string \<Rightarrow> string" where
  "lower_hyphenated unicode s =
     (let hyphenated = map (\<lambda>c. if c = CHR '' '' then CHR ''-'' else c) s
      in if list_all (\<lambda>c. (of_char c :: nat) < 128) hyphenated
         then map lower_letter hyphenated else unicode hyphenated)"

text \<open>The counts that the price weighs: one for every GPU descriptor and every accelerator
  descriptor that has a count, and the size of the local storage; a section that the
  metadata does not have counts 0. \<open>price_formula\<close> is the weighted sum in the rationals.\<close>

definition gpu_counts :: "InstanceTypeInfo \<Rightarrow> int list" where
  "gpu_counts info =
     (case GpuInfo info of
        None \<Rightarrow> []
      | Some gpuInfo \<Rightarrow>
          map sint (List.map_filter (\<lambda>gpu. Option.bind gpu GpuDeviceInfo.Count) (Gpus gpuInfo)))"

definition accelerator_counts :: "InstanceTypeInfo \<Rightarrow> int list" where
  "accelerator_counts info =
     (case InferenceAcceleratorInfo info of
        None \<Rightarrow> []
      | Some acceleratorInfo \<Rightarrow>
          map sint (List.map_filter (\<lambda>acc. Option.bind acc InferenceDeviceInfo.Count)
            (Accelerators acceleratorInfo)))"

definition local_storage :: "InstanceTypeInfo \<Rightarrow> int" where
  "local_storage info =
     (case InstanceStorageInfo info of
        None \<Rightarrow> 0
      | Some storageInfo \<Rightarrow> (case TotalSizeInGB storageInfo of None \<Rightarrow> 0 | Some n \<Rightarrow> sint n))"

definition price_formula :: "int \<Rightarrow> int \<Rightarrow> int \<Rightarrow> int \<Rightarrow> int \<Rightarrow> rat" where
  "price_formula vCpus memoryMiB gpus accelerators storage =
     1 * of_int vCpus + (1 / 1024) * of_int memoryMiB + 5 * of_int gpus
     + 5 * of_int accelerators + (1 / 100) * of_int storage"

subsection \<open>An instance type to compute with\<close>

definition example_env :: Env where
  "example_env =
     \<lparr>EphemeralBlockDevice = (\<lambda>family. Some ''/dev/xvda''),
      EphemeralBlockDeviceOverhead = (\<lambda>family. Quantity_Mi 1024),
      DefaultEBS_VolumeSize = Some (Quantity_Mi 20480),
      Limits = Map.empty,
      unicodeLower = id,
      int32_other = (\<lambda>f. 0),
      int64_other = (\<lambda>f. 0),
      MilliValue_other = (\<lambda>n. 0),
      fused = False\<rparr>"

definition example_info :: InstanceTypeInfo where
  "example_info =
     \<lparr>GpuInfo = None,
      InferenceAcceleratorInfo = None,
      InstanceStorageInfo = None,
      InstanceType = Some ''m5.large'',
      MemoryInfo = Some \<lparr>MemoryInfo.SizeInMiB = Some 8192\<rparr>,
      NetworkInfo = Some \<lparr>Ipv4AddressesPerInterface = Some 10, MaximumNetworkInterfaces = Some 3\<rparr>,
      ProcessorInfo = Some \<lparr>SupportedArchitectures = [Some ''x86_64'']\<rparr>,
      VCpuInfo = Some \<lparr>DefaultVCpus = Some 2\<rparr>\<rparr>"

definition example_aws :: AWS where
  "example_aws = \<lparr>AMIFamily = Some ''AL2'', BlockDeviceMappings = []\<rparr>"

definition example_type :: "InstanceTypeInfo \<Rightarrow> InstanceType" where
  "example_type info =
     \<lparr>InstanceTypeInfo = Some info,
      offerings = [\<lparr>CapacityType = ''on-demand'', Zone = ''us-west-2a''\<rparr>],
      overhead = Map.empty,
      requirements = Map.empty,
      resources = Map.empty,
      provider = Some example_aws,
      maxPods = None\<rparr>"

definition example_gpu_amd :: GpuDeviceInfo where
  "example_gpu_amd =
     \<lparr>GpuDeviceInfo.Count = Some 1,
      Manufacturer = Some ''AMD'',
      GpuDeviceInfo.MemoryInfo = Some \<lparr>GpuDeviceMemoryInfo.SizeInMiB = Some 8192\<rparr>,
      Name = Some ''Radeon Pro V520''\<rparr>"

definition example_gpu :: GpuDeviceInfo where
  "example_gpu =
     \<lparr>GpuDeviceInfo.Count = Some 8,
      Manufacturer = Some ''NVIDIA'',
      GpuDeviceInfo.MemoryInfo = Some \<lparr>GpuDeviceMemoryInfo.SizeInMiB = Some 40960\<rparr>,
      Name = Some ''A100''\<rparr>"

section \<open>Properties\<close>

subsection \<open>Rounding and truncation of \<^verbatim>\<open>float64\<close>\<close>

lemma int_div_eqI:
  fixes P q d :: int
  assumes "0 < d" "q * d \<le> P" "P < (q + 1) * d"
  shows "P div d = q"
  using assms by (intro int_div_pos_eq [where r = "P - d * q"]) (auto simp: algebra_simps)

lemma int_le_divI:
  fixes P q d :: int
  assumes "0 < d" "q * d \<le> P"
  shows "q \<le> P div d"
  using zdiv_mono1 [OF assms(2) assms(1)] assms(1) by simp

lemma int_div_lessI:
  fixes P x d :: int
  assumes "0 < d" "P < x * d"
  shows "P div d < x"
proof (rule ccontr)
  assume "\<not> P div d < x"
  then have "x * d \<le> (P div d) * d" using assms(1) by (simp add: mult_right_mono)
  moreover have "P div d * d + P mod d = P" by simp
  moreover have "0 \<le> P mod d" using assms(1) by simp
  ultimately show False using assms(2) by linarith
qed

lemma rhe_lower: "0 < d \<Longrightarrow> n div d \<le> round_half_even n d"
  by (simp add: round_half_even_def Let_def)

lemma rhe_upper: "0 < d \<Longrightarrow> round_half_even n d \<le> n div d + 1"
  by (simp add: round_half_even_def Let_def)

text \<open>The rounded quotient is a nearest integer: it is off by at most one half.\<close>

lemma rhe_nearest: "0 < d \<Longrightarrow> \<bar>2 * (n - round_half_even n d * d)\<bar> \<le> d"
proof -
  assume d: "0 < d"
  define q r where "q = n div d" and "r = n mod d"
  have n: "n = q * d + r" by (simp add: q_def r_def)
  have r: "0 \<le> r" "r < d" using d by (simp_all add: r_def)
  have "round_half_even n d =
          (if 2 * r < d then q else if d < 2 * r then q + 1 else if even q then q else q + 1)"
    by (simp add: round_half_even_def Let_def q_def r_def)
  then show ?thesis unfolding n using r by (auto simp: algebra_simps)
qed

lemma trunc_nonneg: "0 \<le> m \<Longrightarrow> float64_trunc (m, - int t) = m div 2 ^ t"
  by (cases "m = 0") (auto simp: float64_trunc_def)

lemma float64_trunc_round_floor:
  fixes P q :: int and t K :: nat
  assumes P0: "0 \<le> P" and PK: "P < 2 ^ K" and Kt: "K \<le> t + 53"
    and lo: "q * 2 ^ t \<le> P" and hi: "P + 2 ^ (K - 53) < (q + 1) * 2 ^ t"
  shows "float64_trunc (float64_round P (- int t)) = q"
proof (cases "bitlen P - 53 \<le> 0")
  case True
  have "(0::int) < 2 ^ (K - 53)" by simp
  then have "P < (q + 1) * 2 ^ t" using hi by linarith
  then have "P div 2 ^ t = q" using lo by (intro int_div_eqI) simp_all
  moreover have "float64_round P (- int t) = (P, - int t)"
    using True P0 by (simp add: float64_round_def)
  ultimately show ?thesis using P0 by (simp add: trunc_nonneg)
next
  case False
  define s where "s = nat (bitlen P - 53)"
  have s0: "0 < s" using False by (simp add: s_def)
  have "bitlen P \<le> int K" using P0 PK by (simp add: bitlen_le_iff_power)
  then have sK: "s \<le> K - 53" by (simp add: s_def)
  then have st: "s \<le> t" using Kt by simp
  define R where "R = round_half_even P (2 ^ s)"
  have fr: "float64_round P (- int t) = (R, - int (t - s))"
    using False P0 s0 st by (simp add: float64_round_def Let_def R_def s_def)
  have R_lo: "P div 2 ^ s \<le> R" unfolding R_def by (rule rhe_lower) simp
  have R_hi: "R \<le> P div 2 ^ s + 1" unfolding R_def by (rule rhe_upper) simp
  have ts: "(2::int) ^ t = 2 ^ (t - s) * 2 ^ s" using st
    by (metis le_add_diff_inverse2 power_add)
  have "q * 2 ^ (t - s) \<le> P div 2 ^ s"
    using lo by (intro int_le_divI) (simp_all add: ts mult.assoc)
  moreover have "P div 2 ^ s + 1 < (q + 1) * 2 ^ (t - s)"
  proof -
    have "(2::int) ^ s \<le> 2 ^ (K - 53)" using sK by (simp add: power_increasing)
    then have "P + 2 ^ s < (q + 1) * 2 ^ t"
      using hi by linarith
    then have "P + 2 ^ s < ((q + 1) * 2 ^ (t - s)) * 2 ^ s"
      by (simp add: ts mult.assoc)
    then have "(P + 2 ^ s) div 2 ^ s < (q + 1) * 2 ^ (t - s)"
      by (intro int_div_lessI) simp_all
    then show ?thesis by simp
  qed
  ultimately have "q * 2 ^ (t - s) \<le> R" "R < (q + 1) * 2 ^ (t - s)"
    using R_lo R_hi by linarith+
  then have "R div 2 ^ (t - s) = q"
    by (intro int_div_eqI) simp_all
  moreover have "0 \<le> P div 2 ^ s" using P0 by (simp add: pos_imp_zdiv_nonneg_iff)
  then have "0 \<le> R" using R_lo by linarith
  ultimately show ?thesis using fr trunc_nonneg by simp
qed


text \<open>The constants of the program as \<^verbatim>\<open>float64\<close>: \<^verbatim>\<open>0x1.d99999999999ap-1\<close> for
  0.925, \<^verbatim>\<open>0x1.eb851eb851eb8p-5\<close> for 0.06, and \<^verbatim>\<open>0x1.47ae147ae147bp-7\<close> for 0.01,
  which halved is 0.005 and halved again 0.0025.\<close>

lemma c925: "float64_const 925 1000 = (8331659310635418, - 53)" by code_simp
lemma c06: "float64_const 6 100 = (8646911284551352, - 57)" by code_simp
lemma c01: "float64_const 1 100 = (5764607523034235, - 59)" by code_simp
lemma c005: "float64_const 5 1000 = (5764607523034235, - 60)" by code_simp
lemma c0025: "float64_const 25 10000 = (5764607523034235, - 61)" by code_simp

text \<open>Each is within half a unit in the last place of its decimal constant.\<close>

lemma float64_constants_nearest:
  "\<bar>float64_val (float64_const 925 1000) - 925 / 1000\<bar> \<le> 1 / 2 ^ 54"
  "\<bar>float64_val (float64_const 6 100) - 6 / 100\<bar> \<le> 1 / 2 ^ 58"
  "\<bar>float64_val (float64_const 1 100) - 1 / 100\<bar> \<le> 1 / 2 ^ 60"
  "\<bar>float64_val (float64_const 5 1000) - 5 / 1000\<bar> \<le> 1 / 2 ^ 61"
  "\<bar>float64_val (float64_const 25 10000) - 25 / 10000\<bar> \<le> 1 / 2 ^ 62"
  by (simp_all add: c925 c06 c01 c005 c0025 float64_val_def abs_le_iff)

lemma float64_of_int_exact:
  assumes "0 \<le> n" "n < 2 ^ 53"
  shows "float64_of_int n = (n, 0)"
proof -
  have "bitlen n \<le> 53" using assms by (simp add: bitlen_le_iff_power)
  then show ?thesis using assms by (simp add: float64_of_int_def float64_round_def)
qed

lemma float64_trunc_mul_const:
  fixes n M q :: int and t K :: nat
  assumes "0 \<le> n" "n < 2 ^ 53" "0 \<le> M" "n * M < 2 ^ K" "K \<le> t + 53"
    and "q * 2 ^ t \<le> n * M" "n * M + 2 ^ (K - 53) < (q + 1) * 2 ^ t"
  shows "float64_trunc (float64_mul (float64_of_int n) (M, - int t)) = q"
  using assms float64_trunc_round_floor [of "n * M" K t q]
  by (simp add: float64_of_int_exact float64_mul_def)

lemma memory_product:
  fixes m :: int
  assumes "0 \<le> m" "m \<le> 2321603943"
  shows "float64_trunc (float64_mul (float64_of_int m) EC2VMAvailableMemoryFactor)
         = (925 * m) div 1000"
proof -
  define q where "q = (925 * m) div 1000"
  have q1: "1000 * q \<le> 925 * m" and q2: "925 * m < 1000 * q + 1000"
    unfolding q_def by (simp_all add: zdiv_zmult2_eq zmod_zmult2_eq) 
  have "float64_trunc (float64_mul (float64_of_int m) (8331659310635418, - int 53)) = q"
  proof (rule float64_trunc_mul_const [where K = 85])
    show "0 \<le> m" by fact
    show "m < 2 ^ 53" using assms by simp
    show "m * 8331659310635418 < 2 ^ 85" using assms by simp
    show "q * 2 ^ 53 \<le> m * 8331659310635418" using q1 assms by simp
    show "m * 8331659310635418 + 2 ^ (85 - 53) < (q + 1) * 2 ^ 53" using q2 assms by simp
  qed simp_all
  then show ?thesis by (simp add: EC2VMAvailableMemoryFactor_def c925 q_def)
qed

lemma floor_of_int_mult_ratio:
  fixes w n d :: int
  shows "\<lfloor>(of_int w :: rat) * (of_int n / of_int d)\<rfloor> = (n * w) div d"
proof -
  have "(of_int w :: rat) * (of_int n / of_int d) = of_int (n * w) / of_int d" by simp
  then show ?thesis by (simp only: floor_divide_of_int_eq)
qed

lemma sint_int64_of_float64:
  assumes "- (2 ^ 63) \<le> float64_trunc f" "float64_trunc f < 2 ^ 63"
  shows "sint (int64_of_float64 other f) = float64_trunc f"
  using assms by (simp add: int64_of_float64_def sint_sbintrunc' signed_take_bit_int_eq_self)

lemma sint_int32_of_float64:
  assumes "- (2 ^ 31) \<le> float64_trunc f" "float64_trunc f < 2 ^ 31"
  shows "sint (int32_of_float64 other f) = float64_trunc f"
  using assms by (simp add: int32_of_float64_def sint_sbintrunc' signed_take_bit_int_eq_self)

lemma band1_zero: "float64_trunc (float64_mul (float64_of_int 0) (float64_const 6 100)) = 0"
  by code_simp

lemma band1_full: "float64_trunc (float64_mul (float64_of_int 1000) (float64_const 6 100)) = 60"
  by code_simp

lemma band2_product:
  fixes w :: int
  assumes "0 \<le> w" "w \<le> 2 ^ 31"
  shows "float64_trunc (float64_mul (float64_of_int w) (float64_const 1 100)) = (1 * w) div 100"
proof -
  define q where "q = w div 100"
  have q1: "100 * q \<le> w" and q2: "w < 100 * q + 100"
    unfolding q_def by (simp_all add: zdiv_zmult2_eq zmod_zmult2_eq) 
  have "float64_trunc (float64_mul (float64_of_int w) (5764607523034235, - int 59)) = q"
  proof (rule float64_trunc_mul_const [where K = 85])
    show "0 \<le> w" by fact
    show "w < 2 ^ 53" using assms by simp
    show "w * 5764607523034235 < 2 ^ 85" using assms by simp
    show "q * 2 ^ 59 \<le> w * 5764607523034235" using q1 assms by simp
    show "w * 5764607523034235 + 2 ^ (85 - 53) < (q + 1) * 2 ^ 59" using q2 assms by simp
  qed simp_all
  then show ?thesis by (simp add: c01 q_def)
qed

lemma band3_product:
  fixes w :: int
  assumes "0 \<le> w" "w \<le> 2 ^ 31"
  shows "float64_trunc (float64_mul (float64_of_int w) (float64_const 5 1000)) = (5 * w) div 1000"
proof -
  define q where "q = (5 * w) div 1000"
  have q1: "1000 * q \<le> 5 * w" and q2: "5 * w < 1000 * q + 1000"
    unfolding q_def by (simp_all add: zdiv_zmult2_eq zmod_zmult2_eq) 
  have "float64_trunc (float64_mul (float64_of_int w) (5764607523034235, - int 60)) = q"
  proof (rule float64_trunc_mul_const [where K = 85])
    show "0 \<le> w" by fact
    show "w < 2 ^ 53" using assms by simp
    show "w * 5764607523034235 < 2 ^ 85" using assms by simp
    show "q * 2 ^ 60 \<le> w * 5764607523034235" using q1 assms by simp
    show "w * 5764607523034235 + 2 ^ (85 - 53) < (q + 1) * 2 ^ 60" using q2 assms by simp
  qed simp_all
  then show ?thesis by (simp add: c005 q_def)
qed

lemma band4_product:
  fixes w :: int
  assumes "0 \<le> w" "w \<le> 2 ^ 31"
  shows "float64_trunc (float64_mul (float64_of_int w) (float64_const 25 10000)) = (25 * w) div 10000"
proof -
  define q where "q = (25 * w) div 10000"
  have q1: "10000 * q \<le> 25 * w" and q2: "25 * w < 10000 * q + 10000"
    unfolding q_def by (simp_all add: zdiv_zmult2_eq zmod_zmult2_eq) 
  have "float64_trunc (float64_mul (float64_of_int w) (5764607523034235, - int 61)) = q"
  proof (rule float64_trunc_mul_const [where K = 85])
    show "0 \<le> w" by fact
    show "w < 2 ^ 53" using assms by simp
    show "w * 5764607523034235 < 2 ^ 85" using assms by simp
    show "q * 2 ^ 61 \<le> w * 5764607523034235" using q1 assms by simp
    show "w * 5764607523034235 + 2 ^ (85 - 53) < (q + 1) * 2 ^ 61" using q2 assms by simp
  qed simp_all
  then show ?thesis by (simp add: c0025 q_def)
qed

subsection \<open>Pod capacity\<close>

lemmas resource_names =
  ResourceCPU_def ResourceMemory_def ResourceEphemeralStorage_def ResourcePods_def
  ResourceAWSPodENI_def ResourceNVIDIAGPU_def ResourceAMDGPU_def ResourceAWSNeuron_def
  ResourceSmarterDevicesFuse_def

lemma computeResources_pods:
  "computeResources env i enablePodENI = Some res \<Longrightarrow> res ResourcePods = pods i"
  by (auto simp: computeResources_def resource_names split: Option.bind_splits)

lemma sint_int64_arith:
  fixes a b :: int64
  assumes "- (2 ^ 63) \<le> sint a * (sint b - 1) + 2" "sint a * (sint b - 1) + 2 < 2 ^ 63"
  shows "sint (a * (b - 1) + 2) = sint a * (sint b - 1) + 2"
proof -
  have "a * (b - 1) + 2 = word_of_int (sint a * (sint b - 1) + 2)" by simp
  then have "sint (a * (b - 1) + 2) = signed_take_bit 63 (sint a * (sint b - 1) + 2)"
    by (simp only: sint_sbintrunc') simp
  then show ?thesis using assms by (simp add: signed_take_bit_int_eq_self)
qed

text \<open>
  Claim C2. The pods entry of the computed resource list is the pod capacity override of
  the configuration when there is one, exactly as given. Without an override it is
  \<open>maximumNetworkInterfaces * (ipv4AddressesPerInterface - 1) + 2\<close> in \<^verbatim>\<open>int64\<close>
  arithmetic, which is the same number in the integers whenever that number fits
  \<^verbatim>\<open>int64\<close>. For 3 interfaces with 10 addresses each and no override it is 29.
\<close>

theorem pods_override_or_eni_limit:
  "(maxPods i = Some n \<longrightarrow> pods i = Some (Quantity_of_int (sint n))) \<and>
   (maxPods i = None \<and> InstanceTypeInfo i = Some info \<and> NetworkInfo info = Some networkInfo \<and>
    MaximumNetworkInterfaces networkInfo = Some a \<and>
    Ipv4AddressesPerInterface networkInfo = Some b \<longrightarrow>
      pods i = Some (Quantity_of_int (sint (a * (b - 1) + 2))) \<and>
      (- (2 ^ 63) \<le> sint a * (sint b - 1) + 2 \<and> sint a * (sint b - 1) + 2 < 2 ^ 63 \<longrightarrow>
         pods i = Some (Quantity_of_int (sint a * (sint b - 1) + 2)))) \<and>
   (computeResources env i enablePodENI = Some res \<longrightarrow> res ResourcePods = pods i)"
  by (auto simp: pods_def eniLimitedPods_def Int32Value_def sint_int64_arith
      computeResources_pods)

lemmas example_defs =
  example_env_def example_info_def example_aws_def example_type_def example_gpu_def

lemma example_resources_ok:
  "computeResources example_env (example_type example_info) False \<noteq> None"
  by (simp add: computeResources_def cpu_def memory_def ephemeralStorage_def pods_def
      eniLimitedPods_def awsPodENI_def nvidiaGPUs_def amdGPUs_def awsNeurons_def example_defs)

theorem pods_override_or_eni_limit_witness:
  "pods (example_type example_info) = Some (Quantity_of_int 29) \<and>
   pods ((example_type example_info)\<lparr>maxPods := Some 110\<rparr>) = Some (Quantity_of_int 110) \<and>
   resource_of example_env (example_type example_info) False ResourcePods
     = Some (Quantity_of_int 29)"
proof -
  obtain res where res: "computeResources example_env (example_type example_info) False = Some res"
    using example_resources_ok by auto
  have ni: "maxPods (example_type example_info) = None \<and>
    InstanceTypeInfo (example_type example_info) = Some example_info \<and>
    NetworkInfo example_info = Some \<lparr>Ipv4AddressesPerInterface = Some 10, MaximumNetworkInterfaces = Some 3\<rparr> \<and>
    MaximumNetworkInterfaces \<lparr>Ipv4AddressesPerInterface = Some 10, MaximumNetworkInterfaces = Some 3\<rparr> = Some 3 \<and>
    Ipv4AddressesPerInterface \<lparr>Ipv4AddressesPerInterface = Some 10, MaximumNetworkInterfaces = Some 3\<rparr> = Some 10"
    by (simp add: example_defs)
  have 1: "pods (example_type example_info) = Some (Quantity_of_int 29)"
    using pods_override_or_eni_limit [of "example_type example_info" _ example_info
        "\<lparr>Ipv4AddressesPerInterface = Some 10, MaximumNetworkInterfaces = Some 3\<rparr>" 3 10
        example_env False res] ni
    by simp
  have 2: "pods ((example_type example_info)\<lparr>maxPods := Some 110\<rparr>) = Some (Quantity_of_int 110)"
    using pods_override_or_eni_limit [of "(example_type example_info)\<lparr>maxPods := Some 110\<rparr>" 110]
    by simp
  have 3: "res ResourcePods = pods (example_type example_info)"
    using pods_override_or_eni_limit [of "example_type example_info" _ example_info
        "\<lparr>Ipv4AddressesPerInterface = Some 10, MaximumNetworkInterfaces = Some 3\<rparr>" 3 10
        example_env False res] res
    by simp
  show ?thesis using 1 2 3 res by (simp add: resource_of_def)
qed

subsection \<open>CPU overhead\<close>

lemma cpu_milli:
  assumes "InstanceTypeInfo i = Some info" "VCpuInfo info = Some vCpuInfo"
    "DefaultVCpus vCpuInfo = Some v"
  shows "cpu i = Some (MilliQuantity (1000 * sint v))"
  using assms by (simp add: cpu_def Quantity_of_int_def)

lemma cpuRange_width:
  "(if c < e then float64_of_int (c - s) else float64_of_int (e - s))
   = float64_of_int (min c e - s)"
  by (simp add: min_def)

text \<open>The truncated product of the source is the contribution of the band.\<close>

lemma band_contribution_float:
  fixes c :: int
  assumes c: "1000 dvd c"
    and z: "(cr, band) \<in> set (zip cpuRanges bands)"
    and s: "start cr \<le> c"
  shows "float64_trunc (float64_mul (float64_of_int (min c (end' cr) - start cr))
           (percentage cr))
         = band_contribution c band"
proof -
  consider
      (1) "cr = \<lparr>start = 0, end' = 1000, percentage = float64_const 6 100\<rparr>"
          "band = (0, 1000, 6 / 100)"
    | (2) "cr = \<lparr>start = 1000, end' = 2000, percentage = float64_const 1 100\<rparr>"
          "band = (1000, 2000, 1 / 100)"
    | (3) "cr = \<lparr>start = 2000, end' = 4000, percentage = float64_const 5 1000\<rparr>"
          "band = (2000, 4000, 5 / 1000)"
    | (4) "cr = \<lparr>start = 4000, end' = 2 ^ 31, percentage = float64_const 25 10000\<rparr>"
          "band = (4000, 2 ^ 31, 25 / 10000)"
    using z by (auto simp: cpuRanges_def bands_def)
  then show ?thesis
  proof cases
    case 1
    show ?thesis
    proof (cases "c < 1000")
      case True
      then have "c = 0" using c s 1 by auto
      then show ?thesis using 1 by (simp add: band1_zero band_contribution_def)
    next
      case False
      then have "min c 1000 = 1000" by simp
      then show ?thesis using 1 False by (simp add: band1_full band_contribution_def)
    qed
  next
    case 2
    define w where "w = min c 2000 - 1000"
    have w: "0 \<le> w" "w \<le> 2 ^ 31" using s 2 by (simp_all add: w_def)
    have "band_contribution c band = (1 * w) div 100"
      using s 2 floor_of_int_mult_ratio [of w 1 100] by (simp add: band_contribution_def w_def)
    then show ?thesis using 2 band2_product [OF w] by (simp add: w_def)
  next
    case 3
    define w where "w = min c 4000 - 2000"
    have w: "0 \<le> w" "w \<le> 2 ^ 31" using s 3 by (simp_all add: w_def)
    have "band_contribution c band = (5 * w) div 1000"
      using s 3 floor_of_int_mult_ratio [of w 5 1000] by (simp add: band_contribution_def w_def)
    then show ?thesis using 3 band3_product [OF w] by (simp add: w_def)
  next
    case 4
    define w where "w = min c (2 ^ 31) - 4000"
    have w: "0 \<le> w" "w \<le> 2 ^ 31" using s 4 by (simp_all add: w_def)
    have "band_contribution c band = (25 * w) div 10000"
      using s 4 floor_of_int_mult_ratio [of w 25 10000] by (simp add: band_contribution_def w_def)
    then show ?thesis using 4 band4_product [OF w] by (simp add: w_def)
  qed
qed

lemma band_contribution_bounds:
  assumes "band \<in> set bands"
  shows "0 \<le> band_contribution c band \<and> band_contribution c band < 2 ^ 31"
proof -
  consider "band = (0, 1000, 6 / 100)" | "band = (1000, 2000, 1 / 100)"
    | "band = (2000, 4000, 5 / 1000)" | "band = (4000, 2 ^ 31, 25 / 10000)"
    using assms by (auto simp: bands_def)
  then show ?thesis
  proof cases
    case 1
    then show ?thesis
      using floor_of_int_mult_ratio [of "min c 1000" 6 100] by (auto simp: band_contribution_def)
  next
    case 2
    then show ?thesis
      using floor_of_int_mult_ratio [of "min c 2000 - 1000" 1 100]
      by (auto simp: band_contribution_def)
  next
    case 3
    then show ?thesis
      using floor_of_int_mult_ratio [of "min c 4000 - 2000" 5 1000]
      by (auto simp: band_contribution_def)
  next
    case 4
    then show ?thesis
      using floor_of_int_mult_ratio [of "min c (2 ^ 31) - 4000" 25 10000]
      by (auto simp: band_contribution_def)
  qed
qed

lemma band_contribution_below_start:
  assumes "(cr, band) \<in> set (zip cpuRanges bands)" "\<not> start cr \<le> c"
  shows "band_contribution c band = 0"
  using assms by (auto simp: cpuRanges_def bands_def band_contribution_def)

lemma computeOverhead_step_band:
  fixes c :: int
  assumes cpu: "cpu i = Some (MilliQuantity c)" and c: "1000 dvd c"
    and fits: "- (2 ^ 63) \<le> c" "c < 2 ^ 63"
    and cur: "ovh ResourceCPU = Some (MilliQuantity n)"
    and z: "(cr, band) \<in> set (zip cpuRanges bands)"
  shows "computeOverhead_step env i cr ovh
         = Some (ovh(ResourceCPU \<mapsto> MilliQuantity (n + band_contribution c band)))"
proof (cases "start cr \<le> c")
  case True
  let ?f = "float64_mul (float64_of_int (min c (end' cr) - start cr)) (percentage cr)"
  have t: "float64_trunc ?f = band_contribution c band"
    using c z True by (rule band_contribution_float)
  have "band \<in> set bands" using z by (rule set_zip_rightD)
  then have "0 \<le> band_contribution c band \<and> band_contribution c band < 2 ^ 31"
    by (rule band_contribution_bounds)
  then have "sint (int64_of_float64 (int64_other env) ?f) = band_contribution c band"
    using t by (intro sint_int64_of_float64 [THEN trans]) simp_all
  then show ?thesis using True cpu cur fits
    by (simp add: computeOverhead_step_def NewMilliQuantity_def cpuRange_width)
next
  case False
  then have "band_contribution c band = 0" using z by (intro band_contribution_below_start)
  moreover have "ovh(ResourceCPU \<mapsto> MilliQuantity n) = ovh"
    using cur by (simp add: fun_upd_idem)
  ultimately show ?thesis using False cpu fits
    by (simp add: computeOverhead_step_def)
qed

lemma computeOverhead_loop_bands:
  fixes c :: int
  assumes cpu: "cpu i = Some (MilliQuantity c)" and c: "1000 dvd c"
    and fits: "- (2 ^ 63) \<le> c" "c < 2 ^ 63"
  shows "set (zip crs bs) \<subseteq> set (zip cpuRanges bands) \<Longrightarrow> length crs = length bs \<Longrightarrow>
         ovh ResourceCPU = Some (MilliQuantity n) \<Longrightarrow>
         computeOverhead_loop env i crs ovh
         = Some (ovh(ResourceCPU \<mapsto> MilliQuantity (n + (\<Sum>band\<leftarrow>bs. band_contribution c band))))"
proof (induction crs arbitrary: bs ovh n)
  case Nil
  then show ?case by (simp add: fun_upd_idem)
next
  case (Cons cr crs)
  then obtain b bs' where bs: "bs = b # bs'" by (cases bs) auto
  have z: "(cr, b) \<in> set (zip cpuRanges bands)" using Cons.prems(1) bs by auto
  have st: "computeOverhead_step env i cr ovh
            = Some (ovh(ResourceCPU \<mapsto> MilliQuantity (n + band_contribution c b)))"
    using cpu c fits Cons.prems(3) z by (rule computeOverhead_step_band)
  have "computeOverhead_loop env i crs (ovh(ResourceCPU \<mapsto> MilliQuantity (n + band_contribution c b)))
        = Some ((ovh(ResourceCPU \<mapsto> MilliQuantity (n + band_contribution c b)))
                 (ResourceCPU \<mapsto> MilliQuantity (n + band_contribution c b
                    + (\<Sum>band\<leftarrow>bs'. band_contribution c band))))"
    using Cons.prems bs by (intro Cons.IH) auto
  then show ?case using st bs by (auto simp: add.assoc fun_upd_def)
qed

lemma computeOverhead_eval:
  assumes "InstanceTypeInfo i = Some info" "VCpuInfo info = Some vCpuInfo"
    "DefaultVCpus vCpuInfo = Some v" "NetworkInfo info = Some networkInfo"
    "MaximumNetworkInterfaces networkInfo = Some a"
    "Ipv4AddressesPerInterface networkInfo = Some b"
    "provider i = Some aws"
    and fits: "- (2 ^ 63) \<le> 1000 * sint v" "1000 * sint v < 2 ^ 63"
  shows "computeOverhead env i = Some
    [ResourceCPU \<mapsto> MilliQuantity (100 + (\<Sum>band\<leftarrow>bands. band_contribution (1000 * sint v) band)),
     ResourceMemory \<mapsto> Quantity_Mi (sint (11 * (a * (b - 1) + 2) + 255 + 100 + 100)),
     ResourceEphemeralStorage \<mapsto> EphemeralBlockDeviceOverhead env (AMIFamily aws)]"
proof -
  let ?ov = "[ResourceCPU \<mapsto> NewMilliQuantity 100,
         ResourceMemory \<mapsto> Quantity_Mi (sint (11 * (a * (b - 1) + 2) + 255 + 100 + 100)),
         ResourceEphemeralStorage \<mapsto> EphemeralBlockDeviceOverhead env (AMIFamily aws)]"
  have cur: "?ov ResourceCPU = Some (MilliQuantity 100)"
    by (simp add: resource_names NewMilliQuantity_def)
  have len: "length cpuRanges = length bands" by (simp add: cpuRanges_def bands_def)
  have "computeOverhead_loop env i cpuRanges ?ov
        = Some (?ov(ResourceCPU \<mapsto> MilliQuantity (100 + (\<Sum>band\<leftarrow>bands. band_contribution (1000 * sint v) band))))"
    using cpu_milli [OF assms(1-3)] _ fits _ len cur
    by (rule computeOverhead_loop_bands) simp_all
  moreover have "?ov(ResourceCPU \<mapsto> MilliQuantity (100 + (\<Sum>band\<leftarrow>bands. band_contribution (1000 * sint v) band)))
     = [ResourceCPU \<mapsto> MilliQuantity (100 + (\<Sum>band\<leftarrow>bands. band_contribution (1000 * sint v) band)),
     ResourceMemory \<mapsto> Quantity_Mi (sint (11 * (a * (b - 1) + 2) + 255 + 100 + 100)),
     ResourceEphemeralStorage \<mapsto> EphemeralBlockDeviceOverhead env (AMIFamily aws)]"
    by (rule ext) (simp add: resource_names)
  ultimately show ?thesis using assms
    by (simp add: computeOverhead_def eniLimitedPods_def)
qed

lemma computeOverhead_SomeD:
  assumes "computeOverhead env i = Some ov"
  obtains info networkInfo a b aws where
    "InstanceTypeInfo i = Some info" "NetworkInfo info = Some networkInfo"
    "MaximumNetworkInterfaces networkInfo = Some a"
    "Ipv4AddressesPerInterface networkInfo = Some b" "provider i = Some aws"
  using assms
  by (auto simp: computeOverhead_def eniLimitedPods_def split: Option.bind_splits)

text \<open>
  Claim C1, as amended. The CPU entry of the computed overhead is 100 thousandths of a CPU
  plus, for each of the four bands (0 to 1000 at 6%, 1000 to 2000 at 1%, 2000 to 4000 at
  0.5%, 4000 to \<open>2 ^ 31\<close> at 0.25%) whose start is at most the total (1000 times the
  number of vCPUs), the product of \<open>min total end - start\<close> and the rate, truncated to a
  whole number of thousandths; a band above the total adds nothing. The total is taken to
  fit \<^verbatim>\<open>int64\<close>, as \<^verbatim>\<open>MilliValue\<close> returns it. For 2 vCPUs the entry is 170.
\<close>

theorem cpu_overhead_bands:
  assumes "computeOverhead env i = Some ov"
    and "InstanceTypeInfo i = Some info" "VCpuInfo info = Some vCpuInfo"
    and "DefaultVCpus vCpuInfo = Some v"
    and "- (2 ^ 63) \<le> 1000 * sint v" "1000 * sint v < 2 ^ 63"
  shows "ov ResourceCPU
         = Some (MilliQuantity (100 + sum_list (map (band_contribution (1000 * sint v)) bands)))"
proof -
  from assms(1) obtain info' networkInfo a b aws where *:
    "InstanceTypeInfo i = Some info'" "NetworkInfo info' = Some networkInfo"
    "MaximumNetworkInterfaces networkInfo = Some a"
    "Ipv4AddressesPerInterface networkInfo = Some b" "provider i = Some aws"
    by (rule computeOverhead_SomeD)
  then have "info' = info" using assms(2) by simp
  then show ?thesis
    using computeOverhead_eval [OF assms(2-4) _ *(3-5) assms(5,6), of env] * assms(1)
    by (simp add: resource_names)
qed

lemma example5: "sum_list (map (band_contribution 5000) bands) = 82"
  by (simp add: bands_def band_contribution_def floor_eq_iff)

lemma example2: "sum_list (map (band_contribution 2000) bands) = 70"
  by (simp add: bands_def band_contribution_def)

lemma example_overhead:
  "- (2 ^ 63) \<le> 1000 * sint v \<Longrightarrow> 1000 * sint v < 2 ^ 63 \<Longrightarrow>
   computeOverhead example_env (example_type (example_info\<lparr>VCpuInfo := Some \<lparr>DefaultVCpus = Some v\<rparr>\<rparr>))
   = Some
    [ResourceCPU \<mapsto> MilliQuantity (100 + (\<Sum>band\<leftarrow>bands. band_contribution (1000 * sint v) band)),
     ResourceMemory \<mapsto> Quantity_Mi (sint (11 * (3 * (10 - 1) + 2) + 255 + 100 + 100 :: int64)),
     ResourceEphemeralStorage \<mapsto> Quantity_Mi 1024]"
  using computeOverhead_eval [where i = "example_type (example_info\<lparr>VCpuInfo := Some \<lparr>DefaultVCpus = Some v\<rparr>\<rparr>)"
      and info = "example_info\<lparr>VCpuInfo := Some \<lparr>DefaultVCpus = Some v\<rparr>\<rparr>"
      and vCpuInfo = "\<lparr>DefaultVCpus = Some v\<rparr>" and v = v
      and networkInfo = "\<lparr>Ipv4AddressesPerInterface = Some 10, MaximumNetworkInterfaces = Some 3\<rparr>"
      and a = 3 and b = 10 and aws = example_aws and env = example_env]
  by (simp add: example_defs)

theorem cpu_overhead_bands_witness:
  "overhead_of example_env (example_type example_info) ResourceCPU = Some (MilliQuantity 170)"
proof -
  have e: "example_info = example_info\<lparr>VCpuInfo := Some \<lparr>DefaultVCpus = Some 2\<rparr>\<rparr>"
    by (simp add: example_defs)
  obtain ov where ov: "computeOverhead example_env (example_type example_info) = Some ov"
    using example_overhead [of 2] e by simp
  have "ov ResourceCPU
         = Some (MilliQuantity (100 + sum_list (map (band_contribution (1000 * sint (2::int64))) bands)))"
    using ov cpu_overhead_bands [where i = "example_type example_info" and info = example_info
        and vCpuInfo = "\<lparr>DefaultVCpus = Some 2\<rparr>" and v = 2 and env = example_env and ov = ov]
    by (simp add: example_defs)
  then show ?thesis using ov by (simp add: overhead_of_def example2)
qed

text \<open>With the exact products of claim C1 the overhead of 5 vCPUs would be 182.5
  thousandths; the computed entry is 182.\<close>

theorem cpu_overhead_exact_products_counterexample:
  "overhead_of example_env
     (example_type (example_info\<lparr>VCpuInfo := Some \<lparr>DefaultVCpus = Some 5\<rparr>\<rparr>)) ResourceCPU
   = Some (MilliQuantity 182) \<and>
   100 + sum_list (map (band_product 5000) bands) = 365 / 2"
  by (simp add: overhead_of_def example_overhead example5 resource_names) (simp add: bands_def)

lemma band_product_nonneg:
  assumes "band \<in> set bands"
  shows "0 \<le> band_product c band"
  using assms by (auto simp: bands_def)

text \<open>
  Claim C10, as amended. The CPU overhead is a whole number of thousandths: every pass of
  the loop adds to the running total the product of the band, width times rate, truncated
  to an integer; the products are not negative, so truncation towards zero is the floor.
  For 5 vCPUs the fourth band has the product 2.5 and adds 2, and the total is 182 (not
  177).
\<close>

theorem cpu_overhead_step_truncates:
  assumes "InstanceTypeInfo i = Some info" "VCpuInfo info = Some vCpuInfo"
    and "DefaultVCpus vCpuInfo = Some v"
    and "- (2 ^ 63) \<le> 1000 * sint v" "1000 * sint v < 2 ^ 63"
    and "ovh ResourceCPU = Some (MilliQuantity n)"
    and "(cpuRange, band) \<in> set (zip cpuRanges bands)"
  shows "computeOverhead_step env i cpuRange ovh
         = Some (ovh(ResourceCPU \<mapsto> MilliQuantity (n + \<lfloor>band_product (1000 * sint v) band\<rfloor>)))
         \<and> 0 \<le> band_product (1000 * sint v) band"
proof -
  have "cpu i = Some (MilliQuantity (1000 * sint v))"
    using assms(1-3) by (rule cpu_milli)
  then have "computeOverhead_step env i cpuRange ovh
         = Some (ovh(ResourceCPU \<mapsto> MilliQuantity (n + band_contribution (1000 * sint v) band)))"
    using _ assms(4-7) by (rule computeOverhead_step_band) simp
  moreover have "band \<in> set bands" using assms(7) by (rule set_zip_rightD)
  ultimately show ?thesis by (simp add: band_contribution_def band_product_nonneg)
qed

lemma floor_five_halves: "\<lfloor>5 / 2 :: rat\<rfloor> = 2"
  by (simp add: floor_eq_iff)

theorem cpu_overhead_step_truncates_witness:
  "computeOverhead_step example_env
     (example_type (example_info\<lparr>VCpuInfo := Some \<lparr>DefaultVCpus = Some 5\<rparr>\<rparr>))
     \<lparr>start = 4000, end' = 2 ^ 31, percentage = float64_const 25 10000\<rparr>
     [ResourceCPU \<mapsto> MilliQuantity 180]
   = Some [ResourceCPU \<mapsto> MilliQuantity 182] \<and>
   band_product 5000 (4000, 2 ^ 31, 25 / 10000) = 5 / 2"
  using cpu_overhead_step_truncates
    [where i = "example_type (example_info\<lparr>VCpuInfo := Some \<lparr>DefaultVCpus = Some 5\<rparr>\<rparr>)"
      and info = "example_info\<lparr>VCpuInfo := Some \<lparr>DefaultVCpus = Some 5\<rparr>\<rparr>"
      and vCpuInfo = "\<lparr>DefaultVCpus = Some 5\<rparr>" and v = 5
      and ovh = "[ResourceCPU \<mapsto> MilliQuantity 180]" and n = 180
      and cpuRange = "\<lparr>start = 4000, end' = 2 ^ 31, percentage = float64_const 25 10000\<rparr>"
      and band = "(4000, 2 ^ 31, 25 / 10000)" and env = example_env]
  by (simp add: example_defs cpuRanges_def bands_def floor_five_halves)

text \<open>The total for 5 vCPUs is 100 + 60 + 10 + 10 + 2 = 182, not the 177 of claim
  C10.\<close>

theorem cpu_overhead_five_vcpus_counterexample:
  "overhead_of example_env
     (example_type (example_info\<lparr>VCpuInfo := Some \<lparr>DefaultVCpus = Some 5\<rparr>\<rparr>)) ResourceCPU
   = Some (MilliQuantity 182) \<and>
   overhead_of example_env
     (example_type (example_info\<lparr>VCpuInfo := Some \<lparr>DefaultVCpus = Some 5\<rparr>\<rparr>)) ResourceCPU
   \<noteq> Some (MilliQuantity 177)"
  by (simp add: overhead_of_def example_overhead example5 resource_names)

text \<open>For 9223372036854776 vCPUs the thousandths do not fit \<^verbatim>\<open>int64\<close> and
  \<^verbatim>\<open>MilliValue\<close> returns 0: the first band adds 0, no other band starts at 0, and the
  entry is the 100 of the start.\<close>

lemma cpu_overhead_beyond_int64:
  "overhead_of example_env
     (example_type (example_info\<lparr>VCpuInfo := Some \<lparr>DefaultVCpus = Some 9223372036854776\<rparr>\<rparr>))
     ResourceCPU
   = Some (MilliQuantity 100)"
proof -
  let ?i = "example_type (example_info\<lparr>VCpuInfo := Some \<lparr>DefaultVCpus = Some 9223372036854776\<rparr>\<rparr>)"
  have c: "cpu ?i = Some (MilliQuantity 9223372036854776000)"
    by (simp add: cpu_def Quantity_of_int_def example_defs)
  have z: "float64_trunc (float64_mul (float64_of_int 0) (float64_const 6 100)) = 0"
    by (simp add: float64_trunc_def float64_mul_def float64_of_int_def float64_round_def)
  have "computeOverhead_loop example_env ?i cpuRanges ovh
        = Some (ovh(ResourceCPU \<mapsto> Quantity_Add
             (case ovh ResourceCPU of Some q \<Rightarrow> q | None \<Rightarrow> MilliQuantity 0)
             (MilliQuantity 0)))" for ovh
    by (simp add: cpuRanges_def computeOverhead_step_def c Let_def z int64_of_float64_def
        NewMilliQuantity_def)
  then show ?thesis
    by (simp add: overhead_of_def computeOverhead_def eniLimitedPods_def example_defs
        NewMilliQuantity_def resource_names)
qed

subsection \<open>Memory overhead\<close>

lemma cpu_maxPods: "cpu (i\<lparr>maxPods := override\<rparr>) = cpu i"
  by (simp add: cpu_def)

lemma computeOverhead_step_maxPods:
  "computeOverhead_step env (i\<lparr>maxPods := override\<rparr>) cr ovh = computeOverhead_step env i cr ovh"
  by (simp add: computeOverhead_step_def cpu_maxPods)

lemma computeOverhead_loop_maxPods:
  "computeOverhead_loop env (i\<lparr>maxPods := override\<rparr>) crs ovh = computeOverhead_loop env i crs ovh"
  by (induction crs arbitrary: ovh)
    (simp_all add: computeOverhead_step_maxPods cong: Option.bind_cong)

lemma computeOverhead_maxPods:
  "computeOverhead env (i\<lparr>maxPods := override\<rparr>) = computeOverhead env i"
  by (simp add: computeOverhead_def eniLimitedPods_def computeOverhead_loop_maxPods)

lemma computeOverhead_step_other:
  assumes "computeOverhead_step env i cr ovh = Some ovh'" "name \<noteq> ResourceCPU"
  shows "ovh' name = ovh name"
  using assms
  by (auto simp: computeOverhead_step_def Let_def split: Option.bind_splits if_splits)

lemma computeOverhead_loop_other:
  assumes "computeOverhead_loop env i crs ovh = Some ovh'" "name \<noteq> ResourceCPU"
  shows "ovh' name = ovh name"
  using assms
proof (induction crs arbitrary: ovh)
  case Nil
  then show ?case by simp
next
  case (Cons cr crs)
  then obtain mid where mid: "computeOverhead_step env i cr ovh = Some mid"
    "computeOverhead_loop env i crs mid = Some ovh'"
    by (auto split: Option.bind_splits)
  then show ?case
    using Cons.IH [OF mid(2) Cons.prems(2)] computeOverhead_step_other [OF mid(1) Cons.prems(2)]
    by simp
qed

lemma sint_int64_memory:
  fixes a b :: int64
  assumes "- (2 ^ 63) \<le> 11 * (sint a * (sint b - 1) + 2) + 255 + 100 + 100"
    "11 * (sint a * (sint b - 1) + 2) + 255 + 100 + 100 < 2 ^ 63"
  shows "sint (11 * (a * (b - 1) + 2) + 255 + 100 + 100)
         = 11 * (sint a * (sint b - 1) + 2) + 255 + 100 + 100"
proof -
  have "11 * (a * (b - 1) + 2) + 255 + 100 + 100
        = word_of_int (11 * (sint a * (sint b - 1) + 2) + 255 + 100 + 100)" by simp
  then have "sint (11 * (a * (b - 1) + 2) + 255 + 100 + 100)
        = signed_take_bit 63 (11 * (sint a * (sint b - 1) + 2) + 255 + 100 + 100)"
    by (simp only: sint_sbintrunc') simp
  then show ?thesis using assms by (simp add: signed_take_bit_int_eq_self)
qed

lemma computeOverhead_memory:
  assumes "computeOverhead env i = Some ov"
    and "InstanceTypeInfo i = Some info" "NetworkInfo info = Some networkInfo"
    and "MaximumNetworkInterfaces networkInfo = Some a"
    and "Ipv4AddressesPerInterface networkInfo = Some b"
  shows "ov ResourceMemory
           = Some (Quantity_Mi (sint ((11 * (a * (b - 1) + 2) + 255) + 100 + 100)))"
proof -
  from assms obtain aws where aws: "provider i = Some aws"
    by (auto elim: computeOverhead_SomeD)
  let ?ov = "[ResourceCPU \<mapsto> NewMilliQuantity 100,
         ResourceMemory \<mapsto> Quantity_Mi (sint (11 * (a * (b - 1) + 2) + 255 + 100 + 100)),
         ResourceEphemeralStorage \<mapsto> EphemeralBlockDeviceOverhead env (AMIFamily aws)]"
  have "computeOverhead_loop env i cpuRanges ?ov = Some ov"
    using assms aws by (simp add: computeOverhead_def eniLimitedPods_def)
  then have "ov ResourceMemory = ?ov ResourceMemory"
    by (rule computeOverhead_loop_other) (simp add: resource_names)
  then show ?thesis by (simp add: resource_names)
qed

text \<open>Below \<open>2 ^ 43\<close> MiB in magnitude the parsed quantity is the number of MiB; from there
  on it is the cap.\<close>

lemma Quantity_Mi_MiB:
  "- (2 ^ 43) < n \<Longrightarrow> n < 2 ^ 43 \<Longrightarrow> Quantity_Mi n = MiB n"
  by (simp add: Quantity_Mi_def MiB_def)

lemma Quantity_Mi_cap:
  "2 ^ 43 \<le> n \<Longrightarrow> Quantity_Mi n = MilliQuantity (1000 * (2 ^ 63 - 1))"
  "n \<le> - (2 ^ 43) \<Longrightarrow> Quantity_Mi n = MilliQuantity (- 1000 * (2 ^ 63 - 1))"
  by (simp_all add: Quantity_Mi_def)

text \<open>
  Claim C3, as amended. Let \<open>p\<close> be the pod count limited by the network interfaces,
  \<open>maximumNetworkInterfaces * (ipv4AddressesPerInterface - 1) + 2\<close>. When
  \<open>(11 * p + 255) + 100 + 100\<close>, in the integers or as the \<^verbatim>\<open>int64\<close> the source
  computes, is less than \<open>2 ^ 43\<close> in magnitude, the memory entry of the computed overhead
  is that number of MiB, each \<open>2 ^ 20\<close> bytes. From \<open>2 ^ 43\<close> MiB up the entry is the cap
  of the quantity parser, \<open>2 ^ 63 - 1\<close> bytes, and its negative from \<open>- (2 ^ 43)\<close> down.
  A pod capacity override of the configuration does not change the overhead. For
  \<open>p = 29\<close> the entry is 774 MiB.
\<close>

theorem memory_overhead_eni_limited:
  assumes "computeOverhead env i = Some ov"
    and "InstanceTypeInfo i = Some info" "NetworkInfo info = Some networkInfo"
    and "MaximumNetworkInterfaces networkInfo = Some a"
    and "Ipv4AddressesPerInterface networkInfo = Some b"
  shows "(- (2 ^ 43) < 11 * (sint a * (sint b - 1) + 2) + 255 + 100 + 100 \<and>
          11 * (sint a * (sint b - 1) + 2) + 255 + 100 + 100 < 2 ^ 43 \<longrightarrow>
            ov ResourceMemory
              = Some (MiB ((11 * (sint a * (sint b - 1) + 2) + 255) + 100 + 100))) \<and>
         (- (2 ^ 43) < sint ((11 * (a * (b - 1) + 2) + 255) + 100 + 100) \<and>
          sint ((11 * (a * (b - 1) + 2) + 255) + 100 + 100) < 2 ^ 43 \<longrightarrow>
            ov ResourceMemory
              = Some (MiB (sint ((11 * (a * (b - 1) + 2) + 255) + 100 + 100)))) \<and>
         (2 ^ 43 \<le> sint ((11 * (a * (b - 1) + 2) + 255) + 100 + 100) \<longrightarrow>
            ov ResourceMemory = Some (MilliQuantity (1000 * (2 ^ 63 - 1)))) \<and>
         (sint ((11 * (a * (b - 1) + 2) + 255) + 100 + 100) \<le> - (2 ^ 43) \<longrightarrow>
            ov ResourceMemory = Some (MilliQuantity (- 1000 * (2 ^ 63 - 1)))) \<and>
         computeOverhead env (i\<lparr>maxPods := override\<rparr>) = Some ov"
proof -
  let ?N = "sint ((11 * (a * (b - 1) + 2) + 255) + 100 + 100)"
  let ?P = "11 * (sint a * (sint b - 1) + 2) + 255 + 100 + 100"
  have 0: "ov ResourceMemory = Some (Quantity_Mi ?N)"
    using assms by (rule computeOverhead_memory)
  have 2: "- (2 ^ 43) < ?N \<and> ?N < 2 ^ 43 \<longrightarrow> ov ResourceMemory = Some (MiB ?N)"
  proof
    assume "- (2 ^ 43) < ?N \<and> ?N < 2 ^ 43"
    then have "Quantity_Mi ?N = MiB ?N"
      by (intro Quantity_Mi_MiB) (erule conjunct1, erule conjunct2)
    then show "ov ResourceMemory = Some (MiB ?N)" using 0 by (simp only:)
  qed
  have 1: "- (2 ^ 43) < ?P \<and> ?P < 2 ^ 43 \<longrightarrow> ov ResourceMemory = Some (MiB ?P)"
  proof
    assume b: "- (2 ^ 43) < ?P \<and> ?P < 2 ^ 43"
    then have "- (2 ^ 63) \<le> ?P" "?P < 2 ^ 63" by simp_all
    then have "?N = ?P" by (rule sint_int64_memory)
    then show "ov ResourceMemory = Some (MiB ?P)" using 2 b by (simp only:)
  qed
  have 3: "2 ^ 43 \<le> ?N \<longrightarrow> ov ResourceMemory = Some (MilliQuantity (1000 * (2 ^ 63 - 1)))"
  proof
    assume "2 ^ 43 \<le> ?N"
    then have "Quantity_Mi ?N = MilliQuantity (1000 * (2 ^ 63 - 1))" by (rule Quantity_Mi_cap(1))
    then show "ov ResourceMemory = Some (MilliQuantity (1000 * (2 ^ 63 - 1)))"
      using 0 by (simp only:)
  qed
  have 4: "?N \<le> - (2 ^ 43)
           \<longrightarrow> ov ResourceMemory = Some (MilliQuantity (- 1000 * (2 ^ 63 - 1)))"
  proof
    assume "?N \<le> - (2 ^ 43)"
    then have "Quantity_Mi ?N = MilliQuantity (- 1000 * (2 ^ 63 - 1))"
      by (rule Quantity_Mi_cap(2))
    then show "ov ResourceMemory = Some (MilliQuantity (- 1000 * (2 ^ 63 - 1)))"
      using 0 by (simp only:)
  qed
  have 5: "computeOverhead env (i\<lparr>maxPods := override\<rparr>) = Some ov"
    using assms(1) by (simp only: computeOverhead_maxPods)
  show ?thesis using 1 2 3 4 5 by (intro conjI)
qed

lemma example_overhead_network_ok:
  "computeOverhead example_env
     (example_type (example_info\<lparr>NetworkInfo := Some
        \<lparr>Ipv4AddressesPerInterface = Some b, MaximumNetworkInterfaces = Some a\<rparr>\<rparr>)) \<noteq> None"
  using computeOverhead_eval [where env = example_env and v = 2
      and i = "example_type (example_info\<lparr>NetworkInfo := Some
        \<lparr>Ipv4AddressesPerInterface = Some b, MaximumNetworkInterfaces = Some a\<rparr>\<rparr>)"
      and vCpuInfo = "\<lparr>DefaultVCpus = Some 2\<rparr>" and aws = example_aws
      and a = a and b = b
      and info = "example_info\<lparr>NetworkInfo := Some
        \<lparr>Ipv4AddressesPerInterface = Some b, MaximumNetworkInterfaces = Some a\<rparr>\<rparr>"
      and networkInfo = "\<lparr>Ipv4AddressesPerInterface = Some b,
         MaximumNetworkInterfaces = Some a\<rparr>"]
  by (simp add: example_defs)

theorem memory_overhead_eni_limited_witness:
  "overhead_of example_env (example_type example_info) ResourceMemory
     = Some (MilliQuantity (1000 * (774 * 1048576))) \<and>
   overhead_of example_env ((example_type example_info)\<lparr>maxPods := Some 110\<rparr>) ResourceMemory
     = Some (MilliQuantity (1000 * (774 * 1048576))) \<and>
   overhead_of example_env
     (example_type (example_info\<lparr>NetworkInfo := Some
        \<lparr>Ipv4AddressesPerInterface = Some 2,
         MaximumNetworkInterfaces = Some 799644820158\<rparr>\<rparr>))
     ResourceMemory
   = Some (MilliQuantity (1000 * (2 ^ 63 - 1))) \<and>
   overhead_of example_env
     (example_type (example_info\<lparr>NetworkInfo := Some
        \<lparr>Ipv4AddressesPerInterface = Some 2,
         MaximumNetworkInterfaces = Some (- 799644820300)\<rparr>\<rparr>))
     ResourceMemory
   = Some (MilliQuantity (- 1000 * (2 ^ 63 - 1)))"
proof -
  let ?negative = "example_info\<lparr>NetworkInfo := Some
        \<lparr>Ipv4AddressesPerInterface = Some 2,
         MaximumNetworkInterfaces = Some (- 799644820300)\<rparr>\<rparr>"
  obtain ovn where ovn: "computeOverhead example_env (example_type ?negative) = Some ovn"
    using example_overhead_network_ok by blast
  have negative: "ovn ResourceMemory = Some (MilliQuantity (- 1000 * (2 ^ 63 - 1)))"
    using ovn memory_overhead_eni_limited [where i = "example_type ?negative"
        and info = ?negative and env = example_env and ov = ovn
        and a = "- 799644820300" and b = 2
        and networkInfo = "\<lparr>Ipv4AddressesPerInterface = Some 2,
           MaximumNetworkInterfaces = Some (- 799644820300)\<rparr>"
        and override = None]
    by (simp add: example_defs)
  let ?large = "example_info\<lparr>NetworkInfo := Some
        \<lparr>Ipv4AddressesPerInterface = Some 2,
         MaximumNetworkInterfaces = Some 799644820158\<rparr>\<rparr>"
  obtain ovl where ovl: "computeOverhead example_env (example_type ?large) = Some ovl"
    using example_overhead_network_ok by blast
  have large: "ovl ResourceMemory = Some (MilliQuantity (1000 * (2 ^ 63 - 1)))"
    using ovl memory_overhead_eni_limited [where i = "example_type ?large"
        and info = ?large and env = example_env and ov = ovl
        and a = 799644820158 and b = 2
        and networkInfo = "\<lparr>Ipv4AddressesPerInterface = Some 2,
           MaximumNetworkInterfaces = Some 799644820158\<rparr>"
        and override = None]
    by (simp add: example_defs)
  have e: "example_info = example_info\<lparr>VCpuInfo := Some \<lparr>DefaultVCpus = Some 2\<rparr>\<rparr>"
    by (simp add: example_defs)
  obtain ov where ov: "computeOverhead example_env (example_type example_info) = Some ov"
    using example_overhead [of 2] e by simp
  have "ov ResourceMemory = Some (MiB 774) \<and>
        computeOverhead example_env ((example_type example_info)\<lparr>maxPods := Some 110\<rparr>) = Some ov"
    using ov memory_overhead_eni_limited [where i = "example_type example_info"
        and info = example_info and env = example_env and ov = ov and a = 3 and b = 10
        and networkInfo = "\<lparr>Ipv4AddressesPerInterface = Some 10, MaximumNetworkInterfaces = Some 3\<rparr>"
        and override = "Some 110"]
    by (simp add: example_defs)
  then show ?thesis using ov ovl large ovn negative by (simp add: overhead_of_def MiB_def)
qed

text \<open>With 799644820158 interfaces of 2 addresses each the pod count is 799644820160 and
  the formula of claim C3 gives 8796093022215 MiB, which is \<open>2 ^ 43 + 7\<close>: the entry is the
  cap \<open>2 ^ 63 - 1\<close> bytes, not that number of MiB.\<close>

theorem memory_overhead_cap_counterexample:
  "overhead_of example_env
     (example_type (example_info\<lparr>NetworkInfo := Some
        \<lparr>Ipv4AddressesPerInterface = Some 2,
         MaximumNetworkInterfaces = Some 799644820158\<rparr>\<rparr>))
     ResourceMemory
   = Some (MilliQuantity (1000 * 9223372036854775807)) \<and>
   (11 * (799644820158 * (2 - 1) + 2) + 255) + 100 + 100 = (8796093022215 :: int) \<and>
   MilliQuantity (1000 * 9223372036854775807) \<noteq> MiB 8796093022215"
proof -
  let ?i = "example_type (example_info\<lparr>NetworkInfo := Some
        \<lparr>Ipv4AddressesPerInterface = Some 2,
         MaximumNetworkInterfaces = Some 799644820158\<rparr>\<rparr>)"
  have "computeOverhead example_env ?i \<noteq> None"
    by (rule example_overhead_network_ok)
  then obtain ov where ov: "computeOverhead example_env ?i = Some ov" by auto
  have "ov ResourceMemory
        = Some (Quantity_Mi (sint ((11 * (799644820158 * (2 - 1) + 2) + 255) + 100 + 100 :: int64)))"
    using ov
    by (rule computeOverhead_memory [where networkInfo = "\<lparr>Ipv4AddressesPerInterface = Some 2,
           MaximumNetworkInterfaces = Some 799644820158\<rparr>"
        and info = "example_info\<lparr>NetworkInfo := Some
          \<lparr>Ipv4AddressesPerInterface = Some 2,
           MaximumNetworkInterfaces = Some 799644820158\<rparr>\<rparr>"])
      (simp_all add: example_defs)
  then have "ov ResourceMemory = Some (MilliQuantity (1000 * 9223372036854775807))"
    by (simp add: Quantity_Mi_def)
  then show ?thesis using ov by (simp add: overhead_of_def MiB_def)
qed

subsection \<open>Allocatable memory\<close>

lemma computeResources_memory:
  "computeResources env i enablePodENI = Some res \<Longrightarrow> res ResourceMemory = memory env i"
  by (auto simp: computeResources_def resource_names split: Option.bind_splits)

text \<open>
  Claim C5, as amended. For a memory size of \<open>m\<close> MiB with \<open>0 \<le> m\<close> and
  \<open>m \<le> 2321603943\<close>, the sizes whose scaled value fits the \<^verbatim>\<open>int32\<close> that the
  source converts to, the memory entry of the computed resource list is
  \<open>\<lfloor>m * 0.925\<rfloor>\<close> MiB. For 8192 MiB it is 7577 MiB.
\<close>

theorem memory_entry_floor:
  assumes "InstanceTypeInfo i = Some info"
    and "InstanceTypeInfo.MemoryInfo info = Some memoryInfo"
    and "MemoryInfo.SizeInMiB memoryInfo = Some m"
    and "0 \<le> sint m" "sint m \<le> 2321603943"
  shows "memory env i = Some (Quantity_Mi \<lfloor>of_int (sint m) * (925 / 1000 :: rat)\<rfloor>) \<and>
         (computeResources env i enablePodENI = Some res \<longrightarrow>
            res ResourceMemory = Some (Quantity_Mi \<lfloor>of_int (sint m) * (925 / 1000 :: rat)\<rfloor>))"
proof -
  let ?f = "float64_mul (float64_of_int (sint m)) EC2VMAvailableMemoryFactor"
  have t: "float64_trunc ?f = (925 * sint m) div 1000"
    using assms(4,5) by (rule memory_product)
  have "0 \<le> (925 * sint m) div 1000" "(925 * sint m) div 1000 < 2 ^ 31"
    using assms(4,5) by simp_all
  then have "sint (int32_of_float64 (int32_other env) ?f) = (925 * sint m) div 1000"
    using t by (intro sint_int32_of_float64 [THEN trans]) simp_all
  moreover have "\<lfloor>of_int (sint m) * (925 / 1000 :: rat)\<rfloor> = (925 * sint m) div 1000"
    using floor_of_int_mult_ratio [of "sint m" 925 1000] by simp
  ultimately have "memory env i = Some (Quantity_Mi \<lfloor>of_int (sint m) * (925 / 1000 :: rat)\<rfloor>)"
    using assms(1-3) by (simp add: memory_def)
  then show ?thesis by (auto dest: computeResources_memory)
qed

lemma floor_example_memory: "\<lfloor>of_int (sint (8192 :: int64)) * (925 / 1000 :: rat)\<rfloor> = 7577"
  by (simp add: floor_eq_iff)

theorem memory_entry_floor_witness:
  "memory example_env (example_type example_info) = Some (Quantity_Mi 7577) \<and>
   resource_of example_env (example_type example_info) False ResourceMemory
     = Some (Quantity_Mi 7577)"
proof -
  obtain res where res: "computeResources example_env (example_type example_info) False = Some res"
    using example_resources_ok by auto
  have "memory example_env (example_type example_info) = Some (Quantity_Mi 7577) \<and>
        res ResourceMemory = Some (Quantity_Mi 7577)"
    using res memory_entry_floor [where i = "example_type example_info" and info = example_info
        and memoryInfo = "\<lparr>MemoryInfo.SizeInMiB = Some 8192\<rparr>" and m = 8192
        and env = example_env and enablePodENI = False and res = res,
        unfolded floor_example_memory]
    by (simp add: example_defs)
  then show ?thesis using res by (simp add: resource_of_def)
qed

lemma memory_negative_example:
  "float64_trunc (float64_mul (float64_of_int (- 1)) EC2VMAvailableMemoryFactor) = 0"
  by code_simp

lemma memory_large_example:
  "float64_trunc (float64_mul (float64_of_int 4294967296) EC2VMAvailableMemoryFactor) = 3972844748"
  by code_simp

lemma sint_int32_less: "sint (w :: int32) < 2147483648"
  using sint_lt [of w] by simp

text \<open>Outside that range claim C5 fails: the conversion truncates towards zero, so a
  size of \<open>- 1\<close> gives 0 MiB where the floor is \<open>- 1\<close>; and for \<open>2 ^ 32\<close> MiB the floor,
  3972844748, is more than any \<^verbatim>\<open>int32\<close> holds.\<close>

theorem memory_entry_floor_counterexample:
  "memory example_env
     (example_type (example_info\<lparr>MemoryInfo := Some \<lparr>MemoryInfo.SizeInMiB = Some (- 1)\<rparr>\<rparr>))
   = Some (Quantity_Mi 0) \<and>
   \<lfloor>of_int (sint (- 1 :: int64)) * (925 / 1000 :: rat)\<rfloor> = - 1 \<and>
   memory example_env
     (example_type (example_info\<lparr>MemoryInfo := Some \<lparr>MemoryInfo.SizeInMiB = Some 4294967296\<rparr>\<rparr>))
   \<noteq> Some (Quantity_Mi 3972844748) \<and>
   \<lfloor>of_int (sint (4294967296 :: int64)) * (925 / 1000 :: rat)\<rfloor> = 3972844748"
proof -
  have 1: "memory example_env
     (example_type (example_info\<lparr>MemoryInfo := Some \<lparr>MemoryInfo.SizeInMiB = Some (- 1)\<rparr>\<rparr>))
   = Some (Quantity_Mi 0)"
    by (simp add: memory_def example_defs memory_negative_example int32_of_float64_def)
  have 2: "\<lfloor>of_int (sint (- 1 :: int64)) * (925 / 1000 :: rat)\<rfloor> = - 1"
    by (simp add: floor_eq_iff)
  have 3: "memory example_env
     (example_type (example_info\<lparr>MemoryInfo := Some \<lparr>MemoryInfo.SizeInMiB = Some 4294967296\<rparr>\<rparr>))
   \<noteq> Some (Quantity_Mi 3972844748)"
    using sint_int32_less
    by (simp add: memory_def example_defs memory_large_example int32_of_float64_def Quantity_Mi_def)
  have 4: "\<lfloor>of_int (sint (4294967296 :: int64)) * (925 / 1000 :: rat)\<rfloor> = 3972844748"
    by (simp add: floor_eq_iff)
  show ?thesis using 1 2 3 4 by (intro conjI)
qed

subsection \<open>Architecture\<close>

lemmas label_keys =
  LabelInstanceTypeStable_def LabelArchStable_def LabelOSStable_def LabelTopologyZone_def
  LabelCapacityType_def InstanceCPULabelKey_def InstanceMemoryLabelKey_def
  InstanceFamilyLabelKey_def InstanceSizeLabelKey_def InstanceGPUNameLabelKey_def
  InstanceGPUManufacturerLabelKey_def InstanceGPUCountLabelKey_def
  InstanceGPUMemoryLabelKey_def LabelDomain_def

lemma architecture_loop_first_canonical:
  "architecture_loop archs = first_canonical (StringValueSlice archs)"
  by (induction archs) (auto simp: first_canonical_def StringValueSlice_def split: option.splits)

lemma Sprint_strings_not_canonical:
  "Sprint_strings ss \<noteq> ArchitectureAmd64 \<and> Sprint_strings ss \<noteq> ArchitectureArm64"
  by (simp add: Sprint_strings_def ArchitectureAmd64_def ArchitectureArm64_def)

lemma architecture_eq:
  assumes "InstanceTypeInfo i = Some info" "ProcessorInfo info = Some processorInfo"
  shows "architecture i =
    Some (case first_canonical (StringValueSlice (SupportedArchitectures processorInfo)) of
            Some v \<Rightarrow> v
          | None \<Rightarrow> Sprint_strings (StringValueSlice (SupportedArchitectures processorInfo)))"
  using assms by (simp add: architecture_def architecture_loop_first_canonical split: option.splits)

lemma computeRequirements_arch:
  assumes "computeRequirements env i = Some reqs"
  shows "\<exists>arch. architecture i = Some arch \<and> reqs LabelArchStable = Some {arch}"
  using assms
  by (auto simp: computeRequirements_def Let_def Requirements_Add_def label_keys
      split: Option.bind_splits option.splits if_splits)

lemma join_space_Cons:
  "join_space (s # ss) = s @ concat (map (\<lambda>id. CHR '' '' # id) ss)"
  by (induction ss arbitrary: s) simp_all

lemma Sprint_strings_raw_rendering: "Sprint_strings ss = raw_rendering ss"
  by (cases ss) (simp_all add: Sprint_strings_def raw_rendering_def join_space_Cons)

text \<open>
  Claim C8. The architecture value of the Requirements is the canonical value of the first
  identifier of the list that the table has; the table has the two entries
  \<^verbatim>\<open>x86_64\<close> to \<^verbatim>\<open>amd64\<close> and \<^verbatim>\<open>arm64\<close> to \<^verbatim>\<open>arm64\<close>. When the table has no
  identifier of the list, the value is the raw list joined into one string, the
  identifiers separated by one space and between square brackets, which is neither of the
  canonical identifiers and no failure: the list \<^verbatim>\<open>["graviton3x"]\<close> gives
  \<^verbatim>\<open>[graviton3x]\<close>, and \<^verbatim>\<open>["graviton3x", "riscv64"]\<close> gives
  \<^verbatim>\<open>[graviton3x riscv64]\<close>.
\<close>

theorem architecture_first_canonical_or_raw:
  assumes "computeRequirements env i = Some reqs"
    and "InstanceTypeInfo i = Some info" "ProcessorInfo info = Some processorInfo"
  shows "reqs LabelArchStable =
           Some {case first_canonical (StringValueSlice (SupportedArchitectures processorInfo)) of
                   Some v \<Rightarrow> v
                 | None \<Rightarrow> raw_rendering (StringValueSlice (SupportedArchitectures processorInfo))} \<and>
         (first_canonical (StringValueSlice (SupportedArchitectures processorInfo)) = None \<longrightarrow>
            raw_rendering (StringValueSlice (SupportedArchitectures processorInfo))
              \<notin> {''amd64'', ''arm64''}) \<and>
         AWSToKubeArchitectures = [''x86_64'' \<mapsto> ''amd64'', ''arm64'' \<mapsto> ''arm64'']"
proof -
  from assms(1) obtain arch where
    "architecture i = Some arch" "reqs LabelArchStable = Some {arch}"
    using computeRequirements_arch by blast
  then have "reqs LabelArchStable =
           Some {case first_canonical (StringValueSlice (SupportedArchitectures processorInfo)) of
                   Some v \<Rightarrow> v
                 | None \<Rightarrow> raw_rendering (StringValueSlice (SupportedArchitectures processorInfo))}"
    using architecture_eq [OF assms(2,3)]
    by (auto simp: Sprint_strings_raw_rendering split: option.splits)
  moreover have "raw_rendering (StringValueSlice (SupportedArchitectures processorInfo))
              \<notin> {''amd64'', ''arm64''}"
    using Sprint_strings_not_canonical
    by (simp add: ArchitectureAmd64_def ArchitectureArm64_def Sprint_strings_raw_rendering)
  moreover have "AWSToKubeArchitectures = [''x86_64'' \<mapsto> ''amd64'', ''arm64'' \<mapsto> ''arm64'']"
    by (simp add: AWSToKubeArchitectures_def ArchitectureAmd64_def ArchitectureArm64_def)
  ultimately show ?thesis by simp
qed

lemma example_requirements_ok:
  "computeRequirements example_env
     (example_type (example_info\<lparr>InstanceType := name, ProcessorInfo := Some processorInfo\<rparr>))
   \<noteq> None"
  by (simp add: computeRequirements_def Name_def architecture_def example_defs Let_def
      split: option.splits)

lemma first_canonical_graviton: "first_canonical [''graviton3x''] = None"
  by (simp add: first_canonical_def AWSToKubeArchitectures_def ArchitectureArm64_def)

lemma first_canonical_unknown: "first_canonical [''graviton3x'', [], ''riscv64''] = None"
  by (simp add: first_canonical_def AWSToKubeArchitectures_def ArchitectureArm64_def)

lemma first_canonical_x86: "first_canonical [''riscv'', ''x86_64'', ''arm64''] = Some ''amd64''"
  by (simp add: first_canonical_def AWSToKubeArchitectures_def ArchitectureArm64_def
      ArchitectureAmd64_def)

theorem architecture_first_canonical_or_raw_witness:
  "requirement_of example_env
     (example_type (example_info\<lparr>InstanceType := Some ''m5.large'',
        ProcessorInfo := Some \<lparr>SupportedArchitectures = [Some ''graviton3x'']\<rparr>\<rparr>))
     LabelArchStable = Some {''[graviton3x]''} \<and>
   ''[graviton3x]'' \<notin> {''amd64'', ''arm64''} \<and>
   requirement_of example_env
     (example_type (example_info\<lparr>InstanceType := Some ''m5.large'',
        ProcessorInfo := Some \<lparr>SupportedArchitectures =
          [Some ''graviton3x'', None, Some ''riscv64'']\<rparr>\<rparr>))
     LabelArchStable = Some {''[graviton3x  riscv64]''} \<and>
   ''[graviton3x  riscv64]'' \<notin> {''amd64'', ''arm64''} \<and>
   requirement_of example_env
     (example_type (example_info\<lparr>InstanceType := Some ''m5.large'',
        ProcessorInfo := Some \<lparr>SupportedArchitectures =
          [Some ''riscv'', Some ''x86_64'', Some ''arm64'']\<rparr>\<rparr>))
     LabelArchStable = Some {''amd64''}"
proof -
  let ?g = "example_type (example_info\<lparr>InstanceType := Some ''m5.large'',
        ProcessorInfo := Some \<lparr>SupportedArchitectures = [Some ''graviton3x'']\<rparr>\<rparr>)"
  let ?u = "example_type (example_info\<lparr>InstanceType := Some ''m5.large'',
        ProcessorInfo := Some \<lparr>SupportedArchitectures =
          [Some ''graviton3x'', None, Some ''riscv64'']\<rparr>\<rparr>)"
  let ?x = "example_type (example_info\<lparr>InstanceType := Some ''m5.large'',
        ProcessorInfo := Some \<lparr>SupportedArchitectures =
          [Some ''riscv'', Some ''x86_64'', Some ''arm64'']\<rparr>\<rparr>)"
  obtain rg where rg: "computeRequirements example_env ?g = Some rg"
    using example_requirements_ok by blast
  obtain ru where ru: "computeRequirements example_env ?u = Some ru"
    using example_requirements_ok by blast
  obtain rx where rx: "computeRequirements example_env ?x = Some rx"
    using example_requirements_ok by blast
  have 1: "rg LabelArchStable = Some {''[graviton3x]''} \<and> ''[graviton3x]'' \<notin> {''amd64'', ''arm64''}"
    using rg architecture_first_canonical_or_raw [where env = example_env and i = ?g and reqs = rg
        and info = "example_info\<lparr>InstanceType := Some ''m5.large'',
          ProcessorInfo := Some \<lparr>SupportedArchitectures = [Some ''graviton3x'']\<rparr>\<rparr>"
        and processorInfo = "\<lparr>SupportedArchitectures = [Some ''graviton3x'']\<rparr>"]
    by (simp add: example_defs StringValueSlice_def StringValue_def first_canonical_graviton
        raw_rendering_def)
  have 2: "rx LabelArchStable = Some {''amd64''}"
    using rx architecture_first_canonical_or_raw [where env = example_env and i = ?x and reqs = rx
        and info = "example_info\<lparr>InstanceType := Some ''m5.large'',
          ProcessorInfo := Some \<lparr>SupportedArchitectures =
            [Some ''riscv'', Some ''x86_64'', Some ''arm64'']\<rparr>\<rparr>"
        and processorInfo = "\<lparr>SupportedArchitectures =
            [Some ''riscv'', Some ''x86_64'', Some ''arm64'']\<rparr>"]
    by (simp add: example_defs StringValueSlice_def StringValue_def first_canonical_x86)
  have 3: "ru LabelArchStable = Some {''[graviton3x  riscv64]''} \<and>
           ''[graviton3x  riscv64]'' \<notin> {''amd64'', ''arm64''}"
    using ru architecture_first_canonical_or_raw [where env = example_env and i = ?u and reqs = ru
        and info = "example_info\<lparr>InstanceType := Some ''m5.large'',
          ProcessorInfo := Some \<lparr>SupportedArchitectures =
            [Some ''graviton3x'', None, Some ''riscv64'']\<rparr>\<rparr>"
        and processorInfo = "\<lparr>SupportedArchitectures =
            [Some ''graviton3x'', None, Some ''riscv64'']\<rparr>"]
    by (simp add: example_defs StringValueSlice_def StringValue_def first_canonical_unknown
        raw_rendering_def)
  show ?thesis using 1 2 3 rg ru rx by (simp add: requirement_of_def)
qed

subsection \<open>Family and size labels\<close>

lemma Split_not_Nil: "Split s sep \<noteq> []"
  by (induction s) (auto split: list.splits)

lemma length_Split: "length (Split s sep) = Suc (count_list s sep)"
  by (induction s) (auto split: list.splits simp: Split_not_Nil)

lemma Split_no_separator: "sep \<notin> set s \<Longrightarrow> Split s sep = [s]"
  by (induction s) auto

lemma Split_at_first:
  "sep \<notin> set a \<Longrightarrow> Split (a @ sep # b) sep = a # Split b sep"
  by (induction a) auto

lemma split_first_decompose:
  assumes "split_first s sep = Some (a, b)"
  shows "s = a @ sep # b \<and> sep \<notin> set a"
proof -
  from assms have in_s: "sep \<in> set s"
    and a: "a = takeWhile (\<lambda>c. c \<noteq> sep) s" and b: "b = tl (dropWhile (\<lambda>c. c \<noteq> sep) s)"
    by (auto simp: split_first_def split: if_splits)
  have "dropWhile (\<lambda>c. c \<noteq> sep) s \<noteq> []" using in_s by simp
  moreover have "hd (dropWhile (\<lambda>c. c \<noteq> sep) s) = sep"
    using in_s hd_dropWhile [of "\<lambda>c. c \<noteq> sep" s] by auto
  ultimately have "dropWhile (\<lambda>c. c \<noteq> sep) s = sep # b"
    using b by (cases "dropWhile (\<lambda>c. c \<noteq> sep) s") auto
  then have "s = a @ sep # b" using a takeWhile_dropWhile_id [of "\<lambda>c. c \<noteq> sep" s] by simp
  moreover have "sep \<notin> set a" using a by (auto dest: set_takeWhileD)
  ultimately show ?thesis by simp
qed

lemma Split_two_parts:
  assumes "split_first s sep = Some (a, b)" "count_list s sep = 1"
  shows "Split s sep = [a, b]"
proof -
  have s: "s = a @ sep # b" and a: "sep \<notin> set a"
    using split_first_decompose [OF assms(1)] by simp_all
  have "count_list a sep = 0" using a by (simp add: count_list_0_iff)
  then have "count_list b sep = 0" using assms(2) s by simp
  then have "sep \<notin> set b" by (simp add: count_list_0_iff)
  then show ?thesis using s a by (simp add: Split_at_first Split_no_separator)
qed

lemma computeRequirements_family_size:
  assumes "computeRequirements env i = Some reqs" "InstanceTypeInfo i = Some info"
  shows "(case Split (StringValue (InstanceType info)) CHR ''.'' of
            [family, part] \<Rightarrow>
              reqs InstanceFamilyLabelKey = Some {family} \<and> reqs InstanceSizeLabelKey = Some {part}
          | _ \<Rightarrow> reqs InstanceFamilyLabelKey = None \<and> reqs InstanceSizeLabelKey = None)"
  using assms
  apply (simp add: computeRequirements_def Let_def split: Option.bind_splits)
  apply (auto simp: Requirements_Add_def label_keys
      split: Option.bind_splits option.splits if_splits list.splits)
  done

text \<open>
  Claim C6, as amended. The name is split at every separator \<^verbatim>\<open>.\<close>: a name with exactly
  one separator has the family label with the part before it and the size label with the
  part after it (\<^verbatim>\<open>m5.large\<close> gives \<^verbatim>\<open>m5\<close> and \<^verbatim>\<open>large\<close>); a name with no separator
  or with more than one (\<^verbatim>\<open>metal\<close>) has neither label, and that is no error.
\<close>

theorem family_size_labels:
  assumes "computeRequirements env i = Some reqs" "InstanceTypeInfo i = Some info"
  shows "(count_list (StringValue (InstanceType info)) CHR ''.'' = 1 \<and>
          split_first (StringValue (InstanceType info)) CHR ''.'' = Some (family, part) \<longrightarrow>
            reqs InstanceFamilyLabelKey = Some {family} \<and>
            reqs InstanceSizeLabelKey = Some {part}) \<and>
         (count_list (StringValue (InstanceType info)) CHR ''.'' \<noteq> 1 \<longrightarrow>
            reqs InstanceFamilyLabelKey = None \<and> reqs InstanceSizeLabelKey = None)"
proof -
  let ?name = "StringValue (InstanceType info)"
  note fs = computeRequirements_family_size [OF assms]
  have 1: "reqs InstanceFamilyLabelKey = Some {family} \<and> reqs InstanceSizeLabelKey = Some {part}"
    if "count_list ?name CHR ''.'' = 1" "split_first ?name CHR ''.'' = Some (family, part)"
  proof -
    have "Split ?name CHR ''.'' = [family, part]" using that(2,1) by (rule Split_two_parts)
    then show ?thesis using fs by simp
  qed
  have 2: "reqs InstanceFamilyLabelKey = None \<and> reqs InstanceSizeLabelKey = None"
    if "count_list ?name CHR ''.'' \<noteq> 1"
  proof -
    have "length (Split ?name CHR ''.'') \<noteq> 2" using that by (simp add: length_Split)
    then show ?thesis using fs by (auto split: list.splits)
  qed
  show ?thesis using 1 2 by blast
qed

lemma example_requirements_name:
  "requirement_of example_env
     (example_type (example_info\<lparr>InstanceType := Some name\<rparr>)) LabelInstanceTypeStable
   = Some {name}"
proof -
  have e: "example_info\<lparr>InstanceType := Some name\<rparr>
           = example_info\<lparr>InstanceType := Some name,
               ProcessorInfo := Some \<lparr>SupportedArchitectures = [Some ''x86_64'']\<rparr>\<rparr>"
    by (simp add: example_defs)
  obtain r where r: "computeRequirements example_env
     (example_type (example_info\<lparr>InstanceType := Some name\<rparr>)) = Some r"
    using example_requirements_ok [where name = "Some name"
        and processorInfo = "\<lparr>SupportedArchitectures = [Some ''x86_64'']\<rparr>"]
    unfolding e [symmetric] by blast
  then have "r LabelInstanceTypeStable = Some {name}"
    by (auto simp: computeRequirements_def Let_def Requirements_Add_def label_keys Name_def
        example_defs StringValue_def
        split: Option.bind_splits option.splits if_splits)
  then show ?thesis using r by (simp add: requirement_of_def)
qed

lemma requirement_of_SomeD:
  assumes "requirement_of env i key = Some vs"
  obtains reqs where "computeRequirements env i = Some reqs"
  using assms by (auto simp: requirement_of_def split: option.splits)

theorem family_size_labels_witness:
  "requirement_of example_env (example_type (example_info\<lparr>InstanceType := Some ''m5.large''\<rparr>))
     InstanceFamilyLabelKey = Some {''m5''} \<and>
   requirement_of example_env (example_type (example_info\<lparr>InstanceType := Some ''m5.large''\<rparr>))
     InstanceSizeLabelKey = Some {''large''} \<and>
   requirement_of example_env (example_type (example_info\<lparr>InstanceType := Some ''metal''\<rparr>))
     InstanceFamilyLabelKey = None \<and>
   requirement_of example_env (example_type (example_info\<lparr>InstanceType := Some ''metal''\<rparr>))
     InstanceSizeLabelKey = None \<and>
   requirement_of example_env (example_type (example_info\<lparr>InstanceType := Some ''metal''\<rparr>))
     LabelInstanceTypeStable = Some {''metal''}"
proof -
  let ?l = "example_type (example_info\<lparr>InstanceType := Some ''m5.large''\<rparr>)"
  let ?m = "example_type (example_info\<lparr>InstanceType := Some ''metal''\<rparr>)"
  obtain rl where rl: "computeRequirements example_env ?l = Some rl"
    using example_requirements_name [of "''m5.large''"] by (rule requirement_of_SomeD)
  obtain rm where rm: "computeRequirements example_env ?m = Some rm"
    using example_requirements_name [of "''metal''"] by (rule requirement_of_SomeD)
  have 1: "rl InstanceFamilyLabelKey = Some {''m5''} \<and> rl InstanceSizeLabelKey = Some {''large''}"
    using rl family_size_labels [where env = example_env and i = ?l and reqs = rl
        and info = "example_info\<lparr>InstanceType := Some ''m5.large''\<rparr>"
        and family = "''m5''" and part = "''large''"]
    by (simp add: example_defs StringValue_def split_first_def)
  have 2: "rm InstanceFamilyLabelKey = None \<and> rm InstanceSizeLabelKey = None"
    using rm family_size_labels [where env = example_env and i = ?m and reqs = rm
        and info = "example_info\<lparr>InstanceType := Some ''metal''\<rparr>"]
    by (simp add: example_defs StringValue_def)
  show ?thesis using 1 2 rl rm example_requirements_name [of "''metal''"]
    by (simp add: requirement_of_def)
qed

text \<open>Splitting at the first separator only, as claim C6 has it, the name \<^verbatim>\<open>a.b.c\<close>
  has the two parts \<^verbatim>\<open>a\<close> and \<^verbatim>\<open>b.c\<close>; the computed Requirements have neither
  label.\<close>

theorem family_size_first_separator_counterexample:
  "split_first ''a.b.c'' CHR ''.'' = Some (''a'', ''b.c'') \<and>
   requirement_of example_env (example_type (example_info\<lparr>InstanceType := Some ''a.b.c''\<rparr>))
     InstanceFamilyLabelKey = None \<and>
   requirement_of example_env (example_type (example_info\<lparr>InstanceType := Some ''a.b.c''\<rparr>))
     InstanceSizeLabelKey = None \<and>
   requirement_of example_env (example_type (example_info\<lparr>InstanceType := Some ''a.b.c''\<rparr>))
     LabelInstanceTypeStable = Some {''a.b.c''}"
proof -
  let ?i = "example_type (example_info\<lparr>InstanceType := Some ''a.b.c''\<rparr>)"
  obtain r where r: "computeRequirements example_env ?i = Some r"
    using example_requirements_name [of "''a.b.c''"] by (rule requirement_of_SomeD)
  have "r InstanceFamilyLabelKey = None \<and> r InstanceSizeLabelKey = None"
    using computeRequirements_family_size [OF r, of "example_info\<lparr>InstanceType := Some ''a.b.c''\<rparr>"]
    by (simp add: example_defs StringValue_def)
  then show ?thesis using r example_requirements_name [of "''a.b.c''"]
    by (simp add: requirement_of_def split_first_def)
qed

subsection \<open>GPU labels\<close>

lemma length_one_conv: "(length xs = Suc 0) = (\<exists>x. xs = [x])"
  by (cases xs) auto

lemma lowerByte_lower_letter: "lowerByte c = lower_letter c"
proof -
  define n :: nat where "n = of_char c"
  have eqs: "\<And>d. (c = d) = (n = of_char d)" unfolding n_def by auto
  consider "n < 65" | "90 < n" | "65 \<le> n \<and> n \<le> 90" by arith
  then show ?thesis
  proof cases
    case 1
    then show ?thesis
      unfolding lowerByte_def lower_letter_def n_def [symmetric] by (simp add: eqs)
  next
    case 2
    then show ?thesis
      unfolding lowerByte_def lower_letter_def n_def [symmetric] by (simp add: eqs)
  next
    case 3
    then have "n = 65 \<or> n = 66 \<or> n = 67 \<or> n = 68 \<or> n = 69 \<or> n = 70 \<or> n = 71 \<or> n = 72 \<or>
      n = 73 \<or> n = 74 \<or> n = 75 \<or> n = 76 \<or> n = 77 \<or> n = 78 \<or> n = 79 \<or> n = 80 \<or> n = 81 \<or>
      n = 82 \<or> n = 83 \<or> n = 84 \<or> n = 85 \<or> n = 86 \<or> n = 87 \<or> n = 88 \<or> n = 89 \<or> n = 90"
      by arith
    then show ?thesis
      unfolding lowerByte_def lower_letter_def n_def [symmetric]
      by (elim disjE) (simp_all add: eqs char_of_def bit_Suc_0_iff)
  qed
qed

lemma lowerKabobCase_lower_hyphenated: "lowerKabobCase unicode s = lower_hyphenated unicode s"
proof -
  have "lowerByte = lower_letter" by (rule ext) (rule lowerByte_lower_letter)
  then show ?thesis
    by (simp add: lowerKabobCase_def ToLower_def ReplaceAll_def isASCII_def
        lower_hyphenated_def Let_def)
qed

lemma computeRequirements_gpu_labels:
  assumes "computeRequirements env i = Some reqs" "InstanceTypeInfo i = Some info"
  shows "(length (gpu_descriptors info) = 1 \<longrightarrow>
            (\<exists>gpu gpuMemoryInfo.
               gpu_descriptors info = [Some gpu] \<and>
               GpuDeviceInfo.MemoryInfo gpu = Some gpuMemoryInfo \<and>
               reqs InstanceGPUNameLabelKey
                 = Some {lowerKabobCase (unicodeLower env) (StringValue (GpuDeviceInfo.Name gpu))} \<and>
               reqs InstanceGPUManufacturerLabelKey
                 = Some {lowerKabobCase (unicodeLower env) (StringValue (Manufacturer gpu))} \<and>
               reqs InstanceGPUCountLabelKey
                 = Some {Sprint_int (sint (Int64Value (GpuDeviceInfo.Count gpu)))} \<and>
               reqs InstanceGPUMemoryLabelKey
                 = Some {Sprint_int (sint (Int64Value (GpuDeviceMemoryInfo.SizeInMiB gpuMemoryInfo)))})) \<and>
         (length (gpu_descriptors info) \<noteq> 1 \<longrightarrow>
            reqs InstanceGPUNameLabelKey = None \<and> reqs InstanceGPUManufacturerLabelKey = None \<and>
            reqs InstanceGPUCountLabelKey = None \<and> reqs InstanceGPUMemoryLabelKey = None)"
  using assms
  apply (simp add: computeRequirements_def Let_def gpu_descriptors_def split: Option.bind_splits)
  apply (auto simp: Requirements_Add_def label_keys length_one_conv
      split: Option.bind_splits option.splits if_splits)
  done

text \<open>
  Claim C4, as amended. The four GPU labels (name, manufacturer, count, memory) are in the
  computed Requirements exactly when the GPU list of the metadata has exactly one
  descriptor. With several descriptors, also several of the same GPU model, and with none
  or without a GPU section, none of the four is. When present, name and manufacturer are
  the raw strings with a hyphen for every space and in lower case, count and memory the
  decimal numerals of the integers: the descriptor with name \<^verbatim>\<open>A100\<close>, manufacturer
  \<^verbatim>\<open>NVIDIA\<close> and count 8 gives \<^verbatim>\<open>a100\<close>, \<^verbatim>\<open>nvidia\<close> and \<^verbatim>\<open>8\<close>, and the name
  \<^verbatim>\<open>Radeon Pro V520\<close> gives \<^verbatim>\<open>radeon-pro-v520\<close>. The Requirements are computed
  only if the single descriptor has a memory section; without one the program panics.
\<close>

theorem gpu_labels_single_model:
  assumes "computeRequirements env i = Some reqs" "InstanceTypeInfo i = Some info"
  shows "(length (gpu_descriptors info) = 1 \<longrightarrow>
            (\<exists>gpu gpuMemoryInfo.
               gpu_descriptors info = [Some gpu] \<and>
               GpuDeviceInfo.MemoryInfo gpu = Some gpuMemoryInfo \<and>
               reqs InstanceGPUNameLabelKey
                 = Some {lower_hyphenated (unicodeLower env) (StringValue (GpuDeviceInfo.Name gpu))} \<and>
               reqs InstanceGPUManufacturerLabelKey
                 = Some {lower_hyphenated (unicodeLower env) (StringValue (Manufacturer gpu))} \<and>
               reqs InstanceGPUCountLabelKey
                 = Some {Sprint_int (sint (Int64Value (GpuDeviceInfo.Count gpu)))} \<and>
               reqs InstanceGPUMemoryLabelKey
                 = Some {Sprint_int (sint (Int64Value (GpuDeviceMemoryInfo.SizeInMiB gpuMemoryInfo)))})) \<and>
         (length (gpu_descriptors info) \<noteq> 1 \<longrightarrow>
            reqs InstanceGPUNameLabelKey = None \<and> reqs InstanceGPUManufacturerLabelKey = None \<and>
            reqs InstanceGPUCountLabelKey = None \<and> reqs InstanceGPUMemoryLabelKey = None)"
  using computeRequirements_gpu_labels [OF assms]
  by (simp only: lowerKabobCase_lower_hyphenated)

text \<open>A single descriptor without a memory section: the program dereferences the nil
  pointer.\<close>

lemma gpu_labels_without_memory_panic:
  assumes "InstanceTypeInfo i = Some info" "GpuInfo info = Some gpuInfo"
    and "Gpus gpuInfo = [Some gpu]" "GpuDeviceInfo.MemoryInfo gpu = None"
  shows "computeRequirements env i = None"
  using assms by (simp add: computeRequirements_def Let_def split: Option.bind_splits)

lemma hyphenated_a100: "lower_hyphenated u ''A100'' = ''a100''"
  by (simp add: lower_hyphenated_def lower_letter_def)

lemma hyphenated_nvidia: "lower_hyphenated u ''NVIDIA'' = ''nvidia''"
  by (simp add: lower_hyphenated_def lower_letter_def)

lemma hyphenated_radeon: "lower_hyphenated u ''Radeon Pro V520'' = ''radeon-pro-v520''"
  by (simp add: lower_hyphenated_def lower_letter_def)

lemma hyphenated_amd: "lower_hyphenated u ''AMD'' = ''amd''"
  by (simp add: lower_hyphenated_def lower_letter_def)

lemma sprint_1: "Sprint_int 1 = ''1''"
  by (simp add: Sprint_int_def decimal.simps)

lemma sprint_8: "Sprint_int 8 = ''8''"
  by (simp add: Sprint_int_def decimal.simps)

lemma sprint_8192: "Sprint_int 8192 = ''8192''"
  by (simp add: Sprint_int_def decimal.simps)

lemma sprint_40960: "Sprint_int 40960 = ''40960''"
  by (simp add: Sprint_int_def decimal.simps)

lemma sprint_neg: "Sprint_int (- 12) = ''-12''"
  by (simp add: Sprint_int_def decimal.simps)

lemma example_requirements_gpus_ok:
  "computeRequirements example_env
     (example_type (example_info\<lparr>GpuInfo := Some \<lparr>Gpus = Some example_gpu # gpus\<rparr>\<rparr>))
   \<noteq> None"
  by (simp add: computeRequirements_def Name_def architecture_def example_defs Let_def
      AWSToKubeArchitectures_def StringValue_def
      split: option.splits)

lemma sprint_0: "Sprint_int 0 = ''0''"
  by (simp add: Sprint_int_def decimal.simps)

lemma hyphenated_empty: "lower_hyphenated u [] = []"
  by (simp add: lower_hyphenated_def)

lemma example_requirements_amd_ok:
  "computeRequirements example_env
     (example_type (example_info\<lparr>GpuInfo := Some \<lparr>Gpus = [Some example_gpu_amd]\<rparr>\<rparr>))
   \<noteq> None"
  by (simp add: computeRequirements_def Name_def architecture_def example_defs Let_def
      AWSToKubeArchitectures_def StringValue_def example_gpu_amd_def
      split: option.splits)

theorem gpu_labels_single_model_witness:
  "requirement_of example_env
     (example_type (example_info\<lparr>GpuInfo := Some \<lparr>Gpus = [Some example_gpu]\<rparr>\<rparr>))
     InstanceGPUNameLabelKey = Some {''a100''} \<and>
   requirement_of example_env
     (example_type (example_info\<lparr>GpuInfo := Some \<lparr>Gpus = [Some example_gpu]\<rparr>\<rparr>))
     InstanceGPUManufacturerLabelKey = Some {''nvidia''} \<and>
   requirement_of example_env
     (example_type (example_info\<lparr>GpuInfo := Some \<lparr>Gpus = [Some example_gpu]\<rparr>\<rparr>))
     InstanceGPUCountLabelKey = Some {''8''} \<and>
   requirement_of example_env
     (example_type (example_info\<lparr>GpuInfo := Some \<lparr>Gpus = [Some example_gpu]\<rparr>\<rparr>))
     InstanceGPUMemoryLabelKey = Some {''40960''} \<and>
   requirement_of example_env
     (example_type (example_info\<lparr>GpuInfo := Some \<lparr>Gpus = [Some example_gpu_amd]\<rparr>\<rparr>))
     InstanceGPUNameLabelKey = Some {''radeon-pro-v520''} \<and>
   requirement_of example_env
     (example_type (example_info\<lparr>GpuInfo := Some \<lparr>Gpus = [Some example_gpu_amd]\<rparr>\<rparr>))
     InstanceGPUManufacturerLabelKey = Some {''amd''} \<and>
   requirement_of example_env
     (example_type (example_info\<lparr>GpuInfo := Some \<lparr>Gpus = [Some example_gpu_amd]\<rparr>\<rparr>))
     InstanceGPUCountLabelKey = Some {''1''} \<and>
   requirement_of example_env
     (example_type (example_info\<lparr>GpuInfo := Some \<lparr>Gpus = [Some example_gpu_amd]\<rparr>\<rparr>))
     InstanceGPUMemoryLabelKey = Some {''8192''} \<and>
   requirement_of example_env
     (example_type (example_info\<lparr>GpuInfo := Some \<lparr>Gpus =
        [Some (example_gpu\<lparr>GpuDeviceInfo.Count := None, Name := None\<rparr>)]\<rparr>\<rparr>))
     InstanceGPUNameLabelKey = Some {[]} \<and>
   requirement_of example_env
     (example_type (example_info\<lparr>GpuInfo := Some \<lparr>Gpus =
        [Some (example_gpu\<lparr>GpuDeviceInfo.Count := None, Name := None\<rparr>)]\<rparr>\<rparr>))
     InstanceGPUCountLabelKey = Some {''0''} \<and>
   computeRequirements example_env
     (example_type (example_info\<lparr>GpuInfo := Some \<lparr>Gpus =
        [Some example_gpu, Some (example_gpu\<lparr>Name := Some ''T4''\<rparr>)]\<rparr>\<rparr>)) \<noteq> None \<and>
   requirement_of example_env
     (example_type (example_info\<lparr>GpuInfo := Some \<lparr>Gpus =
        [Some example_gpu, Some (example_gpu\<lparr>Name := Some ''T4''\<rparr>)]\<rparr>\<rparr>))
     InstanceGPUNameLabelKey = None \<and>
   requirement_of example_env
     (example_type (example_info\<lparr>GpuInfo := Some \<lparr>Gpus =
        [Some example_gpu, Some (example_gpu\<lparr>Name := Some ''T4''\<rparr>)]\<rparr>\<rparr>))
     InstanceGPUManufacturerLabelKey = None \<and>
   requirement_of example_env
     (example_type (example_info\<lparr>GpuInfo := Some \<lparr>Gpus =
        [Some example_gpu, Some (example_gpu\<lparr>Name := Some ''T4''\<rparr>)]\<rparr>\<rparr>))
     InstanceGPUCountLabelKey = None \<and>
   requirement_of example_env
     (example_type (example_info\<lparr>GpuInfo := Some \<lparr>Gpus =
        [Some example_gpu, Some (example_gpu\<lparr>Name := Some ''T4''\<rparr>)]\<rparr>\<rparr>))
     InstanceGPUMemoryLabelKey = None"
proof -
  let ?one = "example_info\<lparr>GpuInfo := Some \<lparr>Gpus = [Some example_gpu]\<rparr>\<rparr>"
  let ?amd = "example_info\<lparr>GpuInfo := Some \<lparr>Gpus = [Some example_gpu_amd]\<rparr>\<rparr>"
  let ?two = "example_info\<lparr>GpuInfo := Some \<lparr>Gpus =
        [Some example_gpu, Some (example_gpu\<lparr>Name := Some ''T4''\<rparr>)]\<rparr>\<rparr>"
  obtain r1 where r1: "computeRequirements example_env (example_type ?one) = Some r1"
    using example_requirements_gpus_ok [of "[]"] by blast
  obtain r2 where r2: "computeRequirements example_env (example_type ?two) = Some r2"
    using example_requirements_gpus_ok [of "[Some (example_gpu\<lparr>Name := Some ''T4''\<rparr>)]"] by blast
  obtain r3 where r3: "computeRequirements example_env (example_type ?amd) = Some r3"
    using example_requirements_amd_ok by blast
  let ?nil = "example_info\<lparr>GpuInfo := Some \<lparr>Gpus =
        [Some (example_gpu\<lparr>GpuDeviceInfo.Count := None, Name := None\<rparr>)]\<rparr>\<rparr>"
  have "computeRequirements example_env (example_type ?nil) \<noteq> None"
    by (simp add: computeRequirements_def Name_def architecture_def example_defs Let_def
        AWSToKubeArchitectures_def StringValue_def split: option.splits)
  then obtain r4 where r4: "computeRequirements example_env (example_type ?nil) = Some r4"
    by blast
  have g4: "gpu_descriptors ?nil
            = [Some (example_gpu\<lparr>GpuDeviceInfo.Count := None, Name := None\<rparr>)]"
    by (simp add: gpu_descriptors_def example_info_def)
  have 4: "r4 InstanceGPUNameLabelKey = Some {[]} \<and> r4 InstanceGPUCountLabelKey = Some {''0''}"
    using gpu_labels_single_model [where env = example_env and i = "example_type ?nil"
        and reqs = r4 and info = ?nil] r4 g4
    by (simp add: example_type_def)
      (simp add: example_gpu_def StringValue_def Int64Value_def hyphenated_empty sprint_0)
  have g: "gpu_descriptors ?one = [Some example_gpu]"
    "gpu_descriptors ?two = [Some example_gpu, Some (example_gpu\<lparr>Name := Some ''T4''\<rparr>)]"
    "gpu_descriptors ?amd = [Some example_gpu_amd]"
    by (simp_all add: gpu_descriptors_def example_info_def)
  have 1: "r1 InstanceGPUNameLabelKey = Some {''a100''} \<and>
           r1 InstanceGPUManufacturerLabelKey = Some {''nvidia''} \<and>
           r1 InstanceGPUCountLabelKey = Some {''8''} \<and>
           r1 InstanceGPUMemoryLabelKey = Some {''40960''}"
    using gpu_labels_single_model [where env = example_env and i = "example_type ?one"
        and reqs = r1 and info = ?one] r1 g(1)
    by (simp add: example_type_def)
      (simp add: example_gpu_def StringValue_def Int64Value_def hyphenated_a100 hyphenated_nvidia
        sprint_8 sprint_40960)
  have 2: "r2 InstanceGPUNameLabelKey = None \<and> r2 InstanceGPUManufacturerLabelKey = None \<and>
           r2 InstanceGPUCountLabelKey = None \<and> r2 InstanceGPUMemoryLabelKey = None"
    using gpu_labels_single_model [where env = example_env and i = "example_type ?two"
        and reqs = r2 and info = ?two] r2 g(2)
    by (simp add: example_type_def)
  have 3: "r3 InstanceGPUNameLabelKey = Some {''radeon-pro-v520''} \<and>
           r3 InstanceGPUManufacturerLabelKey = Some {''amd''} \<and>
           r3 InstanceGPUCountLabelKey = Some {''1''} \<and>
           r3 InstanceGPUMemoryLabelKey = Some {''8192''}"
    using gpu_labels_single_model [where env = example_env and i = "example_type ?amd"
        and reqs = r3 and info = ?amd] r3 g(3)
    by (simp add: example_type_def)
      (simp add: example_gpu_amd_def StringValue_def Int64Value_def hyphenated_radeon
        hyphenated_amd sprint_1 sprint_8192)
  show ?thesis using 1 2 3 4 r1 r2 r3 r4 by (simp add: requirement_of_def)
qed

text \<open>Two descriptors of the same GPU model: the metadata reports one distinct model, as
  claim C4 requires, and none of the four labels is in the Requirements.\<close>

theorem gpu_labels_duplicate_model_counterexample:
  "set (gpu_descriptors
     (example_info\<lparr>GpuInfo := Some \<lparr>Gpus = [Some example_gpu, Some example_gpu]\<rparr>\<rparr>))
   = {Some example_gpu} \<and>
   computeRequirements example_env
     (example_type (example_info\<lparr>GpuInfo := Some \<lparr>Gpus =
        [Some example_gpu, Some example_gpu]\<rparr>\<rparr>)) \<noteq> None \<and>
   requirement_of example_env
     (example_type (example_info\<lparr>GpuInfo := Some \<lparr>Gpus =
        [Some example_gpu, Some example_gpu]\<rparr>\<rparr>))
     InstanceGPUNameLabelKey = None \<and>
   requirement_of example_env
     (example_type (example_info\<lparr>GpuInfo := Some \<lparr>Gpus =
        [Some example_gpu, Some example_gpu]\<rparr>\<rparr>))
     InstanceGPUManufacturerLabelKey = None \<and>
   requirement_of example_env
     (example_type (example_info\<lparr>GpuInfo := Some \<lparr>Gpus =
        [Some example_gpu, Some example_gpu]\<rparr>\<rparr>))
     InstanceGPUCountLabelKey = None \<and>
   requirement_of example_env
     (example_type (example_info\<lparr>GpuInfo := Some \<lparr>Gpus =
        [Some example_gpu, Some example_gpu]\<rparr>\<rparr>))
     InstanceGPUMemoryLabelKey = None"
proof -
  let ?dup = "example_info\<lparr>GpuInfo := Some \<lparr>Gpus = [Some example_gpu, Some example_gpu]\<rparr>\<rparr>"
  obtain r where r: "computeRequirements example_env (example_type ?dup) = Some r"
    using example_requirements_gpus_ok [of "[Some example_gpu]"] by blast
  have g: "gpu_descriptors ?dup = [Some example_gpu, Some example_gpu]"
    by (simp add: gpu_descriptors_def example_info_def)
  have "r InstanceGPUNameLabelKey = None \<and> r InstanceGPUManufacturerLabelKey = None \<and>
        r InstanceGPUCountLabelKey = None \<and> r InstanceGPUMemoryLabelKey = None"
    using computeRequirements_gpu_labels [where env = example_env and i = "example_type ?dup"
        and reqs = r and info = ?dup] r g
    by (simp add: example_type_def)
  then show ?thesis using r g by (simp add: requirement_of_def)
qed

subsection \<open>Ephemeral storage\<close>

lemma ephemeralStorage_loop_matching:
  assumes "ephemeralStorage_loop name mappings = Some found"
  shows "found = (case matching_override name mappings of
                    Some mapping \<Rightarrow> Option.bind (EBS mapping) VolumeSize
                  | None \<Rightarrow> None) \<and>
         (matching_override name mappings \<noteq> None \<longrightarrow> found \<noteq> None)"
  using assms
proof (induction mappings)
  case Nil
  then show ?case by (simp add: matching_override_def List.map_filter_simps)
next
  case (Cons m mappings)
  from Cons.prems obtain x dn en where x: "m = Some x" "DeviceName x = Some dn" "name = Some en"
    by (auto split: Option.bind_splits)
  show ?case
  proof (cases "dn = en")
    case True
    then obtain ebs vs where v: "EBS x = Some ebs" "VolumeSize ebs = Some vs" "found = Some vs"
      using Cons.prems x by (auto simp: bind_eq_Some_conv)
    have "matching_override name (m # mappings) = Some x"
      using x True by (simp add: matching_override_def List.map_filter_simps)
    then show ?thesis using v by simp
  next
    case False
    then have "ephemeralStorage_loop name mappings = Some found"
      using Cons.prems x by simp
    then have ih: "found = (case matching_override name mappings of
                    Some mapping \<Rightarrow> Option.bind (EBS mapping) VolumeSize
                  | None \<Rightarrow> None) \<and>
         (matching_override name mappings \<noteq> None \<longrightarrow> found \<noteq> None)"
      by (rule Cons.IH)
    have eq: "matching_override name (m # mappings) = matching_override name mappings"
      using x False by (simp add: matching_override_def List.map_filter_simps)
    show ?thesis unfolding eq using ih .
  qed
qed

lemma computeResources_ephemeralStorage:
  "computeResources env i enablePodENI = Some res \<Longrightarrow>
   res ResourceEphemeralStorage = ephemeralStorage env i \<and> ephemeralStorage env i \<noteq> None"
  by (auto simp: computeResources_def resource_names split: Option.bind_splits)

text \<open>
  Claim C7. The ephemeral-storage entry of the computed resource list is the volume size
  of the block device mapping of the configuration whose device name is the root block
  device name of the selected AMI family (the first such mapping); without such a mapping
  it is the default volume size that the AMI family package declares.
\<close>

theorem ephemeralStorage_override_or_default:
  assumes "computeResources env i enablePodENI = Some res" "provider i = Some aws"
  shows "res ResourceEphemeralStorage =
           (case matching_override (EphemeralBlockDevice env (AMIFamily aws))
                   (BlockDeviceMappings aws) of
              Some mapping \<Rightarrow> Option.bind (EBS mapping) VolumeSize
            | None \<Rightarrow> DefaultEBS_VolumeSize env) \<and>
         res ResourceEphemeralStorage \<noteq> None"
proof -
  have e: "res ResourceEphemeralStorage = ephemeralStorage env i" "ephemeralStorage env i \<noteq> None"
    using computeResources_ephemeralStorage [OF assms(1)] by simp_all
  then obtain found where f:
    "ephemeralStorage_loop (EphemeralBlockDevice env (AMIFamily aws)) (BlockDeviceMappings aws)
     = Some found"
    using assms(2) by (auto simp: ephemeralStorage_def split: Option.bind_splits)
  note m = ephemeralStorage_loop_matching [OF f]
  have "ephemeralStorage env i = (case found of Some volumeSize \<Rightarrow> Some volumeSize
      | None \<Rightarrow> DefaultEBS_VolumeSize env)"
    using assms(2) f by (simp add: ephemeralStorage_def)
  then show ?thesis using e m by (auto split: option.splits)
qed

lemma example_resources_override_ok:
  "computeResources example_env
     ((example_type example_info)\<lparr>provider := Some \<lparr>AMIFamily = Some ''AL2'',
        BlockDeviceMappings =
          [Some \<lparr>DeviceName = Some ''/dev/xvdb'', EBS = Some \<lparr>VolumeSize = Some (Quantity_Mi 51200)\<rparr>\<rparr>,
           Some \<lparr>DeviceName = Some ''/dev/xvda'', EBS = Some \<lparr>VolumeSize = Some (Quantity_Mi 102400)\<rparr>\<rparr>]\<rparr>\<rparr>)
     False \<noteq> None"
  by (simp add: computeResources_def cpu_def memory_def ephemeralStorage_def pods_def
      eniLimitedPods_def awsPodENI_def nvidiaGPUs_def amdGPUs_def awsNeurons_def example_defs)

theorem ephemeralStorage_override_or_default_witness:
  "resource_of example_env
     ((example_type example_info)\<lparr>provider := Some \<lparr>AMIFamily = Some ''AL2'',
        BlockDeviceMappings =
          [Some \<lparr>DeviceName = Some ''/dev/xvdb'', EBS = Some \<lparr>VolumeSize = Some (Quantity_Mi 51200)\<rparr>\<rparr>,
           Some \<lparr>DeviceName = Some ''/dev/xvda'', EBS = Some \<lparr>VolumeSize = Some (Quantity_Mi 102400)\<rparr>\<rparr>]\<rparr>\<rparr>)
     False ResourceEphemeralStorage = Some (Quantity_Mi 102400) \<and>
   resource_of example_env (example_type example_info) False ResourceEphemeralStorage
     = Some (Quantity_Mi 20480)"
proof -
  let ?aws = "\<lparr>AMIFamily = Some ''AL2'',
        BlockDeviceMappings =
          [Some \<lparr>DeviceName = Some ''/dev/xvdb'', EBS = Some \<lparr>VolumeSize = Some (Quantity_Mi 51200)\<rparr>\<rparr>,
           Some \<lparr>DeviceName = Some ''/dev/xvda'', EBS = Some \<lparr>VolumeSize = Some (Quantity_Mi 102400)\<rparr>\<rparr>]\<rparr>"
  let ?o = "(example_type example_info)\<lparr>provider := Some ?aws\<rparr>"
  obtain ro where ro: "computeResources example_env ?o False = Some ro"
    using example_resources_override_ok by blast
  obtain rd where rd: "computeResources example_env (example_type example_info) False = Some rd"
    using example_resources_ok by blast
  have 1: "ro ResourceEphemeralStorage = Some (Quantity_Mi 102400)"
    using ro ephemeralStorage_override_or_default [where env = example_env and i = ?o
        and enablePodENI = False and res = ro and aws = ?aws]
    by (simp add: example_defs matching_override_def List.map_filter_simps)
  have 2: "rd ResourceEphemeralStorage = Some (Quantity_Mi 20480)"
    using rd ephemeralStorage_override_or_default [where env = example_env
        and i = "example_type example_info" and enablePodENI = False and res = rd
        and aws = example_aws]
    by (simp add: example_defs matching_override_def List.map_filter_simps)
  show ?thesis using 1 2 ro rd by (simp add: resource_of_def)
qed

subsection \<open>Rounding error of \<^verbatim>\<open>float64\<close> products and sums\<close>

lemma float64_val_powi: "float64_val (m, e) = of_int m * 2 powi e"
proof (cases "0 \<le> e")
  case True
  then show ?thesis by (simp add: float64_val_def power_int_def)
next
  case False
  then show ?thesis by (simp add: float64_val_def power_int_def field_simps)
qed

lemma float64_val_product:
  "float64_val (fst x * fst y, snd x + snd y) = float64_val x * float64_val y"
proof -
  have "float64_val x = of_int (fst x) * 2 powi (snd x)"
    "float64_val y = of_int (fst y) * 2 powi (snd y)"
    using float64_val_powi [of "fst x" "snd x"] float64_val_powi [of "fst y" "snd y"] by simp_all
  then show ?thesis by (simp add: float64_val_powi power_int_add)
qed

lemma powi_nat_shift: "0 \<le> k \<Longrightarrow> (2::rat) ^ nat k * 2 powi e = 2 powi (e + k)"
proof -
  assume "0 \<le> k"
  then have "(2::rat) ^ nat k = 2 powi k" by (simp add: power_int_def)
  moreover have "(2::rat) powi (e + k) = 2 powi e * 2 powi k" by (rule power_int_add) simp
  ultimately show ?thesis by (simp add: mult.commute)
qed

lemma float64_val_sum:
  "float64_val (fst a * 2 ^ nat (snd a - min (snd a) (snd b))
                + fst b * 2 ^ nat (snd b - min (snd a) (snd b)), min (snd a) (snd b))
   = float64_val a + float64_val b"
proof -
  let ?e = "min (snd a) (snd b)"
  have a: "float64_val a = of_int (fst a) * 2 powi (snd a)"
    and b: "float64_val b = of_int (fst b) * 2 powi (snd b)"
    using float64_val_powi [of "fst a" "snd a"] float64_val_powi [of "fst b" "snd b"] by simp_all
  have "(2::rat) ^ nat (snd a - ?e) * 2 powi ?e = 2 powi (snd a)"
    "(2::rat) ^ nat (snd b - ?e) * 2 powi ?e = 2 powi (snd b)"
    by (simp_all add: powi_nat_shift)
  then show ?thesis
    unfolding a b float64_val_powi by (simp add: algebra_simps)
qed


lemma float64_val_round_shift:
  assumes "0 < s"
  shows "float64_val (R, e + s) = of_int (R * 2 ^ nat s) * 2 powi e"
proof -
  have "(2::rat) ^ nat s * 2 powi e = 2 powi (e + s)" using assms by (simp add: powi_nat_shift)
  then show ?thesis by (simp add: float64_val_powi mult.assoc)
qed

lemma pow2_le_abs: 
  assumes "0 < bitlen \<bar>m\<bar> - 53"
  shows "2 ^ (nat (bitlen \<bar>m\<bar> - 53) + 52) \<le> \<bar>m\<bar>"
proof -
  have "0 < \<bar>m\<bar>" using assms by (cases "m = 0") simp_all
  then have "2 ^ nat (bitlen \<bar>m\<bar> - 1) \<le> \<bar>m\<bar>" using bitlen_bounds [of "\<bar>m\<bar>"] by simp
  moreover have "nat (bitlen \<bar>m\<bar> - 1) = nat (bitlen \<bar>m\<bar> - 53) + 52" using assms by simp
  ultimately show ?thesis by simp
qed

text \<open>Rounding changes a value by at most the fraction \<open>2 ^ - 53\<close> of it.\<close>

lemma float64_round_error:
  "\<bar>float64_val (float64_round m e) - float64_val (m, e)\<bar> \<le> \<bar>float64_val (m, e)\<bar> / 2 ^ 53"
proof (cases "bitlen \<bar>m\<bar> - 53 \<le> 0")
  case True
  then show ?thesis by (simp add: float64_round_def)
next
  case False
  define s where "s = bitlen \<bar>m\<bar> - 53"
  define R where "R = round_half_even m (2 ^ nat s)"
  have s: "0 < s" using False by (simp add: s_def)
  have fr: "float64_round m e = (R, e + s)"
    using False by (simp add: float64_round_def Let_def R_def s_def)
  have near: "\<bar>2 * (m - R * 2 ^ nat s)\<bar> \<le> 2 ^ nat s"
    unfolding R_def by (rule rhe_nearest) simp
  have big: "2 ^ (nat s + 52) \<le> \<bar>m\<bar>" using pow2_le_abs [of m] s by (simp add: s_def)
  have "\<bar>R * 2 ^ nat s - m\<bar> * 2 ^ 53 \<le> \<bar>m\<bar>"
  proof -
    have "\<bar>2 * (m - R * 2 ^ nat s)\<bar> = 2 * \<bar>m - R * 2 ^ nat s\<bar>" by (subst abs_mult) simp
    moreover have "\<bar>m - R * 2 ^ nat s\<bar> = \<bar>R * 2 ^ nat s - m\<bar>" by (rule abs_minus_commute)
    ultimately have "\<bar>R * 2 ^ nat s - m\<bar> * 2 \<le> 2 ^ nat s" using near by linarith
    then have "\<bar>R * 2 ^ nat s - m\<bar> * 2 * 2 ^ 52 \<le> 2 ^ nat s * 2 ^ 52"
      by (rule mult_right_mono) simp
    then show ?thesis using big by (simp add: power_add)
  qed
  then have "(of_int (\<bar>R * 2 ^ nat s - m\<bar> * 2 ^ 53) :: rat) \<le> of_int \<bar>m\<bar>"
    by (simp only: of_int_le_iff)
  then have "\<bar>of_int (R * 2 ^ nat s) - of_int m :: rat\<bar> * 2 ^ 53 \<le> \<bar>of_int m\<bar>"
    by simp
  then have "\<bar>of_int (R * 2 ^ nat s) - of_int m :: rat\<bar> \<le> \<bar>of_int m\<bar> / 2 ^ 53"
    by (simp add: field_simps)
  then have "\<bar>of_int (R * 2 ^ nat s) - of_int m :: rat\<bar> * 2 powi e \<le> \<bar>of_int m\<bar> / 2 ^ 53 * 2 powi e"
    by (rule mult_right_mono) simp
  moreover have "float64_val (R, e + s) - float64_val (m, e)
                 = (of_int (R * 2 ^ nat s) - of_int m) * 2 powi e"
    using float64_val_round_shift [OF s, of R e] by (simp add: float64_val_powi algebra_simps)
  moreover have "\<bar>float64_val (m, e)\<bar> = \<bar>of_int m\<bar> * 2 powi e"
    by (simp add: float64_val_powi abs_mult)
  ultimately show ?thesis unfolding fr
    by (simp add: abs_mult)
qed

text \<open>A value with a significand of at most 53 bits is not changed by rounding.\<close>

lemma float64_round_exact:
  assumes v: "float64_val (m, e) = of_int z / 2 ^ j" and z: "\<bar>z\<bar> < 2 ^ 53"
  shows "float64_val (float64_round m e) = float64_val (m, e)"
proof (cases "bitlen \<bar>m\<bar> - 53 \<le> 0")
  case True
  then show ?thesis by (simp add: float64_round_def)
next
  case False
  define s where "s = bitlen \<bar>m\<bar> - 53"
  have s: "0 < s" using False by (simp add: s_def)
  have big: "2 ^ (nat s + 52) \<le> \<bar>m\<bar>" using pow2_le_abs [of m] s by (simp add: s_def)
  have m53: "2 ^ 53 \<le> \<bar>m\<bar>"
  proof -
    have "(2::int) ^ 53 \<le> 2 ^ (nat s + 52)" using s by (intro power_increasing) simp_all
    then show ?thesis using big by linarith
  qed
  have eq: "(of_int m :: rat) * 2 powi (e + int j) = of_int z"
  proof -
    have "(2::rat) powi (e + int j) = 2 powi e * 2 ^ j"
      by (subst power_int_add) simp_all
    then show ?thesis using v by (simp add: float64_val_powi field_simps)
  qed
  have neg: "e + int j < 0"
  proof (rule ccontr)
    assume "\<not> e + int j < 0"
    then have "(of_int m :: rat) * 2 ^ nat (e + int j) = of_int z"
      using eq by (simp add: power_int_def)
    then have "(of_int (m * 2 ^ nat (e + int j)) :: rat) = of_int z" by simp
    then have z_eq: "z = m * 2 ^ nat (e + int j)" by (simp only: of_int_eq_iff)
    have "\<bar>z\<bar> = \<bar>m\<bar> * 2 ^ nat (e + int j)" unfolding z_eq by (simp add: abs_mult)
    moreover have "\<bar>m\<bar> * 1 \<le> \<bar>m\<bar> * 2 ^ nat (e + int j)"
      by (rule mult_left_mono) simp_all
    ultimately show False using z m53 by linarith
  qed
  define t where "t = nat (- (e + int j))"
  have mz: "m = z * 2 ^ t"
  proof -
    have p: "(2::rat) powi (e + int j) = 1 / 2 ^ t"
      using neg by (simp add: power_int_def t_def field_simps)
    have "(of_int m :: rat) * (1 / 2 ^ t) = of_int z" using eq by (simp only: p)
    then have "(of_int m :: rat) = of_int z * 2 ^ t" by (simp add: field_simps)
    then have "(of_int m :: rat) = of_int (z * 2 ^ t)" by simp
    then show ?thesis by (simp only: of_int_eq_iff)
  qed
  have st: "nat s \<le> t"
  proof (rule ccontr)
    assume "\<not> nat s \<le> t"
    then have "t + 53 \<le> nat s + 52" by simp
    then have "(2::int) ^ (t + 53) \<le> 2 ^ (nat s + 52)" by (intro power_increasing) simp_all
    moreover have "\<bar>m\<bar> < 2 ^ 53 * 2 ^ t"
    proof -
      have "\<bar>m\<bar> = \<bar>z\<bar> * 2 ^ t" using mz by (simp add: abs_mult)
      also have "\<dots> < 2 ^ 53 * 2 ^ t" using z by (intro mult_strict_right_mono) simp_all
      finally show ?thesis .
    qed
    ultimately show False using big by (simp add: power_add mult.commute)
  qed
  have dvd: "m mod 2 ^ nat s = 0"
  proof -
    have "(2::int) ^ nat s dvd 2 ^ t" using st by (rule le_imp_power_dvd)
    then have "2 ^ nat s dvd m" unfolding mz by (rule dvd_mult)
    then show ?thesis by simp
  qed
  have "m div 2 ^ nat s * 2 ^ nat s = m"
    using div_mult_mod_eq [of m "2 ^ nat s"] dvd by simp
  then have R: "round_half_even m (2 ^ nat s) * 2 ^ nat s = m"
    using dvd by (simp add: round_half_even_def Let_def)
  have "float64_round m e = (round_half_even m (2 ^ nat s), e + s)"
    using False by (simp add: float64_round_def Let_def s_def)
  then show ?thesis
    using float64_val_round_shift [OF s, of "round_half_even m (2 ^ nat s)" e] R
    by (simp add: float64_val_powi)
qed


lemma float64_mul_val:
  assumes "float64_val x * float64_val y = of_int z / 2 ^ j" "\<bar>z\<bar> < 2 ^ 53"
  shows "float64_val (float64_mul x y) = float64_val x * float64_val y"
  using float64_round_exact [of "fst x * fst y" "snd x + snd y" z j] assms
  by (simp add: float64_mul_def float64_val_product)

lemma float64_mul_error:
  "\<bar>float64_val (float64_mul x y) - float64_val x * float64_val y\<bar>
   \<le> \<bar>float64_val x * float64_val y\<bar> / 2 ^ 53"
  using float64_round_error [of "fst x * fst y" "snd x + snd y"]
  by (simp add: float64_mul_def float64_val_product)

lemma float64_add_val:
  assumes "float64_val a + float64_val b = of_int z / 2 ^ j" "\<bar>z\<bar> < 2 ^ 53"
  shows "float64_val (float64_add a b) = float64_val a + float64_val b"
  using float64_round_exact [of "fst a * 2 ^ nat (snd a - min (snd a) (snd b))
                + fst b * 2 ^ nat (snd b - min (snd a) (snd b))" "min (snd a) (snd b)" z j] assms
  by (simp add: float64_add_def Let_def float64_val_sum)

lemma float64_add_error:
  "\<bar>float64_val (float64_add a b) - (float64_val a + float64_val b)\<bar>
   \<le> \<bar>float64_val a + float64_val b\<bar> / 2 ^ 53"
  using float64_round_error [of "fst a * 2 ^ nat (snd a - min (snd a) (snd b))
                + fst b * 2 ^ nat (snd b - min (snd a) (snd b))" "min (snd a) (snd b)"]
  by (simp add: float64_add_def Let_def float64_val_sum)

lemma float64_of_int_val:
  assumes "\<bar>n\<bar> < 2 ^ 53"
  shows "float64_val (float64_of_int n) = of_int n"
proof -
  have "float64_val (n, 0) = of_int n / 2 ^ 0" by (simp add: float64_val_def)
  then have "float64_val (float64_round n 0) = float64_val (n, 0)"
    using assms by (rule float64_round_exact)
  then show ?thesis by (simp add: float64_of_int_def float64_val_def)
qed

text \<open>The product that \<open>float64_add_mul\<close> adds: exact when fused, rounded otherwise.\<close>

lemma float64_add_mul_eq: "float64_add_mul fuse z x y = float64_add z (added_product fuse x y)"
  by (simp add: float64_add_mul_def added_product_def)

lemma added_product_val:
  assumes "float64_val x * float64_val y = of_int z / 2 ^ j" "\<bar>z\<bar> < 2 ^ 53"
  shows "float64_val (added_product fuse x y) = float64_val x * float64_val y"
  using assms by (simp add: added_product_def float64_mul_val float64_val_product)

lemma added_product_error:
  "\<bar>float64_val (added_product fuse x y) - float64_val x * float64_val y\<bar>
   \<le> \<bar>float64_val x * float64_val y\<bar> / 2 ^ 53"
  using float64_mul_error [of x y] by (simp add: added_product_def float64_val_product)

lemma weights_val:
  "float64_val CPUCostWeight = 1" "float64_val MemoryMBCostWeight = 1 / 1024"
  "float64_val GPUCostWeight = 5" "float64_val InferenceCostWeight = 5"
proof -
  have c: "CPUCostWeight = (4503599627370496, - 52)" unfolding CPUCostWeight_def by code_simp
  show "float64_val CPUCostWeight = 1" by (simp add: c float64_val_def)
  have m: "MemoryMBCostWeight = (4503599627370496, - 62)"
    unfolding MemoryMBCostWeight_def by code_simp
  show "float64_val MemoryMBCostWeight = 1 / 1024" by (simp add: m float64_val_def)
  have g: "GPUCostWeight = (5629499534213120, - 50)" unfolding GPUCostWeight_def by code_simp
  show "float64_val GPUCostWeight = 5" by (simp add: g float64_val_def)
  have i: "InferenceCostWeight = (5629499534213120, - 50)"
    unfolding InferenceCostWeight_def by code_simp
  show "float64_val InferenceCostWeight = 5" by (simp add: i float64_val_def)
qed

lemma LocalStorageWeight_val:
  "\<bar>float64_val LocalStorageWeight - 1 / 100\<bar> \<le> 1 / 2 ^ 60" "0 \<le> float64_val LocalStorageWeight"
  "float64_val LocalStorageWeight \<le> 1 / 64"
proof -
  have w: "LocalStorageWeight = (5764607523034235, - 59)" unfolding LocalStorageWeight_def by code_simp
  show "\<bar>float64_val LocalStorageWeight - 1 / 100\<bar> \<le> 1 / 2 ^ 60"
    by (simp add: w float64_val_def abs_le_iff)
  show "0 \<le> float64_val LocalStorageWeight" by (simp add: w float64_val_def)
  show "float64_val LocalStorageWeight \<le> 1 / 64" by (simp add: w float64_val_def)
qed

subsection \<open>Price\<close>

lemma float64_val_zero: "float64_val (0, 0) = 0"
  by (simp add: float64_val_def)

lemma Price_gpus_val:
  assumes "Price_gpus gpus gpuCount = Some r" "float64_val gpuCount = of_int A" "0 \<le> A"
    and "\<forall>n \<in> set (List.map_filter (\<lambda>gpu. Option.bind gpu GpuDeviceInfo.Count) gpus). 0 \<le> sint n"
    and "A + sum_list (map sint (List.map_filter (\<lambda>gpu. Option.bind gpu GpuDeviceInfo.Count) gpus))
         < 2 ^ 53"
  shows "float64_val r
         = of_int (A + sum_list (map sint
             (List.map_filter (\<lambda>gpu. Option.bind gpu GpuDeviceInfo.Count) gpus)))"
  using assms
proof (induction gpus arbitrary: gpuCount A)
  case Nil
  then show ?case by (simp add: List.map_filter_simps)
next
  case (Cons gpu gpus)
  let ?cs = "List.map_filter (\<lambda>gpu. Option.bind gpu GpuDeviceInfo.Count) gpus"
  from Cons.prems(1) obtain g where g: "gpu = Some g" by (auto split: Option.bind_splits)
  have nonneg: "0 \<le> sum_list (map sint ?cs)"
    using Cons.prems(4) g by (intro sum_list_nonneg) (auto simp: List.map_filter_simps split: option.splits)
  show ?case
  proof (cases "GpuDeviceInfo.Count g")
    case None
    then have run: "Price_gpus gpus gpuCount = Some r" using Cons.prems(1) g by simp
    have rest: "\<forall>n\<in>set ?cs. 0 \<le> sint n"
      using Cons.prems(4) g None by (simp add: List.map_filter_simps)
    have tot: "A + sum_list (map sint ?cs) < 2 ^ 53"
      using Cons.prems(5) g None by (simp add: List.map_filter_simps)
    have "float64_val r = of_int (A + sum_list (map sint ?cs))"
      using run Cons.prems(2,3) rest tot by (rule Cons.IH)
    then show ?thesis using g None by (simp add: List.map_filter_simps)
  next
    case (Some n)
    have n: "0 \<le> sint n" using Cons.prems(4) g Some by (simp add: List.map_filter_simps)
    have tot: "A + sint n + sum_list (map sint ?cs) < 2 ^ 53"
      using Cons.prems(5) g Some by (simp add: List.map_filter_simps add.assoc)
    have small: "A + sint n < 2 ^ 53" using tot nonneg by linarith
    have vn: "float64_val (float64_of_int (sint n)) = of_int (sint n)"
      using n small Cons.prems(3) by (intro float64_of_int_val) simp
    have "float64_val (float64_add gpuCount (float64_of_int (sint n))) = of_int (A + sint n)"
    proof -
      have "float64_val gpuCount + float64_val (float64_of_int (sint n))
            = of_int (A + sint n) / 2 ^ 0"
        using Cons.prems(2) vn by simp
      moreover have "\<bar>A + sint n\<bar> < 2 ^ 53" using n small Cons.prems(3) by simp
      ultimately have "float64_val (float64_add gpuCount (float64_of_int (sint n)))
            = float64_val gpuCount + float64_val (float64_of_int (sint n))"
        by (rule float64_add_val)
      then show ?thesis using Cons.prems(2) vn by simp
    qed
    note va = this
    have run: "Price_gpus gpus (float64_add gpuCount (float64_of_int (sint n))) = Some r"
      using Cons.prems(1) g Some by simp
    have a0: "0 \<le> A + sint n" using n Cons.prems(3) by simp
    have rest: "\<forall>n\<in>set ?cs. 0 \<le> sint n"
      using Cons.prems(4) g Some by (simp add: List.map_filter_simps)
    have "float64_val r = of_int (A + sint n + sum_list (map sint ?cs))"
      using run va a0 rest tot by (rule Cons.IH)
    then show ?thesis using g Some by (simp add: List.map_filter_simps add.assoc)
  qed
qed

lemma Price_accelerators_val:
  assumes "Price_accelerators accs infCount = Some r" "float64_val infCount = of_int A" "0 \<le> A"
    and "\<forall>n \<in> set (List.map_filter (\<lambda>acc. Option.bind acc InferenceDeviceInfo.Count) accs). 0 \<le> sint n"
    and "A + sum_list (map sint (List.map_filter (\<lambda>acc. Option.bind acc InferenceDeviceInfo.Count) accs))
         < 2 ^ 53"
  shows "float64_val r
         = of_int (A + sum_list (map sint
             (List.map_filter (\<lambda>acc. Option.bind acc InferenceDeviceInfo.Count) accs)))"
  using assms
proof (induction accs arbitrary: infCount A)
  case Nil
  then show ?case by (simp add: List.map_filter_simps)
next
  case (Cons acc accs)
  let ?cs = "List.map_filter (\<lambda>acc. Option.bind acc InferenceDeviceInfo.Count) accs"
  from Cons.prems(1) obtain g where g: "acc = Some g" by (auto split: Option.bind_splits)
  have nonneg: "0 \<le> sum_list (map sint ?cs)"
    using Cons.prems(4) g by (intro sum_list_nonneg) (auto simp: List.map_filter_simps split: option.splits)
  show ?case
  proof (cases "InferenceDeviceInfo.Count g")
    case None
    then have run: "Price_accelerators accs infCount = Some r" using Cons.prems(1) g by simp
    have rest: "\<forall>n\<in>set ?cs. 0 \<le> sint n"
      using Cons.prems(4) g None by (simp add: List.map_filter_simps)
    have tot: "A + sum_list (map sint ?cs) < 2 ^ 53"
      using Cons.prems(5) g None by (simp add: List.map_filter_simps)
    have "float64_val r = of_int (A + sum_list (map sint ?cs))"
      using run Cons.prems(2,3) rest tot by (rule Cons.IH)
    then show ?thesis using g None by (simp add: List.map_filter_simps)
  next
    case (Some n)
    have n: "0 \<le> sint n" using Cons.prems(4) g Some by (simp add: List.map_filter_simps)
    have tot: "A + sint n + sum_list (map sint ?cs) < 2 ^ 53"
      using Cons.prems(5) g Some by (simp add: List.map_filter_simps add.assoc)
    have small: "A + sint n < 2 ^ 53" using tot nonneg by linarith
    have vn: "float64_val (float64_of_int (sint n)) = of_int (sint n)"
      using n small Cons.prems(3) by (intro float64_of_int_val) simp
    have "float64_val (float64_add infCount (float64_of_int (sint n))) = of_int (A + sint n)"
    proof -
      have "float64_val infCount + float64_val (float64_of_int (sint n))
            = of_int (A + sint n) / 2 ^ 0"
        using Cons.prems(2) vn by simp
      moreover have "\<bar>A + sint n\<bar> < 2 ^ 53" using n small Cons.prems(3) by simp
      ultimately have "float64_val (float64_add infCount (float64_of_int (sint n)))
            = float64_val infCount + float64_val (float64_of_int (sint n))"
        by (rule float64_add_val)
      then show ?thesis using Cons.prems(2) vn by simp
    qed
    note va = this
    have run: "Price_accelerators accs (float64_add infCount (float64_of_int (sint n))) = Some r"
      using Cons.prems(1) g Some by simp
    have a0: "0 \<le> A + sint n" using n Cons.prems(3) by simp
    have rest: "\<forall>n\<in>set ?cs. 0 \<le> sint n"
      using Cons.prems(4) g Some by (simp add: List.map_filter_simps)
    have "float64_val r = of_int (A + sint n + sum_list (map sint ?cs))"
      using run va a0 rest tot by (rule Cons.IH)
    then show ?thesis using g Some by (simp add: List.map_filter_simps add.assoc)
  qed
qed

lemma float64_add_mul_exact:
  assumes z: "float64_val z = of_int a / 2 ^ 10"
    and xy: "float64_val x * float64_val y = of_int b / 2 ^ 10"
    and b: "\<bar>b\<bar> < 2 ^ 53" and ab: "\<bar>a + b\<bar> < 2 ^ 53"
  shows "float64_val (float64_add_mul f z x y) = of_int (a + b) / 2 ^ 10"
proof -
  have P: "float64_val (added_product f x y) = of_int b / 2 ^ 10"
    using added_product_val [OF xy b] xy by simp
  have "float64_val z + float64_val (added_product f x y) = of_int (a + b) / 2 ^ 10"
    using z P by (simp add: add_divide_distrib)
  then have "float64_val (float64_add z (added_product f x y)) = of_int (a + b) / 2 ^ 10"
    using float64_add_val [of z "added_product f x y" "a + b" 10] ab by simp
  then show ?thesis by (simp add: float64_add_mul_eq)
qed

lemma Price_inner_val:
  fixes v m G Ac :: int
  assumes "0 \<le> v" "0 \<le> m" "0 \<le> G" "0 \<le> Ac"
    and N: "1024 * v + m + 5120 * G + 5120 * Ac < 2 ^ 53"
    and g: "float64_val g = of_int G" and a: "float64_val a = of_int Ac"
  shows "float64_val
           (float64_add_mul f
             (float64_add_mul f
               (float64_add_mul f (float64_mul CPUCostWeight (float64_of_int v))
                  MemoryMBCostWeight (float64_of_int m))
               GPUCostWeight g)
             InferenceCostWeight a)
         = of_int (1024 * v + m + 5120 * G + 5120 * Ac) / 2 ^ 10"
proof -
  have v53: "\<bar>v\<bar> < 2 ^ 53" using assms(1-5) by simp
  have m53: "\<bar>m\<bar> < 2 ^ 53" using assms(1-5) by simp
  have fv: "float64_val (float64_of_int v) = of_int v" using v53 by (rule float64_of_int_val)
  have fm: "float64_val (float64_of_int m) = of_int m" using m53 by (rule float64_of_int_val)
  have "float64_val CPUCostWeight * float64_val (float64_of_int v) = of_int v / 2 ^ 0"
    by (simp add: weights_val fv)
  then have "float64_val (float64_mul CPUCostWeight (float64_of_int v))
             = float64_val CPUCostWeight * float64_val (float64_of_int v)"
    using v53 by (rule float64_mul_val)
  then have s1: "float64_val (float64_mul CPUCostWeight (float64_of_int v))
                 = of_int (1024 * v) / 2 ^ 10"
    by (simp add: weights_val fv)
  have s2: "float64_val (float64_add_mul f (float64_mul CPUCostWeight (float64_of_int v))
                  MemoryMBCostWeight (float64_of_int m)) = of_int (1024 * v + m) / 2 ^ 10"
    using s1
  proof (rule float64_add_mul_exact)
    show "float64_val MemoryMBCostWeight * float64_val (float64_of_int m) = of_int m / 2 ^ 10"
      by (simp add: weights_val fm)
    show "\<bar>m\<bar> < 2 ^ 53" by (rule m53)
    show "\<bar>1024 * v + m\<bar> < 2 ^ 53" using assms(1-5) by simp
  qed
  have s3: "float64_val (float64_add_mul f
               (float64_add_mul f (float64_mul CPUCostWeight (float64_of_int v))
                  MemoryMBCostWeight (float64_of_int m))
               GPUCostWeight g) = of_int (1024 * v + m + 5120 * G) / 2 ^ 10"
    using s2
  proof (rule float64_add_mul_exact)
    show "float64_val GPUCostWeight * float64_val g = of_int (5120 * G) / 2 ^ 10"
      by (simp add: weights_val g)
    show "\<bar>5120 * G\<bar> < 2 ^ 53" using assms(1-5) by simp
    show "\<bar>1024 * v + m + 5120 * G\<bar> < 2 ^ 53" using assms(1-5) by simp
  qed
  show ?thesis
    using s3
  proof (rule float64_add_mul_exact)
    show "float64_val InferenceCostWeight * float64_val a = of_int (5120 * Ac) / 2 ^ 10"
      by (simp add: weights_val a)
    show "\<bar>5120 * Ac\<bar> < 2 ^ 53" using assms(1-5) by simp
    show "\<bar>1024 * v + m + 5120 * G + 5120 * Ac\<bar> < 2 ^ 53" using assms(1-5) by simp
  qed
qed

text \<open>Arithmetic of the error bounds, with the powers of 2 written out:
  \<open>2 ^ 51 = 2251799813685248\<close>, \<open>2 ^ 52 = 4503599627370496\<close>,
  \<open>2 ^ 53 = 9007199254740992\<close> and \<open>2 ^ 60 = 1152921504606846976\<close>.\<close>

lemma storage_error_sum:
  fixes t :: rat
  assumes "0 \<le> t"
  shows "(t / 100 + t / 1152921504606846976) / 9007199254740992 + t / 1152921504606846976
         \<le> (t / 100) / 4503599627370496"
proof -
  have "(t / 100 + t / 1152921504606846976) / 9007199254740992 + t / 1152921504606846976
        = t * ((1 / 100 + 1 / 1152921504606846976) / 9007199254740992 + 1 / 1152921504606846976)"
    by (simp add: algebra_simps)
  also have "\<dots> \<le> t * ((1 / 100) / 4503599627370496)"
    using assms by (intro mult_left_mono) simp_all
  also have "\<dots> = (t / 100) / 4503599627370496" by simp
  finally show ?thesis .
qed

lemma storage_error_upper:
  fixes q x t :: rat
  assumes "q - x \<le> x / 9007199254740992" "x - t / 100 \<le> t / 1152921504606846976" "0 \<le> t"
  shows "q - t / 100 \<le> (t / 100) / 4503599627370496"
proof -
  have "x \<le> t / 100 + t / 1152921504606846976" using assms(2) by linarith
  then have "x / 9007199254740992 \<le> (t / 100 + t / 1152921504606846976) / 9007199254740992"
    by (rule divide_right_mono) simp
  then have "q - t / 100
    \<le> (t / 100 + t / 1152921504606846976) / 9007199254740992 + t / 1152921504606846976"
    using assms(1,2) by linarith
  also have "\<dots> \<le> (t / 100) / 4503599627370496" using assms(3) by (rule storage_error_sum)
  finally show ?thesis .
qed

lemma storage_error_lower:
  fixes q x t :: rat
  assumes "- (q - x) \<le> x / 9007199254740992" "x - t / 100 \<le> t / 1152921504606846976"
    "- (x - t / 100) \<le> t / 1152921504606846976" "0 \<le> t"
  shows "- (q - t / 100) \<le> (t / 100) / 4503599627370496"
proof -
  have "x \<le> t / 100 + t / 1152921504606846976" using assms(2) by linarith
  then have "x / 9007199254740992 \<le> (t / 100 + t / 1152921504606846976) / 9007199254740992"
    by (rule divide_right_mono) simp
  then have "- (q - t / 100)
    \<le> (t / 100 + t / 1152921504606846976) / 9007199254740992 + t / 1152921504606846976"
    using assms(1,3) by linarith
  also have "\<dots> \<le> (t / 100) / 4503599627370496" using assms(4) by (rule storage_error_sum)
  finally show ?thesis .
qed

lemma last_sum_upper:
  fixes P \<sigma> q c :: rat
  assumes "P - (\<sigma> + q) \<le> (\<sigma> + q) / 9007199254740992"
    "q - c \<le> c / 4503599627370496" "0 \<le> c" "0 \<le> \<sigma>"
  shows "P - (\<sigma> + c) \<le> (\<sigma> + c) / 2251799813685248"
proof -
  have "q \<le> 2 * c" using assms(2,3) by linarith
  then have "(\<sigma> + q) / 9007199254740992 \<le> (\<sigma> + 2 * c) / 9007199254740992"
    by (intro divide_right_mono) simp_all
  then have "P - (\<sigma> + q) \<le> (\<sigma> + 2 * c) / 9007199254740992" using assms(1) by linarith
  then have "P - (\<sigma> + c) \<le> (\<sigma> + 2 * c) / 9007199254740992 + c / 4503599627370496"
    using assms(2) by linarith
  also have "\<dots> = (\<sigma> + 4 * c) / 9007199254740992" by (simp add: field_simps)
  also have "\<dots> \<le> (4 * \<sigma> + 4 * c) / 9007199254740992"
    using assms(4) by (intro divide_right_mono) simp_all
  also have "\<dots> = (\<sigma> + c) / 2251799813685248" by (simp add: field_simps)
  finally show ?thesis .
qed

lemma last_sum_lower:
  fixes P \<sigma> q c :: rat
  assumes "- (P - (\<sigma> + q)) \<le> (\<sigma> + q) / 9007199254740992"
    "- (q - c) \<le> c / 4503599627370496" "q - c \<le> c / 4503599627370496" "0 \<le> c" "0 \<le> \<sigma>"
  shows "- (P - (\<sigma> + c)) \<le> (\<sigma> + c) / 2251799813685248"
proof -
  have "q \<le> 2 * c" using assms(3,4) by linarith
  then have "(\<sigma> + q) / 9007199254740992 \<le> (\<sigma> + 2 * c) / 9007199254740992"
    by (intro divide_right_mono) simp_all
  then have "- (P - (\<sigma> + q)) \<le> (\<sigma> + 2 * c) / 9007199254740992" using assms(1) by linarith
  then have "- (P - (\<sigma> + c)) \<le> (\<sigma> + 2 * c) / 9007199254740992 + c / 4503599627370496"
    using assms(2) by linarith
  also have "\<dots> = (\<sigma> + 4 * c) / 9007199254740992" by (simp add: field_simps)
  also have "\<dots> \<le> (4 * \<sigma> + 4 * c) / 9007199254740992"
    using assms(5) by (intro divide_right_mono) simp_all
  also have "\<dots> = (\<sigma> + c) / 2251799813685248" by (simp add: field_simps)
  finally show ?thesis .
qed

lemma last_sum_quarter:
  fixes \<sigma> q c :: rat
  assumes "q - c \<le> c / 4503599627370496" "0 \<le> c" "c < 140737488355328" "\<sigma> < 8796093022208"
  shows "(\<sigma> + q) / 9007199254740992 \<le> 1 / 4"
proof -
  have "q \<le> 2 * c" using assms(1,2) by linarith
  then have "\<sigma> + q \<le> 8796093022208 + 2 * 140737488355328" using assms(3,4) by linarith
  then have "(\<sigma> + q) / 9007199254740992
             \<le> (8796093022208 + 2 * 140737488355328) / 9007199254740992"
    by (rule divide_right_mono) simp
  also have "\<dots> \<le> 1 / 4" by simp
  finally show ?thesis .
qed

text \<open>The storage term: the product of the storage size and the \<^verbatim>\<open>float64\<close> of 0.01,
  rounded or not, is the hundredth of the size up to the fraction \<open>2 ^ - 52\<close> of it.\<close>

lemma Price_storage_product:
  fixes s :: int
  assumes ls: "float64_val ls = of_int s" and s: "0 \<le> s"
  shows "\<bar>float64_val (added_product f ls LocalStorageWeight) - of_int s / 100\<bar>
         \<le> (of_int s / 100) / 2 ^ 52"
proof -
  define w where "w = float64_val LocalStorageWeight"
  define q where "q = float64_val (added_product f ls LocalStorageWeight)"
  define t :: rat where "t = of_int s"
  have w: "0 \<le> w" "\<bar>w - 1 / 100\<bar> \<le> 1 / 2 ^ 60"
    using LocalStorageWeight_val by (simp_all add: w_def)
  have t0: "0 \<le> t" using s by (simp add: t_def)
  have tw0: "0 \<le> t * w" using t0 w(1) by (rule mult_nonneg_nonneg)
  have "\<bar>q - float64_val ls * float64_val LocalStorageWeight\<bar>
        \<le> \<bar>float64_val ls * float64_val LocalStorageWeight\<bar> / 2 ^ 53"
    unfolding q_def by (rule added_product_error)
  then have qe: "\<bar>q - t * w\<bar> \<le> (t * w) / 2 ^ 53"
    using tw0 by (simp add: ls w_def t_def)
  have "\<bar>t * w - t / 100\<bar> = t * \<bar>w - 1 / 100\<bar>"
  proof -
    have "t * w - t / 100 = t * (w - 1 / 100)" by (simp add: algebra_simps)
    then show ?thesis using t0 by (simp only: abs_mult abs_of_nonneg)
  qed
  also have "\<dots> \<le> t * (1 / 2 ^ 60)" using w(2) t0 by (rule mult_left_mono)
  finally have we: "\<bar>t * w - t / 100\<bar> \<le> t / 2 ^ 60" by simp
  define x where "x = t * w"
  have qe': "\<bar>q - x\<bar> \<le> x / 9007199254740992" using qe by (simp add: x_def)
  have we': "\<bar>x - t / 100\<bar> \<le> t / 1152921504606846976" using we by (simp add: x_def)
  have 1: "q - x \<le> x / 9007199254740992" "- (q - x) \<le> x / 9007199254740992"
    using qe' by (rule abs_le_D1, rule abs_le_D2)
  have 2: "x - t / 100 \<le> t / 1152921504606846976" "- (x - t / 100) \<le> t / 1152921504606846976"
    using we' by (rule abs_le_D1, rule abs_le_D2)
  have "q - t / 100 \<le> (t / 100) / 4503599627370496"
    using 1(1) 2(1) t0 by (rule storage_error_upper)
  moreover have "- (q - t / 100) \<le> (t / 100) / 4503599627370496"
    using 1(2) 2 t0 by (rule storage_error_lower)
  ultimately have "\<bar>q - t / 100\<bar> \<le> (t / 100) / 4503599627370496"
    by (rule abs_leI)
  then show ?thesis by (simp add: q_def t_def)
qed

text \<open>The last sum of \<^verbatim>\<open>Price\<close>: after an exact sum \<open>\<sigma>\<close> of the first four terms, the
  result is the sum with the hundredth of the storage size up to the fraction
  \<open>2 ^ - 51\<close> of it, and it is \<open>\<sigma>\<close> plus the storage term up to a quarter.\<close>

lemma Price_last_step:
  fixes \<sigma> :: rat and s :: int
  assumes S: "float64_val S = \<sigma>" and \<sigma>: "0 \<le> \<sigma>" "\<sigma> < 2 ^ 43"
    and ls: "float64_val ls = of_int s" and s: "0 \<le> s" "s < 2 ^ 53"
  shows "\<bar>float64_val (float64_add_mul f S ls LocalStorageWeight) - (\<sigma> + of_int s / 100)\<bar>
          \<le> (\<sigma> + of_int s / 100) / 2 ^ 51"
    and "\<bar>float64_val (float64_add_mul f S ls LocalStorageWeight)
          - (\<sigma> + float64_val (added_product f ls LocalStorageWeight))\<bar> \<le> 1 / 4"
proof -
  define q where "q = float64_val (added_product f ls LocalStorageWeight)"
  define c :: rat where "c = of_int s / 100"
  define P where "P = float64_val (float64_add_mul f S ls LocalStorageWeight)"
  have c0: "0 \<le> c" using s(1) by (simp add: c_def)
  have "(of_int s :: rat) < of_int (2 ^ 53)" using s(2) by (simp only: of_int_less_iff)
  then have c1: "c < 2 ^ 47" by (simp add: c_def)
  have "\<bar>q - c\<bar> \<le> c / 2 ^ 52"
    unfolding q_def c_def using ls s(1) by (rule Price_storage_product)
  then have qc': "\<bar>q - c\<bar> \<le> c / 4503599627370496" by simp
  have qc: "q - c \<le> c / 4503599627370496" "- (q - c) \<le> c / 4503599627370496"
    using qc' by (rule abs_le_D1, rule abs_le_D2)
  have q0: "0 \<le> q" using qc(2) c0 by linarith
  have "\<bar>float64_val (float64_add S (added_product f ls LocalStorageWeight))
         - (float64_val S + float64_val (added_product f ls LocalStorageWeight))\<bar>
        \<le> \<bar>float64_val S + float64_val (added_product f ls LocalStorageWeight)\<bar> / 2 ^ 53"
    by (rule float64_add_error)
  then have "\<bar>P - (\<sigma> + q)\<bar> \<le> \<bar>\<sigma> + q\<bar> / 2 ^ 53"
    by (simp add: float64_add_mul_eq S q_def P_def)
  moreover have "\<bar>\<sigma> + q\<bar> = \<sigma> + q" using \<sigma>(1) q0 by simp
  ultimately have Pe': "\<bar>P - (\<sigma> + q)\<bar> \<le> (\<sigma> + q) / 9007199254740992" by simp
  have Pe: "P - (\<sigma> + q) \<le> (\<sigma> + q) / 9007199254740992"
    "- (P - (\<sigma> + q)) \<le> (\<sigma> + q) / 9007199254740992"
    using Pe' by (rule abs_le_D1, rule abs_le_D2)
  have \<sigma>1: "\<sigma> < 8796093022208" using \<sigma>(2) by simp
  have c1': "c < 140737488355328" using c1 by simp
  have "P - (\<sigma> + c) \<le> (\<sigma> + c) / 2251799813685248"
    using Pe(1) qc(1) c0 \<sigma>(1) by (rule last_sum_upper)
  moreover have "- (P - (\<sigma> + c)) \<le> (\<sigma> + c) / 2251799813685248"
    using Pe(2) qc(2) qc(1) c0 \<sigma>(1) by (rule last_sum_lower)
  ultimately have "\<bar>P - (\<sigma> + c)\<bar> \<le> (\<sigma> + c) / 2251799813685248"
    by (rule abs_leI)
  then show "\<bar>float64_val (float64_add_mul f S ls LocalStorageWeight) - (\<sigma> + of_int s / 100)\<bar>
          \<le> (\<sigma> + of_int s / 100) / 2 ^ 51"
    by (simp add: P_def c_def)
  have "(\<sigma> + q) / 9007199254740992 \<le> 1 / 4"
    using qc(1) c0 c1' \<sigma>1 by (rule last_sum_quarter)
  then have "\<bar>P - (\<sigma> + q)\<bar> \<le> 1 / 4" using Pe' by (rule order_trans [rotated])
  then show "\<bar>float64_val (float64_add_mul f S ls LocalStorageWeight)
          - (\<sigma> + float64_val (added_product f ls LocalStorageWeight))\<bar> \<le> 1 / 4"
    by (simp add: P_def q_def)
qed

lemma Price_Some_iff:
  assumes "InstanceTypeInfo i = Some info" "VCpuInfo info = Some vi" "DefaultVCpus vi = Some v"
    and "InstanceTypeInfo.MemoryInfo info = Some mi" "MemoryInfo.SizeInMiB mi = Some m"
  shows "Price env i = Some p \<longleftrightarrow>
     (\<exists>g a ls.
        (case GpuInfo info of None \<Rightarrow> Some (0, 0)
         | Some gpuInfo \<Rightarrow> Price_gpus (Gpus gpuInfo) (0, 0)) = Some g \<and>
        (case InferenceAcceleratorInfo info of None \<Rightarrow> Some (0, 0)
         | Some acceleratorInfo \<Rightarrow> Price_accelerators (Accelerators acceleratorInfo) (0, 0))
          = Some a \<and>
        (case InstanceStorageInfo info of None \<Rightarrow> Some (0, 0)
         | Some storageInfo \<Rightarrow> do {
             totalSizeInGB \<leftarrow> TotalSizeInGB storageInfo;
             Some (float64_add (0, 0) (float64_of_int (sint totalSizeInGB)))
           }) = Some ls \<and>
        p = float64_add_mul (fused env)
              (float64_add_mul (fused env)
                (float64_add_mul (fused env)
                  (float64_add_mul (fused env)
                    (float64_mul CPUCostWeight (float64_of_int (sint v)))
                    MemoryMBCostWeight (float64_of_int (sint m)))
                  GPUCostWeight g)
                InferenceCostWeight a)
              ls LocalStorageWeight)"
  unfolding Price_def by (simp add: assms bind_eq_Some_conv) blast

lemma gpuCount_val:
  assumes "(case GpuInfo info of None \<Rightarrow> Some (0, 0)
            | Some gpuInfo \<Rightarrow> Price_gpus (Gpus gpuInfo) (0, 0)) = Some g"
    and "\<forall>n \<in> set (gpu_counts info). 0 \<le> n" "sum_list (gpu_counts info) < 2 ^ 53"
  shows "float64_val g = of_int (sum_list (gpu_counts info))"
proof (cases "GpuInfo info")
  case None
  then show ?thesis using assms(1) by (auto simp: gpu_counts_def float64_val_zero)
next
  case (Some gpuInfo)
  let ?cs = "List.map_filter (\<lambda>gpu. Option.bind gpu GpuDeviceInfo.Count) (Gpus gpuInfo)"
  have run: "Price_gpus (Gpus gpuInfo) (0, 0) = Some g" using assms(1) Some by simp
  have z: "float64_val (0, 0) = of_int 0" by (simp add: float64_val_zero)
  have nn: "\<forall>n \<in> set ?cs. 0 \<le> sint n" using assms(2) Some by (simp add: gpu_counts_def)
  have tot: "0 + sum_list (map sint ?cs) < 2 ^ 53" using assms(3) Some by (simp add: gpu_counts_def)
  have "float64_val g = of_int (0 + sum_list (map sint ?cs))"
    using run z _ nn tot by (rule Price_gpus_val) simp
  then show ?thesis using Some by (simp add: gpu_counts_def)
qed

lemma infCount_val:
  assumes "(case InferenceAcceleratorInfo info of None \<Rightarrow> Some (0, 0)
            | Some acceleratorInfo \<Rightarrow> Price_accelerators (Accelerators acceleratorInfo) (0, 0))
           = Some a"
    and "\<forall>n \<in> set (accelerator_counts info). 0 \<le> n" "sum_list (accelerator_counts info) < 2 ^ 53"
  shows "float64_val a = of_int (sum_list (accelerator_counts info))"
proof (cases "InferenceAcceleratorInfo info")
  case None
  then show ?thesis using assms(1) by (auto simp: accelerator_counts_def float64_val_zero)
next
  case (Some acceleratorInfo)
  let ?cs = "List.map_filter (\<lambda>acc. Option.bind acc InferenceDeviceInfo.Count)
               (Accelerators acceleratorInfo)"
  have run: "Price_accelerators (Accelerators acceleratorInfo) (0, 0) = Some a"
    using assms(1) Some by simp
  have z: "float64_val (0, 0) = of_int 0" by (simp add: float64_val_zero)
  have nn: "\<forall>n \<in> set ?cs. 0 \<le> sint n" using assms(2) Some by (simp add: accelerator_counts_def)
  have tot: "0 + sum_list (map sint ?cs) < 2 ^ 53"
    using assms(3) Some by (simp add: accelerator_counts_def)
  have "float64_val a = of_int (0 + sum_list (map sint ?cs))"
    using run z _ nn tot by (rule Price_accelerators_val) simp
  then show ?thesis using Some by (simp add: accelerator_counts_def)
qed

lemma localStorageGiBs_val:
  assumes "(case InstanceStorageInfo info of None \<Rightarrow> Some (0, 0)
            | Some storageInfo \<Rightarrow> do {
                totalSizeInGB \<leftarrow> TotalSizeInGB storageInfo;
                Some (float64_add (0, 0) (float64_of_int (sint totalSizeInGB)))
              }) = Some ls"
    and "0 \<le> local_storage info" "local_storage info < 2 ^ 53"
  shows "float64_val ls = of_int (local_storage info)"
proof (cases "InstanceStorageInfo info")
  case None
  then show ?thesis using assms(1) by (auto simp: local_storage_def float64_val_zero)
next
  case (Some storageInfo)
  then obtain t where t: "TotalSizeInGB storageInfo = Some t"
    and ls: "ls = float64_add (0, 0) (float64_of_int (sint t))"
    using assms(1) by (auto simp: bind_eq_Some_conv)
  have l: "local_storage info = sint t" using Some t by (simp add: local_storage_def)
  have b: "\<bar>sint t\<bar> < 2 ^ 53" using assms(2,3) l by simp
  have vt: "float64_val (float64_of_int (sint t)) = of_int (sint t)"
    using b by (rule float64_of_int_val)
  have "float64_val (0, 0) + float64_val (float64_of_int (sint t)) = of_int (sint t) / 2 ^ 0"
    by (simp add: float64_val_zero vt)
  then have "float64_val (float64_add (0, 0) (float64_of_int (sint t)))
             = float64_val (0, 0) + float64_val (float64_of_int (sint t))"
    using b by (rule float64_add_val)
  then show ?thesis by (simp add: ls l vt float64_val_zero)
qed

lemma sum_list_bounds:
  fixes xs :: "int list"
  assumes "\<forall>n \<in> set xs. 0 \<le> n"
  shows "0 \<le> sum_list xs"
  using assms by (intro sum_list_nonneg) simp

lemma Price_inner_range:
  fixes v m G Ac :: int
  assumes "0 \<le> v" "0 \<le> m" "0 \<le> G" "0 \<le> Ac"
    and "1024 * v + m + 5120 * G + 5120 * Ac < 2 ^ 53"
  shows "(0::rat) \<le> of_int (1024 * v + m + 5120 * G + 5120 * Ac) / 2 ^ 10"
    and "(of_int (1024 * v + m + 5120 * G + 5120 * Ac) :: rat) / 2 ^ 10 < 2 ^ 43"
proof -
  have z: "0 \<le> 1024 * v + m + 5120 * G + 5120 * Ac" using assms by simp
  show "(0::rat) \<le> of_int (1024 * v + m + 5120 * G + 5120 * Ac) / 2 ^ 10" using z by simp
  have "(of_int (1024 * v + m + 5120 * G + 5120 * Ac) :: rat) < of_int (2 ^ 53)"
    using assms(5) by (simp only: of_int_less_iff)
  then show "(of_int (1024 * v + m + 5120 * G + 5120 * Ac) :: rat) / 2 ^ 10 < 2 ^ 43"
    by (simp add: divide_less_eq)
qed

lemma price_formula_inner:
  "price_formula v m G Ac s
   = of_int (1024 * v + m + 5120 * G + 5120 * Ac) / 2 ^ 10 + of_int s / 100"
  by (simp add: price_formula_def field_simps)

text \<open>The first four terms are below \<open>2 ^ 43\<close> when their sum in units of \<open>1 / 1024\<close> is
  below \<open>2 ^ 53\<close>.\<close>

lemma price_formula_exact_range:
  "price_formula v m G Ac 0 < 2 ^ 43 \<longleftrightarrow> 1024 * v + m + 5120 * G + 5120 * Ac < 2 ^ 53"
proof -
  have "price_formula v m G Ac 0 < 2 ^ 43
        \<longleftrightarrow> (of_int (1024 * v + m + 5120 * G + 5120 * Ac) :: rat) < of_int (2 ^ 53)"
    by (simp add: price_formula_inner divide_less_eq)
  then show ?thesis by (simp only: of_int_less_iff)
qed

text \<open>
  Claim C9, as amended. Take an instance type whose vCPU count, memory size and GPU and
  accelerator counts are not negative, whose first four terms
  \<open>1 * vCPU + (1 / 1024) * memoryMiB + 5 * gpus + 5 * accelerators\<close> add up to less than
  \<open>2 ^ 43\<close>, and whose local storage size is from 0 to below \<open>2 ^ 53\<close>; \<open>gpus\<close> and
  \<open>accelerators\<close> are the totals of the counts of the descriptors, and a section that the
  metadata does not have counts 0. Then the \<^verbatim>\<open>float64\<close> that \<^verbatim>\<open>Price\<close> returns is
  the weighted sum with the storage term \<open>(1 / 100) * storage\<close> up to the fraction
  \<open>2 ^ - 51\<close> of the sum, and it is the weighted sum exactly when the local storage is 0.
  With every other input the same, a larger vCPU count within these bounds gives a larger
  price. This holds whether or not products and sums are fused. The bound \<open>2 ^ 43\<close> is the
  first value where the sum of the first four terms can need more than 53 bits.
\<close>

theorem price_weighted_sum:
  assumes info: "InstanceTypeInfo i = Some info" "VCpuInfo info = Some vCpuInfo"
      "DefaultVCpus vCpuInfo = Some v" "InstanceTypeInfo.MemoryInfo info = Some memoryInfo"
      "MemoryInfo.SizeInMiB memoryInfo = Some m"
    and run: "Price env i = Some p"
    and v: "0 \<le> sint v" and m: "0 \<le> sint m"
    and gpus: "\<forall>n \<in> set (gpu_counts info). 0 \<le> n"
    and accs: "\<forall>n \<in> set (accelerator_counts info). 0 \<le> n"
    and exact: "price_formula (sint v) (sint m) (sum_list (gpu_counts info))
                  (sum_list (accelerator_counts info)) 0 < 2 ^ 43"
    and storage: "0 \<le> local_storage info" "local_storage info < 2 ^ 53"
  shows "\<bar>float64_val p - price_formula (sint v) (sint m) (sum_list (gpu_counts info))
            (sum_list (accelerator_counts info)) (local_storage info)\<bar>
         \<le> price_formula (sint v) (sint m) (sum_list (gpu_counts info))
              (sum_list (accelerator_counts info)) (local_storage info) / 2 ^ 51 \<and>
         (local_storage info = 0 \<longrightarrow>
            float64_val p = price_formula (sint v) (sint m) (sum_list (gpu_counts info))
              (sum_list (accelerator_counts info)) 0) \<and>
         (InstanceTypeInfo i'
            = Some (info\<lparr>VCpuInfo := Some (vCpuInfo\<lparr>DefaultVCpus := Some v'\<rparr>)\<rparr>) \<and>
          sint v < sint v' \<and>
          price_formula (sint v') (sint m) (sum_list (gpu_counts info))
            (sum_list (accelerator_counts info)) 0 < 2 ^ 43 \<longrightarrow>
            (\<exists>p'. Price env i' = Some p' \<and> float64_val p < float64_val p'))"
proof -
  define G where "G = sum_list (gpu_counts info)"
  define Ac where "Ac = sum_list (accelerator_counts info)"
  define s where "s = local_storage info"
  define inner where "inner = (\<lambda>(w :: 64 word) g a.
     float64_add_mul (fused env)
       (float64_add_mul (fused env)
         (float64_add_mul (fused env)
           (float64_mul CPUCostWeight (float64_of_int (sint w)))
           MemoryMBCostWeight (float64_of_int (sint m)))
         GPUCostWeight g)
       InferenceCostWeight a)"
  from run obtain g a ls where
    g: "(case GpuInfo info of None \<Rightarrow> Some (0, 0)
         | Some gpuInfo \<Rightarrow> Price_gpus (Gpus gpuInfo) (0, 0)) = Some g"
    and a: "(case InferenceAcceleratorInfo info of None \<Rightarrow> Some (0, 0)
         | Some acceleratorInfo \<Rightarrow> Price_accelerators (Accelerators acceleratorInfo) (0, 0))
          = Some a"
    and ls: "(case InstanceStorageInfo info of None \<Rightarrow> Some (0, 0)
         | Some storageInfo \<Rightarrow> do {
             totalSizeInGB \<leftarrow> TotalSizeInGB storageInfo;
             Some (float64_add (0, 0) (float64_of_int (sint totalSizeInGB)))
           }) = Some ls"
    and p: "p = float64_add_mul (fused env) (inner v g a) ls LocalStorageWeight"
    unfolding Price_Some_iff [OF info] inner_def by blast
  have G0: "0 \<le> G" unfolding G_def using gpus by (rule sum_list_bounds)
  have A0: "0 \<le> Ac" unfolding Ac_def using accs by (rule sum_list_bounds)
  have N: "1024 * sint v + sint m + 5120 * G + 5120 * Ac < 2 ^ 53"
    using exact unfolding G_def Ac_def by (simp only: price_formula_exact_range)
  have G1: "G < 2 ^ 53" using N v m G0 A0 by simp
  have A1: "Ac < 2 ^ 53" using N v m G0 A0 by simp
  have vg: "float64_val g = of_int G"
    unfolding G_def using g gpus G1 [unfolded G_def] by (rule gpuCount_val)
  have va: "float64_val a = of_int Ac"
    unfolding Ac_def using a accs A1 [unfolded Ac_def] by (rule infCount_val)
  have vls: "float64_val ls = of_int s" unfolding s_def using ls storage by (rule localStorageGiBs_val)
  have s0: "0 \<le> s" "s < 2 ^ 53" unfolding s_def by (rule storage)+
  define \<sigma> :: rat where "\<sigma> = of_int (1024 * sint v + sint m + 5120 * G + 5120 * Ac) / 2 ^ 10"
  define q where "q = float64_val (added_product (fused env) ls LocalStorageWeight)"
  have S: "float64_val (inner v g a) = \<sigma>"
    unfolding inner_def \<sigma>_def using v m G0 A0 N vg va by (rule Price_inner_val)
  have r: "0 \<le> \<sigma>" "\<sigma> < 2 ^ 43"
    unfolding \<sigma>_def using v m G0 A0 N by (rule Price_inner_range)+
  have f: "price_formula (sint v) (sint m) G Ac s = \<sigma> + of_int s / 100"
    by (simp only: price_formula_inner \<sigma>_def)
  have "\<bar>float64_val p - (\<sigma> + of_int s / 100)\<bar> \<le> (\<sigma> + of_int s / 100) / 2 ^ 51"
    unfolding p using S r vls s0 by (rule Price_last_step(1))
  then have close: "\<bar>float64_val p - price_formula (sint v) (sint m) G Ac s\<bar>
                    \<le> price_formula (sint v) (sint m) G Ac s / 2 ^ 51"
    by (simp only: f)
  have e1: "\<bar>float64_val p - (\<sigma> + q)\<bar> \<le> 1 / 4"
    unfolding p q_def using S r vls s0 by (rule Price_last_step(2))
  have exact_sum: "float64_val p = price_formula (sint v) (sint m) G Ac 0" if "s = 0"
  proof -
    have "float64_val ls * float64_val LocalStorageWeight = of_int 0 / 2 ^ 10"
      using vls that by simp
    moreover have "\<bar>0::int\<bar> < 2 ^ 53" by simp
    moreover have "\<bar>(1024 * sint v + sint m + 5120 * G + 5120 * Ac) + 0\<bar> < 2 ^ 53"
      using v m G0 A0 N by simp
    ultimately have "float64_val (float64_add_mul (fused env) (inner v g a) ls LocalStorageWeight)
        = of_int ((1024 * sint v + sint m + 5120 * G + 5120 * Ac) + 0) / 2 ^ 10"
      using S [unfolded \<sigma>_def] by (intro float64_add_mul_exact)
    then show ?thesis by (simp add: p price_formula_inner)
  qed
  have mono: "\<exists>p'. Price env i' = Some p' \<and> float64_val p < float64_val p'"
    if i': "InstanceTypeInfo i'
              = Some (info\<lparr>VCpuInfo := Some (vCpuInfo\<lparr>DefaultVCpus := Some v'\<rparr>)\<rparr>)"
      and less: "sint v < sint v'"
      and exact': "price_formula (sint v') (sint m) G Ac 0 < 2 ^ 43"
  proof -
    have run': "Price env i'
                = Some (float64_add_mul (fused env) (inner v' g a) ls LocalStorageWeight)"
      unfolding inner_def
      using g a ls info
      by (subst Price_Some_iff [OF i', where vi = "vCpuInfo\<lparr>DefaultVCpus := Some v'\<rparr>"
            and v = v' and mi = memoryInfo and m = m]) simp_all
    have v'0: "0 \<le> sint v'" using v less by simp
    have N': "1024 * sint v' + sint m + 5120 * G + 5120 * Ac < 2 ^ 53"
      using exact' by (simp only: price_formula_exact_range)
    define \<sigma>' :: rat
      where "\<sigma>' = of_int (1024 * sint v' + sint m + 5120 * G + 5120 * Ac) / 2 ^ 10"
    have S': "float64_val (inner v' g a) = \<sigma>'"
      unfolding inner_def \<sigma>'_def using v'0 m G0 A0 N' vg va by (rule Price_inner_val)
    have r': "0 \<le> \<sigma>'" "\<sigma>' < 2 ^ 43"
      unfolding \<sigma>'_def using v'0 m G0 A0 N' by (rule Price_inner_range)+
    have e1': "\<bar>float64_val (float64_add_mul (fused env) (inner v' g a) ls LocalStorageWeight)
                - (\<sigma>' + q)\<bar> \<le> 1 / 4"
      unfolding q_def using S' r' vls s0 by (rule Price_last_step(2))
    have step: "\<sigma> + 1 \<le> \<sigma>'"
    proof -
      have "1024 * sint v + sint m + 5120 * G + 5120 * Ac + 1024
            \<le> 1024 * sint v' + sint m + 5120 * G + 5120 * Ac"
        using less by simp
      then have "(of_int (1024 * sint v + sint m + 5120 * G + 5120 * Ac + 1024) :: rat)
            \<le> of_int (1024 * sint v' + sint m + 5120 * G + 5120 * Ac)"
        by (simp only: of_int_le_iff)
      then have "(of_int (1024 * sint v + sint m + 5120 * G + 5120 * Ac + 1024) :: rat) / 2 ^ 10
            \<le> of_int (1024 * sint v' + sint m + 5120 * G + 5120 * Ac) / 2 ^ 10"
        by (rule divide_right_mono) simp
      then show ?thesis by (simp add: \<sigma>_def \<sigma>'_def add_divide_distrib)
    qed
    have "float64_val p
          < float64_val (float64_add_mul (fused env) (inner v' g a) ls LocalStorageWeight)"
      using e1 e1' step by linarith
    then show ?thesis using run' by simp
  qed
  show ?thesis
    using close exact_sum mono unfolding G_def Ac_def s_def by simp
qed

lemma example_counts:
  "gpu_counts (example_info\<lparr>VCpuInfo := vCpuInfo, MemoryInfo := memoryInfo\<rparr>) = []"
  "accelerator_counts (example_info\<lparr>VCpuInfo := vCpuInfo, MemoryInfo := memoryInfo\<rparr>) = []"
  "local_storage (example_info\<lparr>VCpuInfo := vCpuInfo, MemoryInfo := memoryInfo\<rparr>) = 0"
  by (simp_all add: gpu_counts_def accelerator_counts_def local_storage_def example_info_def)

lemma example_counts_gpu:
  "gpu_counts (example_info\<lparr>GpuInfo := Some \<lparr>Gpus = [Some example_gpu]\<rparr>,
      InstanceStorageInfo := Some \<lparr>TotalSizeInGB = Some 1\<rparr>\<rparr>) = [8]"
  "accelerator_counts (example_info\<lparr>GpuInfo := Some \<lparr>Gpus = [Some example_gpu]\<rparr>,
      InstanceStorageInfo := Some \<lparr>TotalSizeInGB = Some 1\<rparr>\<rparr>) = []"
  "local_storage (example_info\<lparr>GpuInfo := Some \<lparr>Gpus = [Some example_gpu]\<rparr>,
      InstanceStorageInfo := Some \<lparr>TotalSizeInGB = Some 1\<rparr>\<rparr>) = 1"
  by (simp_all add: gpu_counts_def accelerator_counts_def local_storage_def example_info_def
      example_gpu_def List.map_filter_simps)

lemma example_type_info: "InstanceTypeInfo (example_type info) = Some info"
  by (simp add: example_type_def)

lemma example_info_fields:
  "VCpuInfo (example_info\<lparr>VCpuInfo := vCpuInfo, MemoryInfo := memoryInfo\<rparr>) = vCpuInfo"
  "InstanceTypeInfo.MemoryInfo (example_info\<lparr>VCpuInfo := vCpuInfo, MemoryInfo := memoryInfo\<rparr>)
   = memoryInfo"
  by simp_all

lemma example_price:
  "Price example_env
     (example_type (example_info\<lparr>VCpuInfo := Some \<lparr>DefaultVCpus = Some 2\<rparr>,
        MemoryInfo := Some \<lparr>MemoryInfo.SizeInMiB = Some 8192\<rparr>\<rparr>))
   = Some (5629499534213120, - 49)"
  "Price example_env
     (example_type (example_info\<lparr>VCpuInfo := Some \<lparr>DefaultVCpus = Some 4\<rparr>,
        MemoryInfo := Some \<lparr>MemoryInfo.SizeInMiB = Some 8192\<rparr>\<rparr>))
   = Some (6755399441055744, - 49)"
  "Price example_env
     (example_type (example_info\<lparr>VCpuInfo := Some \<lparr>DefaultVCpus = Some 2147483647\<rparr>,
        MemoryInfo := Some \<lparr>MemoryInfo.SizeInMiB = Some 8192\<rparr>\<rparr>))
   = Some (4503599642050560, - 21)"
  "Price example_env
     (example_type (example_info\<lparr>VCpuInfo := Some \<lparr>DefaultVCpus = Some 2147483648\<rparr>,
        MemoryInfo := Some \<lparr>MemoryInfo.SizeInMiB = Some 8192\<rparr>\<rparr>))
   = Some (4503599644147712, - 21)"
  "Price example_env
     (example_type (example_info\<lparr>VCpuInfo := Some \<lparr>DefaultVCpus = Some 8796093022207\<rparr>,
        MemoryInfo := Some \<lparr>MemoryInfo.SizeInMiB = Some 1023\<rparr>\<rparr>))
   = Some (9007199254740991, - 10)"
  by code_simp+

lemma example_price_gpu:
  "Price example_env (example_type (example_info\<lparr>GpuInfo := Some \<lparr>Gpus = [Some example_gpu]\<rparr>,
      InstanceStorageInfo := Some \<lparr>TotalSizeInGB = Some 1\<rparr>\<rparr>))
   = Some (7038281792649953, - 47)"
  "Price example_env (example_type (example_info\<lparr>GpuInfo := Some \<lparr>Gpus = [Some example_gpu]\<rparr>,
      InstanceStorageInfo := Some \<lparr>TotalSizeInGB = Some 1\<rparr>,
      VCpuInfo := Some \<lparr>DefaultVCpus = Some 4\<rparr>\<rparr>))
   = Some (7319756769360609, - 47)"
  by code_simp+

theorem price_weighted_sum_witness:
  "Price example_env
     (example_type (example_info\<lparr>VCpuInfo := Some \<lparr>DefaultVCpus = Some 2\<rparr>,
        MemoryInfo := Some \<lparr>MemoryInfo.SizeInMiB = Some 8192\<rparr>\<rparr>))
   = Some (5629499534213120, - 49) \<and>
   float64_val (5629499534213120, - 49) = price_formula 2 8192 0 0 0 \<and>
   float64_val (5629499534213120, - 49)
     < float64_val (the (Price example_env
         (example_type (example_info\<lparr>VCpuInfo := Some \<lparr>DefaultVCpus = Some 4\<rparr>,
            MemoryInfo := Some \<lparr>MemoryInfo.SizeInMiB = Some 8192\<rparr>\<rparr>)))) \<and>
   Price example_env
     (example_type (example_info\<lparr>VCpuInfo := Some \<lparr>DefaultVCpus = Some 2147483647\<rparr>,
        MemoryInfo := Some \<lparr>MemoryInfo.SizeInMiB = Some 8192\<rparr>\<rparr>))
   = Some (4503599642050560, - 21) \<and>
   float64_val (4503599642050560, - 21) = price_formula 2147483647 8192 0 0 0 \<and>
   float64_val (4503599642050560, - 21)
     < float64_val (the (Price example_env
         (example_type (example_info\<lparr>VCpuInfo := Some \<lparr>DefaultVCpus = Some 2147483648\<rparr>,
            MemoryInfo := Some \<lparr>MemoryInfo.SizeInMiB = Some 8192\<rparr>\<rparr>)))) \<and>
   Price example_env
     (example_type (example_info\<lparr>VCpuInfo := Some \<lparr>DefaultVCpus = Some 8796093022207\<rparr>,
        MemoryInfo := Some \<lparr>MemoryInfo.SizeInMiB = Some 1023\<rparr>\<rparr>))
   = Some (9007199254740991, - 10) \<and>
   float64_val (9007199254740991, - 10) = price_formula 8796093022207 1023 0 0 0 \<and>
   Price example_env (example_type (example_info\<lparr>GpuInfo := Some \<lparr>Gpus = [Some example_gpu]\<rparr>,
      InstanceStorageInfo := Some \<lparr>TotalSizeInGB = Some 1\<rparr>\<rparr>))
     = Some (7038281792649953, - 47) \<and>
   \<bar>float64_val (7038281792649953, - 47) - price_formula 2 8192 8 0 1\<bar>
     \<le> price_formula 2 8192 8 0 1 / 2 ^ 51 \<and>
   float64_val (7038281792649953, - 47)
     < float64_val (the (Price example_env
         (example_type (example_info\<lparr>GpuInfo := Some \<lparr>Gpus = [Some example_gpu]\<rparr>,
            InstanceStorageInfo := Some \<lparr>TotalSizeInGB = Some 1\<rparr>,
            VCpuInfo := Some \<lparr>DefaultVCpus = Some 4\<rparr>\<rparr>))))"
proof -
  let ?gpu = "example_info\<lparr>GpuInfo := Some \<lparr>Gpus = [Some example_gpu]\<rparr>,
      InstanceStorageInfo := Some \<lparr>TotalSizeInGB = Some 1\<rparr>\<rparr>"
  let ?mem = "Some \<lparr>MemoryInfo.SizeInMiB = Some 8192\<rparr>"
  have plain: "float64_val (5629499534213120, - 49) = price_formula 2 8192 0 0 0 \<and>
      float64_val (5629499534213120, - 49)
        < float64_val (the (Price example_env
            (example_type (example_info\<lparr>VCpuInfo := Some \<lparr>DefaultVCpus = Some 4\<rparr>,
               MemoryInfo := ?mem\<rparr>))))"
    using price_weighted_sum [where env = example_env and v = 2 and m = 8192 and v' = 4
        and vCpuInfo = "\<lparr>DefaultVCpus = Some 2\<rparr>"
        and memoryInfo = "\<lparr>MemoryInfo.SizeInMiB = Some 8192\<rparr>"
        and info = "example_info\<lparr>VCpuInfo := Some \<lparr>DefaultVCpus = Some 2\<rparr>, MemoryInfo := ?mem\<rparr>"
        and i = "example_type (example_info\<lparr>VCpuInfo := Some \<lparr>DefaultVCpus = Some 2\<rparr>,
           MemoryInfo := ?mem\<rparr>)"
        and p = "(5629499534213120, - 49)"
        and i' = "example_type (example_info\<lparr>VCpuInfo := Some \<lparr>DefaultVCpus = Some 4\<rparr>,
           MemoryInfo := ?mem\<rparr>)",
        OF example_type_info example_info_fields(1) _ example_info_fields(2) _ example_price(1)]
    by (auto simp add: example_counts example_type_info price_formula_def)
  have large: "float64_val (4503599642050560, - 21) = price_formula 2147483647 8192 0 0 0 \<and>
      float64_val (4503599642050560, - 21)
        < float64_val (the (Price example_env
            (example_type (example_info\<lparr>VCpuInfo := Some \<lparr>DefaultVCpus = Some 2147483648\<rparr>,
               MemoryInfo := ?mem\<rparr>))))"
    using price_weighted_sum [where env = example_env and v = 2147483647 and m = 8192
        and v' = 2147483648
        and vCpuInfo = "\<lparr>DefaultVCpus = Some 2147483647\<rparr>"
        and memoryInfo = "\<lparr>MemoryInfo.SizeInMiB = Some 8192\<rparr>"
        and info = "example_info\<lparr>VCpuInfo := Some \<lparr>DefaultVCpus = Some 2147483647\<rparr>,
           MemoryInfo := ?mem\<rparr>"
        and i = "example_type (example_info\<lparr>VCpuInfo := Some \<lparr>DefaultVCpus = Some 2147483647\<rparr>,
           MemoryInfo := ?mem\<rparr>)"
        and p = "(4503599642050560, - 21)"
        and i' = "example_type (example_info\<lparr>VCpuInfo := Some \<lparr>DefaultVCpus = Some 2147483648\<rparr>,
           MemoryInfo := ?mem\<rparr>)",
        OF example_type_info example_info_fields(1) _ example_info_fields(2) _ example_price(3)]
    by (auto simp add: example_counts example_type_info price_formula_def)
  have top: "float64_val (9007199254740991, - 10) = price_formula 8796093022207 1023 0 0 0"
    using price_weighted_sum [where env = example_env and v = 8796093022207 and m = 1023
        and vCpuInfo = "\<lparr>DefaultVCpus = Some 8796093022207\<rparr>"
        and memoryInfo = "\<lparr>MemoryInfo.SizeInMiB = Some 1023\<rparr>"
        and info = "example_info\<lparr>VCpuInfo := Some \<lparr>DefaultVCpus = Some 8796093022207\<rparr>,
           MemoryInfo := Some \<lparr>MemoryInfo.SizeInMiB = Some 1023\<rparr>\<rparr>"
        and i = "example_type (example_info\<lparr>VCpuInfo := Some \<lparr>DefaultVCpus = Some 8796093022207\<rparr>,
           MemoryInfo := Some \<lparr>MemoryInfo.SizeInMiB = Some 1023\<rparr>\<rparr>)"
        and p = "(9007199254740991, - 10)",
        OF example_type_info example_info_fields(1) _ example_info_fields(2) _ example_price(5)]
    by (simp add: example_counts price_formula_def)
  have "\<bar>float64_val (7038281792649953, - 47)
          - price_formula (sint (2 :: int64)) (sint (8192 :: int64))
              (sum_list (gpu_counts ?gpu)) (sum_list (accelerator_counts ?gpu))
              (local_storage ?gpu)\<bar>
        \<le> price_formula (sint (2 :: int64)) (sint (8192 :: int64))
              (sum_list (gpu_counts ?gpu)) (sum_list (accelerator_counts ?gpu))
              (local_storage ?gpu) / 2 ^ 51 \<and>
      (local_storage ?gpu = 0 \<longrightarrow>
         float64_val (7038281792649953, - 47)
         = price_formula (sint (2 :: int64)) (sint (8192 :: int64))
             (sum_list (gpu_counts ?gpu)) (sum_list (accelerator_counts ?gpu)) 0) \<and>
      (InstanceTypeInfo (example_type (?gpu\<lparr>VCpuInfo := Some \<lparr>DefaultVCpus = Some 4\<rparr>\<rparr>))
         = Some (?gpu\<lparr>VCpuInfo := Some (\<lparr>DefaultVCpus = Some 2\<rparr>\<lparr>DefaultVCpus := Some 4\<rparr>)\<rparr>) \<and>
       sint (2 :: int64) < sint (4 :: int64) \<and>
       price_formula (sint (4 :: int64)) (sint (8192 :: int64))
         (sum_list (gpu_counts ?gpu)) (sum_list (accelerator_counts ?gpu)) 0 < 2 ^ 43 \<longrightarrow>
       (\<exists>p'. Price example_env
          (example_type (?gpu\<lparr>VCpuInfo := Some \<lparr>DefaultVCpus = Some 4\<rparr>\<rparr>)) = Some p' \<and>
        float64_val (7038281792649953, - 47) < float64_val p'))"
    by (rule price_weighted_sum [where vCpuInfo = "\<lparr>DefaultVCpus = Some 2\<rparr>"
          and memoryInfo = "\<lparr>MemoryInfo.SizeInMiB = Some 8192\<rparr>"
          and i = "example_type ?gpu"])
      (simp_all add: example_price_gpu example_counts_gpu price_formula_def,
       simp_all add: example_type_def example_info_def)
  then have gpu: "\<bar>float64_val (7038281792649953, - 47) - price_formula 2 8192 8 0 1\<bar>
        \<le> price_formula 2 8192 8 0 1 / 2 ^ 51 \<and>
      float64_val (7038281792649953, - 47)
        < float64_val (the (Price example_env
            (example_type (?gpu\<lparr>VCpuInfo := Some \<lparr>DefaultVCpus = Some 4\<rparr>\<rparr>))))"
    by (auto simp add: example_counts_gpu example_type_info price_formula_def)
  show ?thesis
    using plain large top gpu example_price(1,3,5) example_price_gpu(1) by simp
qed

text \<open>The bound \<open>2 ^ 43\<close> on the first four terms is the first value where the claim
  fails: for \<open>2 ^ 43\<close> vCPUs and 1 MiB the sum \<open>2 ^ 43 + 1 / 1024\<close> needs 54 bits and the
  price is \<open>2 ^ 43\<close>. The prices for \<open>2 ^ 52 + 1\<close> and \<open>2 ^ 52 + 2\<close> vCPUs with 512 MiB are
  the same.\<close>

lemma price_bounds_tight:
  "Price example_env
     (example_type (example_info\<lparr>VCpuInfo := Some \<lparr>DefaultVCpus = Some 8796093022208\<rparr>,
        MemoryInfo := Some \<lparr>MemoryInfo.SizeInMiB = Some 1\<rparr>\<rparr>))
   = Some (4503599627370496, - 9)"
  "float64_val (4503599627370496, - 9) \<noteq> price_formula 8796093022208 1 0 0 0"
  "Price example_env
     (example_type (example_info\<lparr>VCpuInfo := Some \<lparr>DefaultVCpus = Some 4503599627370497\<rparr>,
        MemoryInfo := Some \<lparr>MemoryInfo.SizeInMiB = Some 512\<rparr>\<rparr>))
   = Some (4503599627370498, 0)"
  "Price example_env
     (example_type (example_info\<lparr>VCpuInfo := Some \<lparr>DefaultVCpus = Some 4503599627370498\<rparr>,
        MemoryInfo := Some \<lparr>MemoryInfo.SizeInMiB = Some 512\<rparr>\<rparr>))
   = Some (4503599627370498, 0)"
proof -
  show "Price example_env
     (example_type (example_info\<lparr>VCpuInfo := Some \<lparr>DefaultVCpus = Some 8796093022208\<rparr>,
        MemoryInfo := Some \<lparr>MemoryInfo.SizeInMiB = Some 1\<rparr>\<rparr>))
   = Some (4503599627370496, - 9)" by code_simp
  show "float64_val (4503599627370496, - 9) \<noteq> price_formula 8796093022208 1 0 0 0"
    by (simp add: float64_val_def price_formula_def)
  show "Price example_env
     (example_type (example_info\<lparr>VCpuInfo := Some \<lparr>DefaultVCpus = Some 4503599627370497\<rparr>,
        MemoryInfo := Some \<lparr>MemoryInfo.SizeInMiB = Some 512\<rparr>\<rparr>))
   = Some (4503599627370498, 0)" by code_simp
  show "Price example_env
     (example_type (example_info\<lparr>VCpuInfo := Some \<lparr>DefaultVCpus = Some 4503599627370498\<rparr>,
        MemoryInfo := Some \<lparr>MemoryInfo.SizeInMiB = Some 512\<rparr>\<rparr>))
   = Some (4503599627370498, 0)" by code_simp
qed

text \<open>A vCPU count is an \<^verbatim>\<open>int64\<close>, and \<^verbatim>\<open>float64\<close> has 53 bits: the counts
  \<open>2 ^ 53\<close> and \<open>2 ^ 53 + 1\<close> become the same \<^verbatim>\<open>float64\<close>, so the price of
  claim C9 does not increase from one to the other, and for the second it is not the
  weighted sum.\<close>

theorem price_not_monotone_counterexample:
  "Price example_env
     (example_type (example_info\<lparr>VCpuInfo := Some \<lparr>DefaultVCpus = Some 9007199254740992\<rparr>\<rparr>))
   = Some (4503599627370500, 1) \<and>
   Price example_env
     (example_type (example_info\<lparr>VCpuInfo := Some \<lparr>DefaultVCpus = Some 9007199254740993\<rparr>\<rparr>))
   = Some (4503599627370500, 1) \<and>
   Price (example_env\<lparr>fused := True\<rparr>)
     (example_type (example_info\<lparr>VCpuInfo := Some \<lparr>DefaultVCpus = Some 9007199254740992\<rparr>\<rparr>))
   = Some (4503599627370500, 1) \<and>
   Price (example_env\<lparr>fused := True\<rparr>)
     (example_type (example_info\<lparr>VCpuInfo := Some \<lparr>DefaultVCpus = Some 9007199254740993\<rparr>\<rparr>))
   = Some (4503599627370500, 1) \<and>
   float64_val (4503599627370500, 1) \<noteq> price_formula 9007199254740993 8192 0 0 0"
proof -
  have a: "Price example_env
     (example_type (example_info\<lparr>VCpuInfo := Some \<lparr>DefaultVCpus = Some 9007199254740992\<rparr>\<rparr>))
   = Some (4503599627370500, 1)" by code_simp
  have b: "Price example_env
     (example_type (example_info\<lparr>VCpuInfo := Some \<lparr>DefaultVCpus = Some 9007199254740993\<rparr>\<rparr>))
   = Some (4503599627370500, 1)" by code_simp
  have c: "Price (example_env\<lparr>fused := True\<rparr>)
     (example_type (example_info\<lparr>VCpuInfo := Some \<lparr>DefaultVCpus = Some 9007199254740992\<rparr>\<rparr>))
   = Some (4503599627370500, 1)" by code_simp
  have d: "Price (example_env\<lparr>fused := True\<rparr>)
     (example_type (example_info\<lparr>VCpuInfo := Some \<lparr>DefaultVCpus = Some 9007199254740993\<rparr>\<rparr>))
   = Some (4503599627370500, 1)" by code_simp
  have e: "float64_val (4503599627370500, 1) \<noteq> price_formula 9007199254740993 8192 0 0 0"
    by (simp add: float64_val_def price_formula_def)
  show ?thesis using a b c d e by (intro conjI)
qed

end
